theory Spec2Isabelle
  imports Main
begin

section \<open>Python numbers\<close>

text \<open>
  The services compute on Python \<open>float\<close>s, which are IEEE-754 binary64 values. A finite
  double is a dyadic rational: \<open>Fin m e\<close> stands for \<open>m * 2 ^ e\<close>. The values produced by
  the operations below are normalised (\<open>m\<close> odd, or \<open>m = 0\<close> and \<open>e = 0\<close>), so that equal
  numbers are equal terms. The two zeros \<open>0.0\<close> and \<open>-0.0\<close> are one value here: Python's
  \<open>==\<close>, \<open><\<close>, truth test and \<open>ZeroDivisionError\<close> check do not tell them apart, and
  no operation of the services produces different numbers from them. Python's \<open>int\<close>
  literals \<open>0\<close> and \<open>1\<close> that the services mix with floats are written as the floats of
  the same value.
\<close>

datatype pyfloat = Fin int int | PInf | NInf | NaN

function bit_length :: "int \<Rightarrow> int" where
  "bit_length n = (if n \<le> 0 then 0 else 1 + bit_length (n div 2))"
  by pat_completeness auto
termination
  by (relation "measure nat") auto

declare bit_length.simps [simp del]

function norm_dy :: "int \<Rightarrow> int \<Rightarrow> int \<times> int" where
  "norm_dy m e = (if m = 0 then (0, 0)
                  else if even m then norm_dy (m div 2) (e + 1) else (m, e))"
  by pat_completeness auto
termination
  by (relation "measure (\<lambda>(m, e). nat \<bar>m\<bar>)") auto

declare norm_dy.simps [simp del]

text \<open>\<open>rhe_div n d\<close> is the integer nearest to \<open>n / d\<close> (for \<open>0 < d\<close>), ties to even.\<close>

definition rhe_div :: "int \<Rightarrow> int \<Rightarrow> int" where
  "rhe_div n d =
     (let f = n div d; r = n mod d
      in if 2 * r < d then f else if d < 2 * r then f + 1
         else if even f then f else f + 1)"

text \<open>
  \<open>round_pos p q\<close> is the double nearest to \<open>p / q\<close> for \<open>0 < p\<close> and \<open>0 < q\<close>
  (round to nearest, ties to even): \<open>e0\<close> is \<open>\<lfloor>log\<^sub>2 (p / q)\<rfloor>\<close>, the mantissa has 53 bits
  above the smallest exponent \<open>-1074\<close>, and a result of \<open>2 ^ 1024\<close> or more is infinite.
\<close>

definition round_pos :: "int \<Rightarrow> int \<Rightarrow> pyfloat" where
  "round_pos p q =
     (let d = bit_length p - bit_length q;
          e0 = (if 0 \<le> d then (if q * 2 ^ nat d \<le> p then d else d - 1)
                else (if q \<le> p * 2 ^ nat (- d) then d else d - 1));
          e = max (e0 - 52) (- 1074);
          m = (if 0 \<le> e then rhe_div p (q * 2 ^ nat e)
               else rhe_div (p * 2 ^ nat (- e)) q)
      in if 0 \<le> e \<and> 2 ^ 1024 \<le> m * 2 ^ nat e then PInf
         else (case norm_dy m e of (m', e') \<Rightarrow> Fin m' e'))"

fun fneg :: "pyfloat \<Rightarrow> pyfloat" where
  "fneg (Fin m e) = Fin (- m) e"
| "fneg PInf = NInf"
| "fneg NInf = PInf"
| "fneg NaN = NaN"

text \<open>
  \<open>fl_ratio p q\<close> is the double nearest to the rational \<open>p / q\<close>. A decimal literal of the
  source is such a value: \<open>0.088\<close> is \<open>fl_ratio 88 1000\<close>.
\<close>

definition fl_ratio :: "int \<Rightarrow> int \<Rightarrow> pyfloat" where
  "fl_ratio p q =
     (if q = 0 then NaN
      else if q < 0 then
        (if p = 0 then Fin 0 0 else if p < 0 then round_pos (- p) (- q)
         else fneg (round_pos p (- q)))
      else
        (if p = 0 then Fin 0 0 else if 0 < p then round_pos p q
         else fneg (round_pos (- p) q)))"

text \<open>\<open>fl_dy m e\<close> is the double nearest to \<open>m * 2 ^ e\<close>.\<close>

definition fl_dy :: "int \<Rightarrow> int \<Rightarrow> pyfloat" where
  "fl_dy m e = (if 0 \<le> e then fl_ratio (m * 2 ^ nat e) 1 else fl_ratio m (2 ^ nat (- e)))"

definition is_nan :: "pyfloat \<Rightarrow> bool" where
  "is_nan x = (case x of NaN \<Rightarrow> True | _ \<Rightarrow> False)"

text \<open>The sign of a value that is not a NaN: \<open>-1\<close>, \<open>0\<close> or \<open>1\<close>.\<close>

fun fsign :: "pyfloat \<Rightarrow> int" where
  "fsign (Fin m e) = sgn m"
| "fsign PInf = 1"
| "fsign NInf = - 1"
| "fsign NaN = 0"

text \<open>Python's \<open>x + y\<close> on floats.\<close>

definition fadd :: "pyfloat \<Rightarrow> pyfloat \<Rightarrow> pyfloat" where
  "fadd x y =
     (case (x, y) of
        (Fin m1 e1, Fin m2 e2) \<Rightarrow>
          (let e = min e1 e2 in fl_dy (m1 * 2 ^ nat (e1 - e) + m2 * 2 ^ nat (e2 - e)) e)
      | (Fin m1 e1, _) \<Rightarrow> y
      | (_, Fin m2 e2) \<Rightarrow> x
      | _ \<Rightarrow> if is_nan x \<or> is_nan y \<or> x \<noteq> y then NaN else x)"

text \<open>Python's \<open>x * y\<close> on floats.\<close>

definition fmul :: "pyfloat \<Rightarrow> pyfloat \<Rightarrow> pyfloat" where
  "fmul x y =
     (case (x, y) of
        (Fin m1 e1, Fin m2 e2) \<Rightarrow> fl_dy (m1 * m2) (e1 + e2)
      | _ \<Rightarrow> if is_nan x \<or> is_nan y \<or> fsign x * fsign y = 0 then NaN
             else if 0 < fsign x * fsign y then PInf else NInf)"

text \<open>Python's truth test of a float: every value but zero is true, NaN too.\<close>

fun ftruthy :: "pyfloat \<Rightarrow> bool" where
  "ftruthy (Fin m e) = (m \<noteq> 0)"
| "ftruthy _ = True"

text \<open>Python's \<open>x > 0\<close> on a float.\<close>

fun fgt0 :: "pyfloat \<Rightarrow> bool" where
  "fgt0 (Fin m e) = (0 < m)"
| "fgt0 PInf = True"
| "fgt0 _ = False"

text \<open>Python's \<open>x <= y\<close> on floats: false as soon as one side is a NaN.\<close>

definition fle :: "pyfloat \<Rightarrow> pyfloat \<Rightarrow> bool" where
  "fle x y =
     (case (x, y) of
        (Fin m1 e1, Fin m2 e2) \<Rightarrow>
          (let e = min e1 e2 in m1 * 2 ^ nat (e1 - e) \<le> m2 * 2 ^ nat (e2 - e))
      | (NaN, _) \<Rightarrow> False
      | (_, NaN) \<Rightarrow> False
      | (NInf, _) \<Rightarrow> True
      | (_, PInf) \<Rightarrow> True
      | _ \<Rightarrow> False)"

datatype error =
  AttributeError | TypeError | ValueError | OverflowError | ZeroDivisionError
  | ConnectError | TimeoutException | HTTPStatusError

text \<open>
  Python's \<open>x / y\<close> on floats raises \<open>ZeroDivisionError\<close> when the divisor is zero, whatever
  the dividend is.
\<close>

definition fdiv :: "pyfloat \<Rightarrow> pyfloat \<Rightarrow> error + pyfloat" where
  "fdiv x y =
     (case (x, y) of
        (_, Fin m2 e2) \<Rightarrow>
          (if m2 = 0 then Inl ZeroDivisionError
           else (case x of
                   Fin m1 e1 \<Rightarrow>
                     Inr (if e2 \<le> e1 then fl_ratio (m1 * 2 ^ nat (e1 - e2)) m2
                          else fl_ratio m1 (m2 * 2 ^ nat (e2 - e1)))
                 | NaN \<Rightarrow> Inr NaN
                 | _ \<Rightarrow> Inr (if 0 < fsign x * sgn m2 then PInf else NInf)))
      | (Fin m1 e1, _) \<Rightarrow> Inr (if is_nan y then NaN else Fin 0 0)
      | _ \<Rightarrow> Inr NaN)"

text \<open>
  Python's \<open>round(x, n)\<close> for a float \<open>x\<close> and \<open>0 \<le> n\<close>: infinities and NaN are returned
  as they are; a finite \<open>x\<close> is rounded, from its exact value, to the nearest multiple of
  \<open>10 ^ -n\<close> with ties to even, and the double nearest to that decimal is returned.
\<close>

fun py_round :: "pyfloat \<Rightarrow> nat \<Rightarrow> pyfloat" where
  "py_round (Fin m e) n =
     fl_ratio (if 0 \<le> e then m * 2 ^ nat e * 10 ^ n
               else rhe_div (m * 10 ^ n) (2 ^ nat (- e))) (10 ^ n)"
| "py_round x n = x"

text \<open>
  Python's \<open>sum\<close> over an iterable of numbers starts from \<open>0\<close> and adds the items from
  left to right.
\<close>

definition py_sum :: "pyfloat list \<Rightarrow> pyfloat" where
  "py_sum xs = foldl fadd (Fin 0 0) xs"

section \<open>Python values, as decoded from JSON\<close>

datatype pyval =
  PNone | PBool bool | PInt int | PFloat pyfloat | PStr string
  | PList "pyval list" | PDict "(string \<times> pyval) list"

text \<open>
  A \<open>PDict\<close> lists the items of a dict; the first item of a key is the key's value.
\<close>

definition ebind :: "error + 'a \<Rightarrow> ('a \<Rightarrow> error + 'b) \<Rightarrow> error + 'b" where
  "ebind m f = (case m of Inl e \<Rightarrow> Inl e | Inr x \<Rightarrow> f x)"

text \<open>A loop that builds a list and stops at the first exception.\<close>

fun emap :: "('a \<Rightarrow> error + 'b) \<Rightarrow> 'a list \<Rightarrow> error + 'b list" where
  "emap f [] = Inr []"
| "emap f (x # xs) = ebind (f x) (\<lambda>y. ebind (emap f xs) (\<lambda>ys. Inr (y # ys)))"

text \<open>\<open>d.get(k, default)\<close>: only a dict has the method.\<close>

fun py_get :: "pyval \<Rightarrow> string \<Rightarrow> pyval \<Rightarrow> error + pyval" where
  "py_get (PDict kvs) k d = Inr (case map_of kvs k of None \<Rightarrow> d | Some v \<Rightarrow> v)"
| "py_get _ k d = Inl AttributeError"

text \<open>
  \<open>float(v)\<close>. The conversion of a string depends on Python's number syntax, which is not
  part of the services: it is the parameter \<open>fstr\<close>, \<open>None\<close> where \<open>float\<close> raises
  \<open>ValueError\<close>.
\<close>

fun py_float :: "(string \<Rightarrow> pyfloat option) \<Rightarrow> pyval \<Rightarrow> error + pyfloat" where
  "py_float fstr (PFloat x) = Inr x"
| "py_float fstr (PInt n) =
     (case fl_ratio n 1 of Fin m e \<Rightarrow> Inr (Fin m e) | _ \<Rightarrow> Inl OverflowError)"
| "py_float fstr (PBool b) = Inr (if b then Fin 1 0 else Fin 0 0)"
| "py_float fstr (PStr s) = (case fstr s of None \<Rightarrow> Inl ValueError | Some x \<Rightarrow> Inr x)"
| "py_float fstr _ = Inl TypeError"

fun truthy :: "pyval \<Rightarrow> bool" where
  "truthy PNone = False"
| "truthy (PBool b) = b"
| "truthy (PInt n) = (n \<noteq> 0)"
| "truthy (PFloat x) = ftruthy x"
| "truthy (PStr s) = (s \<noteq> [])"
| "truthy (PList xs) = (xs \<noteq> [])"
| "truthy (PDict kvs) = (kvs \<noteq> [])"

text \<open>\<open>v or d\<close>.\<close>

definition py_or :: "pyval \<Rightarrow> pyval \<Rightarrow> pyval" where
  "py_or v d = (if truthy v then v else d)"

text \<open>
  \<open>for x in v\<close>: a list gives its elements, a dict its keys, a string its characters;
  the other values are not iterable.
\<close>

fun py_iter :: "pyval \<Rightarrow> error + pyval list" where
  "py_iter (PList xs) = Inr xs"
| "py_iter (PDict kvs) = Inr (map PStr (remdups (map fst kvs)))"
| "py_iter (PStr s) = Inr (map (\<lambda>c. PStr [c]) s)"
| "py_iter _ = Inl TypeError"

text \<open>
  The integer a value is equal to under Python's \<open>==\<close> (and under the hash and equality of
  a dict key), if there is one: \<open>1 == 1.0 == True\<close>.
\<close>

fun int_value :: "pyval \<Rightarrow> int option" where
  "int_value (PInt n) = Some n"
| "int_value (PBool b) = Some (if b then 1 else 0)"
| "int_value (PFloat (Fin m e)) =
     (if 0 \<le> e then Some (m * 2 ^ nat e)
      else if m mod 2 ^ nat (- e) = 0 then Some (m div 2 ^ nat (- e)) else None)"
| "int_value _ = None"

section \<open>Configuration tables of \<open>transicao_service\<close>\<close>

text \<open>
  The display strings of the tables are UTF-8; the letters outside ASCII are spelled out
  as their bytes.
\<close>

definition u_aacute :: string where "u_aacute = [CHR 0xC3, CHR 0xA1]"
definition u_atilde :: string where "u_atilde = [CHR 0xC3, CHR 0xA3]"
definition u_ccedil :: string where "u_ccedil = [CHR 0xC3, CHR 0xA7]"
definition u_eacute :: string where "u_eacute = [CHR 0xC3, CHR 0xA9]"
definition u_ecirc :: string where "u_ecirc = [CHR 0xC3, CHR 0xAA]"
definition u_iacute :: string where "u_iacute = [CHR 0xC3, CHR 0xAD]"
definition u_oacute :: string where "u_oacute = [CHR 0xC3, CHR 0xB3]"
definition u_otilde :: string where "u_otilde = [CHR 0xC3, CHR 0xB5]"
definition u_mdash :: string where "u_mdash = [CHR 0xE2, CHR 0x80, CHR 0x94]"

record is_category =
  cat_prefixes :: "string list"
  cat_rate :: pyfloat
  cat_desc :: string

definition IS_CATEGORIES :: "is_category list" where
  "IS_CATEGORIES =
    [\<lparr>cat_prefixes = [''2401'', ''2402'', ''2403''],
      cat_rate = fl_ratio 100 100,
      cat_desc = ''Produtos fum'' @ u_iacute @ ''genos (tabaco/cigarro)''\<rparr>,
     \<lparr>cat_prefixes = [''2203'', ''2204'', ''2205'', ''2206'', ''2207'', ''2208''],
      cat_rate = fl_ratio 20 100,
      cat_desc = ''Bebidas alco'' @ u_oacute @ ''licas''\<rparr>,
     \<lparr>cat_prefixes = [''2202''],
      cat_rate = fl_ratio 20 100,
      cat_desc = ''Bebidas a'' @ u_ccedil @ ''ucaradas / energ'' @ u_eacute @ ''ticas''\<rparr>,
     \<lparr>cat_prefixes = [''8701'', ''8702'', ''8703'', ''8704'', ''8705'', ''8706'', ''8707'',
                      ''8708'', ''8711''],
      cat_rate = fl_ratio 7 100,
      cat_desc = ''Ve'' @ u_iacute @ ''culos automotores''\<rparr>,
     \<lparr>cat_prefixes = [''8901'', ''8902'', ''8903'', ''8904'', ''8905'', ''8906'', ''8907'',
                      ''8908''],
      cat_rate = fl_ratio 3 100,
      cat_desc = ''Embarca'' @ u_ccedil @ u_otilde @ ''es''\<rparr>,
     \<lparr>cat_prefixes = [''8801'', ''8802'', ''8803'', ''8804'', ''8805''],
      cat_rate = fl_ratio 3 100,
      cat_desc = ''Aeronaves''\<rparr>,
     \<lparr>cat_prefixes = [''9301'', ''9302'', ''9303'', ''9304'', ''9305'', ''9306''],
      cat_rate = fl_ratio 25 100,
      cat_desc = ''Armas e muni'' @ u_ccedil @ u_otilde @ ''es''\<rparr>,
     \<lparr>cat_prefixes = [''2709'', ''2710'', ''2711''],
      cat_rate = fl_ratio 1 100,
      cat_desc = ''Minerais / combust'' @ u_iacute @ ''veis f'' @ u_oacute @ ''sseis''\<rparr>]"

record year_cfg =
  c_ano :: int
  c_fase :: string
  c_descricao :: string
  c_cbs :: pyfloat
  c_ibs :: pyfloat
  c_aplica_is :: bool
  c_icms_fator :: pyfloat
  c_pisCofins_fator :: pyfloat
  c_ipi_fator :: pyfloat
  c_fonte :: string

definition fase_transicao_inicial :: string where
  "fase_transicao_inicial = ''Transi'' @ u_ccedil @ u_atilde @ ''o Inicial''"

definition descricao_transicao_inicial :: string where
  "descricao_transicao_inicial =
     ''CBS definitiva + ICMS pleno '' @ u_mdash @ '' PIS/COFINS/IPI extintos''"

definition fase_substituicao :: "string \<Rightarrow> string" where
  "fase_substituicao pct = ''Substitui'' @ u_ccedil @ u_atilde @ ''o Gradual ('' @ pct @ ''%)''"

definition descricao_substituicao :: "string \<Rightarrow> string \<Rightarrow> string" where
  "descricao_substituicao pct icms =
     ''IBS '' @ pct @ ''% da al'' @ u_iacute @ ''quota cheia '' @ u_mdash
       @ '' ICMS cai para '' @ icms @ ''%''"

definition TRANSITION_YEARS :: "year_cfg list" where
  "TRANSITION_YEARS =
    [\<lparr>c_ano = 2026, c_fase = ''Fase Piloto'',
      c_descricao = ''IVA simb'' @ u_oacute @ ''lico (1%) + ICMS + PIS/COFINS + IPI plenos'',
      c_cbs = fl_ratio 9 1000, c_ibs = fl_ratio 1 1000,
      c_aplica_is = False,
      c_icms_fator = fl_ratio 10 10, c_pisCofins_fator = fl_ratio 10 10,
      c_ipi_fator = fl_ratio 10 10,
      c_fonte = ''api''\<rparr>,
     \<lparr>c_ano = 2027, c_fase = fase_transicao_inicial,
      c_descricao = descricao_transicao_inicial,
      c_cbs = fl_ratio 88 1000, c_ibs = fl_ratio 1 1000,
      c_aplica_is = True,
      c_icms_fator = fl_ratio 10 10, c_pisCofins_fator = fl_ratio 0 10,
      c_ipi_fator = fl_ratio 0 10,
      c_fonte = ''simulado''\<rparr>,
     \<lparr>c_ano = 2028, c_fase = fase_transicao_inicial,
      c_descricao = descricao_transicao_inicial,
      c_cbs = fl_ratio 88 1000, c_ibs = fl_ratio 2 1000,
      c_aplica_is = True,
      c_icms_fator = fl_ratio 10 10, c_pisCofins_fator = fl_ratio 0 10,
      c_ipi_fator = fl_ratio 0 10,
      c_fonte = ''simulado''\<rparr>,
     \<lparr>c_ano = 2029, c_fase = fase_substituicao ''10'',
      c_descricao = descricao_substituicao ''10'' ''90'',
      c_cbs = fl_ratio 88 1000, c_ibs = fl_ratio 177 10000,
      c_aplica_is = True,
      c_icms_fator = fl_ratio 9 10, c_pisCofins_fator = fl_ratio 0 10,
      c_ipi_fator = fl_ratio 0 10,
      c_fonte = ''simulado''\<rparr>,
     \<lparr>c_ano = 2030, c_fase = fase_substituicao ''20'',
      c_descricao = descricao_substituicao ''20'' ''80'',
      c_cbs = fl_ratio 88 1000, c_ibs = fl_ratio 354 10000,
      c_aplica_is = True,
      c_icms_fator = fl_ratio 8 10, c_pisCofins_fator = fl_ratio 0 10,
      c_ipi_fator = fl_ratio 0 10,
      c_fonte = ''simulado''\<rparr>,
     \<lparr>c_ano = 2031, c_fase = fase_substituicao ''30'',
      c_descricao = descricao_substituicao ''30'' ''70'',
      c_cbs = fl_ratio 88 1000, c_ibs = fl_ratio 531 10000,
      c_aplica_is = True,
      c_icms_fator = fl_ratio 7 10, c_pisCofins_fator = fl_ratio 0 10,
      c_ipi_fator = fl_ratio 0 10,
      c_fonte = ''simulado''\<rparr>,
     \<lparr>c_ano = 2032, c_fase = fase_substituicao ''40'',
      c_descricao = descricao_substituicao ''40'' ''60'',
      c_cbs = fl_ratio 88 1000, c_ibs = fl_ratio 708 10000,
      c_aplica_is = True,
      c_icms_fator = fl_ratio 6 10, c_pisCofins_fator = fl_ratio 0 10,
      c_ipi_fator = fl_ratio 0 10,
      c_fonte = ''simulado''\<rparr>,
     \<lparr>c_ano = 2033, c_fase = ''Al'' @ u_iacute @ ''quota Cheia'',
      c_descricao = ''Plena vig'' @ u_ecirc @ ''ncia do IVA Dual '' @ u_mdash
                      @ '' ICMS e ISS extintos'',
      c_cbs = fl_ratio 88 1000, c_ibs = fl_ratio 177 1000,
      c_aplica_is = True,
      c_icms_fator = fl_ratio 0 10, c_pisCofins_fator = fl_ratio 0 10,
      c_ipi_fator = fl_ratio 0 10,
      c_fonte = ''simulado''\<rparr>]"

section \<open>The selective-tax classifier: \<open>detectar_is\<close>\<close>

record is_info =
  rate :: pyfloat
  desc :: string

text \<open>The \<open>for cat in IS_CATEGORIES\<close> loop, returning at the first category that matches.\<close>

fun detectar_is_loop :: "string \<Rightarrow> is_category list \<Rightarrow> is_info option" where
  "detectar_is_loop prefix4 [] = None"
| "detectar_is_loop prefix4 (cat # cats) =
     (if prefix4 \<in> set (cat_prefixes cat)
      then Some \<lparr>rate = cat_rate cat, desc = cat_desc cat\<rparr>
      else detectar_is_loop prefix4 cats)"

text \<open>
  \<open>prefix4 = (ncm or "").replace(".", "")[:4]\<close>. The argument is \<open>None\<close> for Python's
  \<open>None\<close>. A match needs the four leading characters to be ASCII digits, so it is the same
  whether a string is read as characters or as UTF-8 bytes.
\<close>

definition prefix4_of :: "string option \<Rightarrow> string" where
  "prefix4_of ncm =
     take 4 (filter (\<lambda>c. c \<noteq> CHR ''.'') (case ncm of None \<Rightarrow> [] | Some s \<Rightarrow> s))"

definition detectar_is :: "string option \<Rightarrow> is_info option" where
  "detectar_is ncm = detectar_is_loop (prefix4_of ncm) IS_CATEGORIES"

text \<open>
  The classifier as the specification words it: every character that is not alphanumeric
  is stripped before the first four characters are taken.
\<close>

definition is_alnum :: "char \<Rightarrow> bool" where
  "is_alnum c =
     (let n = of_char c :: nat
      in (48 \<le> n \<and> n \<le> 57) \<or> (65 \<le> n \<and> n \<le> 90) \<or> (97 \<le> n \<and> n \<le> 122))"

definition detectar_is_spec :: "string option \<Rightarrow> is_info option" where
  "detectar_is_spec ncm =
     map_option (\<lambda>cat. \<lparr>rate = cat_rate cat, desc = cat_desc cat\<rparr>)
       (find (\<lambda>cat. take 4 (filter is_alnum (case ncm of None \<Rightarrow> [] | Some s \<Rightarrow> s))
                       \<in> set (cat_prefixes cat)) IS_CATEGORIES)"

section \<open>Invoice lines and results\<close>

text \<open>
  An item of \<open>itens_input\<close> is the dump of an \<open>ItemInput\<close> (\<open>models/schemas.py\<close>): the
  schema fixes the types of the values, and a field is \<open>None\<close> here when the dict has no
  such key, the case the \<open>.get\<close> defaults of the services cover.
\<close>

record item_input =
  in_numero :: "int option"
  in_ncm :: "string option"
  in_descricao :: "string option"
  in_baseCalculo :: "pyfloat option"

text \<open>A description is a given text or the synthesized label \<open>f"Item {nobj}"\<close>.\<close>

datatype descr = Descr string | ItemLabel pyval

record line_result =
  l_numero :: pyval
  l_ncm :: string
  l_descricao :: descr
  l_baseCalculo :: pyfloat
  l_cbs :: pyfloat
  l_ibs :: pyfloat
  l_is :: pyfloat
  l_isInfo :: "is_info option"
  l_aliqCbs :: pyfloat
  l_aliqIbs :: pyfloat
  l_total :: pyfloat

record year_totals =
  t_cbs :: pyfloat
  t_ibs :: pyfloat
  t_iva :: pyfloat
  t_is :: pyfloat
  t_icms :: pyfloat
  t_pisCofins :: pyfloat
  t_ipi :: pyfloat
  t_tributosAnteriores :: pyfloat
  t_geral :: pyfloat

record year_result =
  y_ano :: int
  y_fase :: string
  y_descricao :: string
  y_aliqCbs :: pyfloat
  y_aliqIbs :: pyfloat
  y_aplicaIS :: bool
  y_fonte :: string
  y_itens :: "line_result list"
  y_total :: year_totals

text \<open>
  \<open>tributos_atuais\<close> is the dump of a \<open>TributosAtuais\<close> (float fields), or \<open>None\<close>.
\<close>

type_synonym tributos = "string \<rightharpoonup> pyfloat"

text \<open>\<open>float(ta.get(k, 0))\<close>.\<close>

definition ta_get :: "tributos \<Rightarrow> string \<Rightarrow> pyfloat" where
  "ta_get ta k = (case ta k of None \<Rightarrow> Fin 0 0 | Some v \<Rightarrow> v)"

section \<open>Shared pieces of the two services\<close>

text \<open>\<open>inp.get("ncm", "")\<close> and \<open>inp.get("descricao", f"Item {nobj}")\<close>, where \<open>inp\<close> is an
  item of \<open>itens_input\<close> or, for \<open>None\<close>, the empty dict.\<close>

definition inp_ncm :: "item_input option \<Rightarrow> string" where
  "inp_ncm inp =
     (case inp of None \<Rightarrow> []
      | Some i \<Rightarrow> (case in_ncm i of None \<Rightarrow> [] | Some s \<Rightarrow> s))"

definition inp_descricao :: "item_input option \<Rightarrow> pyval \<Rightarrow> descr" where
  "inp_descricao inp nobj =
     (case inp of None \<Rightarrow> ItemLabel nobj
      | Some i \<Rightarrow> (case in_descricao i of None \<Rightarrow> ItemLabel nobj | Some d \<Rightarrow> Descr d))"

text \<open>
  The legacy bases of both services:
  \<^verbatim>\<open>ta = tributos_atuais or {}\<close>,
  \<^verbatim>\<open>v_icms = float(ta.get("vICMS", 0)) + float(ta.get("vST", 0)) + float(ta.get("vISS", 0))\<close>,
  \<^verbatim>\<open>v_pisCofins = float(ta.get("vPIS", 0)) + float(ta.get("vCOFINS", 0))\<close>,
  \<^verbatim>\<open>v_ipi = float(ta.get("vIPI", 0))\<close>.
\<close>

definition legacy_base :: "tributos option \<Rightarrow> pyfloat \<times> pyfloat \<times> pyfloat" where
  "legacy_base tributos_atuais =
     (let ta = (case tributos_atuais of None \<Rightarrow> Map.empty | Some d \<Rightarrow> d);
          v_icms = fadd (fadd (ta_get ta ''vICMS'') (ta_get ta ''vST'')) (ta_get ta ''vISS'');
          v_pisCofins = fadd (ta_get ta ''vPIS'') (ta_get ta ''vCOFINS'');
          v_ipi = ta_get ta ''vIPI''
      in (v_icms, v_pisCofins, v_ipi))"

text \<open>
  The legacy residuals and the year totals, which both services compute with the same
  lines (\<open>transicao_service\<close> 208--218 and 229--239, \<open>projecao_rtc_service\<close> 143--151 and
  167--177).
\<close>

definition year_total ::
  "year_cfg \<Rightarrow> pyfloat \<times> pyfloat \<times> pyfloat \<Rightarrow> line_result list \<Rightarrow> year_totals" where
  "year_total cfg base itens_ano =
     (case base of (v_icms, v_pisCofins, v_ipi) \<Rightarrow>
       (let icms_residual = py_round (fmul v_icms (c_icms_fator cfg)) 2;
            pisCofins_residual = py_round (fmul v_pisCofins (c_pisCofins_fator cfg)) 2;
            ipi_residual = py_round (fmul v_ipi (c_ipi_fator cfg)) 2;
            tributos_anteriores =
              py_round (fadd (fadd icms_residual pisCofins_residual) ipi_residual) 2;
            total_cbs = py_round (py_sum (map l_cbs itens_ano)) 2;
            total_ibs = py_round (py_sum (map l_ibs itens_ano)) 2;
            total_is = py_round (py_sum (map l_is itens_ano)) 2;
            total_iva = py_round (fadd (fadd total_cbs total_ibs) total_is) 2;
            total_geral = py_round (fadd total_iva tributos_anteriores) 2
        in \<lparr>t_cbs = total_cbs, t_ibs = total_ibs, t_iva = total_iva, t_is = total_is,
            t_icms = icms_residual, t_pisCofins = pisCofins_residual, t_ipi = ipi_residual,
            t_tributosAnteriores = tributos_anteriores, t_geral = total_geral\<rparr>))"

section \<open>\<open>transicao_service\<close>: one live year and seven projected years\<close>

text \<open>\<open>i.get("numero") == nobj\<close>, for an item \<open>i\<close> of \<open>itens_input\<close>.\<close>

definition numero_eq :: "int option \<Rightarrow> pyval \<Rightarrow> bool" where
  "numero_eq numero nobj =
     (case numero of None \<Rightarrow> nobj = PNone | Some n \<Rightarrow> int_value nobj = Some n)"

definition extrair_item_2026 ::
  "(string \<Rightarrow> pyfloat option) \<Rightarrow> pyval \<Rightarrow> item_input list \<Rightarrow> error + line_result" where
  "extrair_item_2026 fstr obj itens_input =
     ebind (py_get obj ''nObj'' (PInt 1)) (\<lambda>nobj.
     ebind (py_get obj ''tribCalc'' (PDict [])) (\<lambda>trib.
     ebind (py_get trib ''IBSCBS'' (PDict [])) (\<lambda>ibscbs.
     ebind (py_get ibscbs ''gIBSCBS'' (PDict [])) (\<lambda>gibscbs.
     ebind (ebind (py_get gibscbs ''vBC'' (PInt 0)) (py_float fstr)) (\<lambda>vBC.
     ebind (ebind (py_get gibscbs ''vIBS'' (PInt 0)) (py_float fstr)) (\<lambda>vIBS.
     ebind (py_get gibscbs ''gCBS'' (PDict [])) (\<lambda>gCBS.
     ebind (ebind (py_get gCBS ''vCBS'' (PInt 0)) (py_float fstr)) (\<lambda>vCBS.
     ebind (ebind (py_get gCBS ''pCBS'' (PInt 0)) (py_float fstr)) (\<lambda>pCBS.
     ebind (ebind (ebind (py_get gibscbs ''gIBSUF'' (PDict []))
                     (\<lambda>d. py_get d ''pIBSUF'' (PInt 0))) (py_float fstr)) (\<lambda>pIBSUF.
     ebind (ebind (ebind (py_get gibscbs ''gIBSMun'' (PDict []))
                     (\<lambda>d. py_get d ''pIBSMun'' (PInt 0))) (py_float fstr)) (\<lambda>pIBSMun.
     ebind (py_get trib ''IS'' (PDict [])) (\<lambda>is_trib.
     ebind (ebind (py_get is_trib ''vIS'' (PInt 0)) (py_float fstr)) (\<lambda>vIS.
       (let inp = find (\<lambda>i. numero_eq (in_numero i) nobj) itens_input
        in Inr \<lparr>l_numero = nobj,
                l_ncm = inp_ncm inp,
                l_descricao = inp_descricao inp nobj,
                l_baseCalculo = vBC,
                l_cbs = py_round vCBS 2,
                l_ibs = py_round vIBS 2,
                l_is = py_round vIS 2,
                l_isInfo = None,
                l_aliqCbs = pCBS,
                l_aliqIbs = fadd pIBSUF pIBSMun,
                l_total = py_round (fadd (fadd vCBS vIBS) vIS) 2\<rparr>))))))))))))))"

text \<open>
  The body of the \<open>for inp in itens_input\<close> loop of \<open>calcular_transicao\<close> (lines 188--205):
  the line of a projected year.
\<close>

definition item_projetado :: "year_cfg \<Rightarrow> item_input \<Rightarrow> line_result" where
  "item_projetado cfg inp =
     (let cbs_rate = c_cbs cfg;
          ibs_rate = c_ibs cfg;
          aplica_is = c_aplica_is cfg;
          bc = (case in_baseCalculo inp of None \<Rightarrow> Fin 0 0 | Some v \<Rightarrow> v);
          ncm = (case in_ncm inp of None \<Rightarrow> [] | Some s \<Rightarrow> s);
          nobj = PInt (case in_numero inp of None \<Rightarrow> 1 | Some n \<Rightarrow> n);
          vCBS = py_round (fmul bc cbs_rate) 2;
          vIBS = py_round (fmul bc ibs_rate) 2;
          is_info = (if aplica_is then detectar_is (Some ncm) else None);
          vIS = (case is_info of Some info \<Rightarrow> py_round (fmul bc (rate info)) 2
                 | None \<Rightarrow> Fin 0 0)
      in \<lparr>l_numero = nobj,
          l_ncm = ncm,
          l_descricao = inp_descricao (Some inp) nobj,
          l_baseCalculo = bc,
          l_cbs = vCBS, l_ibs = vIBS, l_is = vIS,
          l_isInfo = is_info,
          l_aliqCbs = fmul cbs_rate (fl_ratio 100 1),
          l_aliqIbs = fmul ibs_rate (fl_ratio 100 1),
          l_total = py_round (fadd (fadd vCBS vIBS) vIS) 2\<rparr>)"

text \<open>The lines of a year in \<open>calcular_transicao\<close> (lines 180--205).\<close>

definition itens_do_ano ::
  "(string \<Rightarrow> pyfloat option) \<Rightarrow> pyval \<Rightarrow> item_input list \<Rightarrow> year_cfg
     \<Rightarrow> error + line_result list" where
  "itens_do_ano fstr objetos itens_input cfg =
     (if c_ano cfg = 2026
      then ebind (py_iter objetos) (emap (\<lambda>obj. extrair_item_2026 fstr obj itens_input))
      else Inr (map (item_projetado cfg) itens_input))"

text \<open>The entry of a year that \<open>calcular_transicao\<close> appends to \<open>anos\<close> (lines 207--240).\<close>

definition ano_transicao ::
  "year_cfg \<Rightarrow> pyfloat \<times> pyfloat \<times> pyfloat \<Rightarrow> line_result list \<Rightarrow> year_result" where
  "ano_transicao cfg base itens_ano =
     \<lparr>y_ano = c_ano cfg,
      y_fase = c_fase cfg,
      y_descricao = c_descricao cfg,
      y_aliqCbs = fmul (c_cbs cfg) (fl_ratio 100 1),
      y_aliqIbs = fmul (c_ibs cfg) (fl_ratio 100 1),
      y_aplicaIS = c_aplica_is cfg,
      y_fonte = c_fonte cfg,
      y_itens = itens_ano,
      y_total = year_total cfg base itens_ano\<rparr>"

definition calcular_transicao ::
  "(string \<Rightarrow> pyfloat option) \<Rightarrow> pyval \<Rightarrow> item_input list \<Rightarrow> tributos option
     \<Rightarrow> error + year_result list" where
  "calcular_transicao fstr resultado_api itens_input tributos_atuais =
     (let base = legacy_base tributos_atuais
      in ebind (py_get resultado_api ''objetos'' (PList [])) (\<lambda>objetos.
         emap (\<lambda>cfg.
           ebind (itens_do_ano fstr objetos itens_input cfg) (\<lambda>itens_ano.
             Inr (ano_transicao cfg base itens_ano)))
           TRANSITION_YEARS))"

section \<open>\<open>projecao_rtc_service\<close>: one external call per year\<close>


definition LOCAL_URL :: string where
  "LOCAL_URL = ''http://localhost:8080''"

text \<open>
  The external calculator is the parameter \<open>post\<close>: what the \<open>POST\<close> of a year's payload to
  a URL gives, the decoded JSON body or the exception that \<open>client.post\<close>,
  \<open>raise_for_status\<close> or \<open>resp.json\<close> raises. The payloads of one projection differ in the
  year of \<open>dataHoraEmissao\<close> only, so the year stands for the payload. \<open>post_year\<close> is
  \<open>_post_year\<close>; \<open>base_url\<close> is \<open>BASE_URL\<close>, read from the environment.
\<close>

fun post_year_loop ::
  "(string \<Rightarrow> int \<Rightarrow> error + pyval) \<Rightarrow> int \<Rightarrow> error \<Rightarrow> string list \<Rightarrow> error + pyval" where
  "post_year_loop post year last_exc [] = Inl last_exc"
| "post_year_loop post year last_exc (base # urls) =
     (case post (base @ ''/api/calculadora/regime-geral'') year of
        Inr resultado \<Rightarrow> Inr resultado
      | Inl exc \<Rightarrow>
          if exc = ConnectError \<or> exc = TimeoutException
          then post_year_loop post year exc urls
          else Inl exc)"

definition post_year ::
  "(string \<Rightarrow> int \<Rightarrow> error + pyval) \<Rightarrow> string \<Rightarrow> int \<Rightarrow> error + pyval" where
  "post_year post base_url year =
     post_year_loop post year ConnectError
       ([base_url] @ (if base_url \<noteq> LOCAL_URL then [LOCAL_URL] else []))"



text \<open>
  \<open>inp_by_num = {i.get("numero", idx + 1): i for idx, i in enumerate(itens_input)}\<close>:
  a later item replaces an earlier one with the same number.
\<close>

definition inp_by_num :: "item_input list \<Rightarrow> (int \<rightharpoonup> item_input)" where
  "inp_by_num itens_input =
     foldl (\<lambda>m (idx, i). m((case in_numero i of None \<Rightarrow> int idx + 1 | Some n \<Rightarrow> n) \<mapsto> i))
       Map.empty (enumerate 0 itens_input)"

text \<open>
  \<open>inp_by_num.get(nobj, {})\<close>: a list or a dict is not hashable and raises \<open>TypeError\<close>;
  another value finds the item whose number it is equal to.
\<close>

fun hashable :: "pyval \<Rightarrow> bool" where
  "hashable (PList xs) = False"
| "hashable (PDict kvs) = False"
| "hashable _ = True"

definition inp_by_num_get ::
  "(int \<rightharpoonup> item_input) \<Rightarrow> pyval \<Rightarrow> error + item_input option" where
  "inp_by_num_get m nobj =
     (if \<not> hashable nobj then Inl TypeError
      else Inr (case int_value nobj of None \<Rightarrow> None | Some n \<Rightarrow> m n))"

text \<open>The body of the \<open>for obj in objetos\<close> loop of \<open>_extrair_itens_rtc\<close> (lines 59--91).\<close>

definition extrair_item_rtc ::
  "(string \<Rightarrow> pyfloat option) \<Rightarrow> (int \<rightharpoonup> item_input) \<Rightarrow> pyval \<Rightarrow> error + line_result" where
  "extrair_item_rtc fstr by_num obj =
     ebind (py_get obj ''nObj'' (PInt 1)) (\<lambda>nobj.
     ebind (py_get obj ''tribCalc'' (PDict [])) (\<lambda>trib.
     ebind (py_get trib ''IBSCBS'' (PDict [])) (\<lambda>ibscbs.
     ebind (py_get ibscbs ''gIBSCBS'' (PDict [])) (\<lambda>gibscbs.
     ebind (ebind (py_get gibscbs ''vBC'' (PInt 0))
              (\<lambda>v. py_float fstr (py_or v (PInt 0)))) (\<lambda>vBC.
     ebind (ebind (py_get gibscbs ''vIBS'' (PInt 0))
              (\<lambda>v. py_float fstr (py_or v (PInt 0)))) (\<lambda>vIBS.
     ebind (py_get gibscbs ''gCBS'' (PDict [])) (\<lambda>gCBS.
     ebind (ebind (py_get gCBS ''vCBS'' (PInt 0))
              (\<lambda>v. py_float fstr (py_or v (PInt 0)))) (\<lambda>vCBS.
     ebind (ebind (py_get gCBS ''pCBS'' (PInt 0))
              (\<lambda>v. py_float fstr (py_or v (PInt 0)))) (\<lambda>pCBS.
     ebind (ebind (ebind (py_get gibscbs ''gIBSUF'' (PDict []))
                     (\<lambda>d. py_get d ''pIBSUF'' (PInt 0)))
              (\<lambda>v. py_float fstr (py_or v (PInt 0)))) (\<lambda>pIBSUF.
     ebind (ebind (ebind (py_get gibscbs ''gIBSMun'' (PDict []))
                     (\<lambda>d. py_get d ''pIBSMun'' (PInt 0)))
              (\<lambda>v. py_float fstr (py_or v (PInt 0)))) (\<lambda>pIBSMun.
     ebind (py_get trib ''IS'' (PDict [])) (\<lambda>is_trib.
     ebind (ebind (py_get is_trib ''vIS'' (PInt 0))
              (\<lambda>v. py_float fstr (py_or v (PInt 0)))) (\<lambda>vIS.
     ebind (inp_by_num_get by_num nobj) (\<lambda>inp.
       (let ncm = inp_ncm inp;
            is_info = (if fgt0 vIS then detectar_is (Some ncm) else None)
        in Inr \<lparr>l_numero = nobj,
                l_ncm = ncm,
                l_descricao = inp_descricao inp nobj,
                l_baseCalculo = vBC,
                l_cbs = py_round vCBS 2,
                l_ibs = py_round vIBS 2,
                l_is = py_round vIS 2,
                l_isInfo = is_info,
                l_aliqCbs = pCBS,
                l_aliqIbs = fadd pIBSUF pIBSMun,
                l_total = py_round (fadd (fadd vCBS vIBS) vIS) 2\<rparr>)))))))))))))))"

definition extrair_itens_rtc ::
  "(string \<Rightarrow> pyfloat option) \<Rightarrow> pyval \<Rightarrow> item_input list \<Rightarrow> error + line_result list" where
  "extrair_itens_rtc fstr objetos itens_input =
     (let by_num = inp_by_num itens_input
      in ebind (py_iter objetos) (emap (extrair_item_rtc fstr by_num)))"

text \<open>
  \<open>round((total_imp / total_bc * 100) if total_bc else 0, 3)\<close>: the effective rate of a
  year, for \<open>total_imp\<close> the year's \<open>total_cbs\<close> or \<open>total_ibs\<close>.
\<close>

definition aliq_ef :: "pyfloat \<Rightarrow> pyfloat \<Rightarrow> error + pyfloat" where
  "aliq_ef total_imp total_bc =
     ebind (if ftruthy total_bc
            then ebind (fdiv total_imp total_bc) (\<lambda>q. Inr (fmul q (fl_ratio 100 1)))
            else Inr (Fin 0 0))
       (\<lambda>x. Inr (py_round x 3))"

text \<open>
  The body of the \<open>for pair in pairs\<close> loop of \<open>calcular_projecao_rtc\<close> for a year
  whose call returned (lines 139--178).
\<close>

definition ano_rtc ::
  "(string \<Rightarrow> pyfloat option) \<Rightarrow> item_input list \<Rightarrow> pyfloat \<times> pyfloat \<times> pyfloat
     \<Rightarrow> year_cfg \<Rightarrow> pyval \<Rightarrow> error + year_result" where
  "ano_rtc fstr itens_input base cfg resultado =
     ebind (py_get resultado ''objetos'' (PList [])) (\<lambda>objetos.
     ebind (extrair_itens_rtc fstr objetos itens_input) (\<lambda>itens_ano.
       (let tot = year_total cfg base itens_ano;
            total_bc = py_sum (map l_baseCalculo itens_ano)
        in ebind (aliq_ef (t_cbs tot) total_bc) (\<lambda>aliq_cbs_ef.
           ebind (aliq_ef (t_ibs tot) total_bc) (\<lambda>aliq_ibs_ef.
             Inr \<lparr>y_ano = c_ano cfg,
                  y_fase = c_fase cfg,
                  y_descricao = c_descricao cfg,
                  y_aliqCbs = aliq_cbs_ef,
                  y_aliqIbs = aliq_ibs_ef,
                  y_aplicaIS = c_aplica_is cfg,
                  y_fonte = ''api-rtc'',
                  y_itens = itens_ano,
                  y_total = tot\<rparr>)))))"

text \<open>
  The \<open>for pair in pairs\<close> loop: \<open>asyncio.gather(..., return_exceptions=True)\<close> gives, in the
  order of the tasks, the pair a task returned or the exception it raised; a pair that is
  an exception is skipped.
\<close>

fun coletar_anos ::
  "(string \<Rightarrow> pyfloat option) \<Rightarrow> item_input list \<Rightarrow> pyfloat \<times> pyfloat \<times> pyfloat
     \<Rightarrow> (error + year_cfg \<times> pyval) list \<Rightarrow> error + year_result list" where
  "coletar_anos fstr itens_input base [] = Inr []"
| "coletar_anos fstr itens_input base (Inl exc # pairs) =
     coletar_anos fstr itens_input base pairs"
| "coletar_anos fstr itens_input base (Inr (cfg, resultado) # pairs) =
     ebind (ano_rtc fstr itens_input base cfg resultado) (\<lambda>y.
     ebind (coletar_anos fstr itens_input base pairs) (\<lambda>ys. Inr (y # ys)))"

text \<open>The task of a year: \<open>_task(cfg)\<close>.\<close>

definition task ::
  "(string \<Rightarrow> int \<Rightarrow> error + pyval) \<Rightarrow> string \<Rightarrow> year_cfg \<Rightarrow> error + year_cfg \<times> pyval" where
  "task post base_url cfg =
     (case post_year post base_url (c_ano cfg) of
        Inl exc \<Rightarrow> Inl exc
      | Inr resultado \<Rightarrow> Inr (cfg, resultado))"

definition calcular_projecao_rtc ::
  "(string \<Rightarrow> pyfloat option) \<Rightarrow> (string \<Rightarrow> int \<Rightarrow> error + pyval) \<Rightarrow> string
     \<Rightarrow> item_input list \<Rightarrow> tributos option \<Rightarrow> error + year_result list" where
  "calcular_projecao_rtc fstr post base_url itens_input tributos_atuais =
     (let base = legacy_base tributos_atuais;
          pairs = map (task post base_url) TRANSITION_YEARS
      in coletar_anos fstr itens_input base pairs)"

section \<open>Reading an external line result\<close>

text \<open>
  The vocabulary in which the properties of the two extractors are stated. \<open>lookup_path\<close>
  follows a path of keys through nested dicts; a field of an external result object is
  missing when there is nothing at its path, the key or one of the objects around it being
  absent.
\<close>

fun is_dict :: "pyval \<Rightarrow> bool" where
  "is_dict (PDict kvs) = True"
| "is_dict _ = False"

fun lookup_path :: "pyval \<Rightarrow> string list \<Rightarrow> pyval option" where
  "lookup_path v [] = Some v"
| "lookup_path (PDict kvs) (k # ks) =
     (case map_of kvs k of None \<Rightarrow> None | Some v \<Rightarrow> lookup_path v ks)"
| "lookup_path _ (k # ks) = None"

definition p_gIBSCBS :: "string list" where
  "p_gIBSCBS = [''tribCalc'', ''IBSCBS'', ''gIBSCBS'']"

definition p_vBC :: "string list" where "p_vBC = p_gIBSCBS @ [''vBC'']"
definition p_vIBS :: "string list" where "p_vIBS = p_gIBSCBS @ [''vIBS'']"
definition p_vCBS :: "string list" where "p_vCBS = p_gIBSCBS @ [''gCBS'', ''vCBS'']"
definition p_pCBS :: "string list" where "p_pCBS = p_gIBSCBS @ [''gCBS'', ''pCBS'']"
definition p_pIBSUF :: "string list" where "p_pIBSUF = p_gIBSCBS @ [''gIBSUF'', ''pIBSUF'']"
definition p_pIBSMun :: "string list" where "p_pIBSMun = p_gIBSCBS @ [''gIBSMun'', ''pIBSMun'']"
definition p_vIS :: "string list" where "p_vIS = [''tribCalc'', ''IS'', ''vIS'']"

text \<open>The numeric fields that the extractors read, and the objects that hold them.\<close>

definition numeric_paths :: "string list list" where
  "numeric_paths = [p_vBC, p_vIBS, p_vCBS, p_pCBS, p_pIBSUF, p_pIBSMun, p_vIS]"

definition container_paths :: "string list list" where
  "container_paths =
     [[''tribCalc''], [''tribCalc'', ''IBSCBS''], p_gIBSCBS, p_gIBSCBS @ [''gCBS''],
      p_gIBSCBS @ [''gIBSUF''], p_gIBSCBS @ [''gIBSMun''], [''tribCalc'', ''IS'']]"

text \<open>
  An external line result is well shaped when it is an object and each of the objects that
  hold its numeric fields, where present, is an object.
\<close>

definition well_shaped :: "pyval \<Rightarrow> bool" where
  "well_shaped obj =
     (is_dict obj
      \<and> list_all (\<lambda>p. case lookup_path obj p of None \<Rightarrow> True | Some v \<Rightarrow> is_dict v)
            container_paths)"

text \<open>
  The value that an extractor has for the field at a path: \<open>conv\<close> is the conversion it
  applies to what it finds, \<open>float(v)\<close> in \<open>_extrair_item_2026\<close> and \<open>float(v or 0)\<close> in
  \<open>_extrair_itens_rtc\<close>; a missing field gives the default \<open>0\<close>.
\<close>

definition conv_2026 :: "(string \<Rightarrow> pyfloat option) \<Rightarrow> pyval \<Rightarrow> error + pyfloat" where
  "conv_2026 fstr v = py_float fstr v"

definition conv_rtc :: "(string \<Rightarrow> pyfloat option) \<Rightarrow> pyval \<Rightarrow> error + pyfloat" where
  "conv_rtc fstr v = py_float fstr (py_or v (PInt 0))"

definition field_value :: "(pyval \<Rightarrow> error + pyfloat) \<Rightarrow> pyval \<Rightarrow> string list \<Rightarrow> error + pyfloat" where
  "field_value conv obj p =
     (case lookup_path obj p of None \<Rightarrow> Inr (Fin 0 0) | Some v \<Rightarrow> conv v)"

text \<open>The numeric fields that are present are all convertible.\<close>

definition convertible :: "(pyval \<Rightarrow> error + pyfloat) \<Rightarrow> pyval \<Rightarrow> bool" where
  "convertible conv obj = list_all (\<lambda>p. \<not> isl (field_value conv obj p)) numeric_paths"

text \<open>The line identifier of an external result: \<open>obj.get("nObj", 1)\<close>.\<close>

definition nobj_of :: "pyval \<Rightarrow> pyval" where
  "nobj_of obj = (case lookup_path obj [''nObj''] of None \<Rightarrow> PInt 1 | Some v \<Rightarrow> v)"

text \<open>
  What both extractors read from an external result, in the order of their statements;
  \<open>conv\<close> is the conversion of a numeric field.
\<close>

definition read_fields ::
  "(pyval \<Rightarrow> error + pyfloat) \<Rightarrow> pyval
     \<Rightarrow> error + pyval \<times> pyfloat \<times> pyfloat \<times> pyfloat \<times> pyfloat \<times> pyfloat \<times> pyfloat \<times> pyfloat" where
  "read_fields conv obj =
     ebind (py_get obj ''nObj'' (PInt 1)) (\<lambda>nobj.
     ebind (py_get obj ''tribCalc'' (PDict [])) (\<lambda>trib.
     ebind (py_get trib ''IBSCBS'' (PDict [])) (\<lambda>ibscbs.
     ebind (py_get ibscbs ''gIBSCBS'' (PDict [])) (\<lambda>gibscbs.
     ebind (ebind (py_get gibscbs ''vBC'' (PInt 0)) conv) (\<lambda>vBC.
     ebind (ebind (py_get gibscbs ''vIBS'' (PInt 0)) conv) (\<lambda>vIBS.
     ebind (py_get gibscbs ''gCBS'' (PDict [])) (\<lambda>gCBS.
     ebind (ebind (py_get gCBS ''vCBS'' (PInt 0)) conv) (\<lambda>vCBS.
     ebind (ebind (py_get gCBS ''pCBS'' (PInt 0)) conv) (\<lambda>pCBS.
     ebind (ebind (ebind (py_get gibscbs ''gIBSUF'' (PDict []))
                     (\<lambda>d. py_get d ''pIBSUF'' (PInt 0))) conv) (\<lambda>pIBSUF.
     ebind (ebind (ebind (py_get gibscbs ''gIBSMun'' (PDict []))
                     (\<lambda>d. py_get d ''pIBSMun'' (PInt 0))) conv) (\<lambda>pIBSMun.
     ebind (py_get trib ''IS'' (PDict [])) (\<lambda>is_trib.
     ebind (ebind (py_get is_trib ''vIS'' (PInt 0)) conv) (\<lambda>vIS.
       Inr (nobj, vBC, vIBS, vCBS, pCBS, pIBSUF, pIBSMun, vIS))))))))))))))"

text \<open>\<open>sub_dict v k\<close> is \<open>v.get(k, {})\<close> for a dict \<open>v\<close>.\<close>

definition sub_dict :: "pyval \<Rightarrow> string \<Rightarrow> pyval" where
  "sub_dict v k = (case lookup_path v [k] of None \<Rightarrow> PDict [] | Some x \<Rightarrow> x)"

text \<open>\<open>at_path obj p v\<close>: what is below \<open>v\<close> is what is below the path \<open>p\<close> of \<open>obj\<close>.\<close>

definition at_path :: "pyval \<Rightarrow> string list \<Rightarrow> pyval \<Rightarrow> bool" where
  "at_path obj p v = (\<forall>ks. ks \<noteq> [] \<longrightarrow> lookup_path v ks = lookup_path obj (p @ ks))"

section \<open>Example inputs\<close>

text \<open>
  A conversion of strings for examples whose external results carry no strings; an invoice
  line of tobacco (code \<open>2401\<close>, base \<open>1000.00\<close>); an external result for that line
  that carries the excise amount \<open>10.00\<close>, and one that carries a base amount and no
  excise.
\<close>

definition sem_texto :: "string \<Rightarrow> pyfloat option" where
  "sem_texto s = None"

definition exemplo_item_tabaco :: item_input where
  "exemplo_item_tabaco =
     \<lparr>in_numero = Some 1, in_ncm = Some ''2401'', in_descricao = None,
      in_baseCalculo = Some (fl_ratio 100000 100)\<rparr>"

definition exemplo_resultado_com_is :: pyval where
  "exemplo_resultado_com_is =
     PDict [(''objetos'', PList
       [PDict [(''nObj'', PInt 1),
               (''tribCalc'', PDict [(''IS'', PDict [(''vIS'', PFloat (fl_ratio 1000 100))])])]])]"

definition exemplo_resultado_sem_is :: pyval where
  "exemplo_resultado_sem_is =
     PDict [(''objetos'', PList
       [PDict [(''nObj'', PInt 1),
               (''tribCalc'', PDict [(''IBSCBS'', PDict [(''gIBSCBS'', PDict
                   [(''vBC'', PFloat (fl_ratio 100000 100))])])])]])]"

text \<open>
  An external line result whose \<open>tribCalc\<close> is \<open>null\<close>; an external service that is
  reachable on the local host only, every request to another host timing out.
\<close>

definition exemplo_linha_tribcalc_nulo :: pyval where
  "exemplo_linha_tribcalc_nulo = PDict [(''tribCalc'', PNone)]"


section \<open>Evaluating the float operations\<close>

text \<open>
  The recursive helpers unfold on numerals only, so that the simplifier computes a double
  from the definitions above; \<open>float_literals\<close> gives the doubles of the decimal literals
  of the two tables.
\<close>

lemma bit_length_eval [simp]:
  "bit_length 0 = 0"
  "bit_length 1 = 1"
  "bit_length (numeral k) = 1 + bit_length (numeral k div 2)"
  by (simp_all add: bit_length.simps)

lemma norm_dy_eval [simp]:
  "norm_dy 0 e = (0, 0)"
  "norm_dy 1 e = (1, e)"
  "norm_dy (numeral k) e =
     (if even (numeral k :: int) then norm_dy (numeral k div 2) (e + 1) else (numeral k, e))"
  "norm_dy (- numeral k) e =
     (if even (numeral k :: int) then norm_dy (- numeral k div 2) (e + 1)
      else (- numeral k, e))"
  by (simp_all add: norm_dy.simps [of "numeral k"] norm_dy.simps [of "- numeral k"]
      norm_dy.simps [of 0] norm_dy.simps [of 1])

lemmas fl_eval = fl_ratio_def round_pos_def rhe_div_def fl_dy_def Let_def

lemma float_literals:
  "fl_ratio 9 1000 = Fin 5188146770730811 (- 59)"
  "fl_ratio 88 1000 = Fin 3170534137668829 (- 55)"
  "fl_ratio 1 1000 = Fin 1152921504606847 (- 60)"
  "fl_ratio 2 1000 = Fin 1152921504606847 (- 59)"
  "fl_ratio 177 10000 = Fin 2550838828942649 (- 57)"
  "fl_ratio 354 10000 = Fin 2550838828942649 (- 56)"
  "fl_ratio 531 10000 = Fin 7652516486827947 (- 57)"
  "fl_ratio 708 10000 = Fin 2550838828942649 (- 55)"
  "fl_ratio 177 1000 = Fin 3188548536178311 (- 54)"
  "fl_ratio 10 10 = Fin 1 0"
  "fl_ratio 0 10 = Fin 0 0"
  "fl_ratio 9 10 = Fin 8106479329266893 (- 53)"
  "fl_ratio 8 10 = Fin 3602879701896397 (- 52)"
  "fl_ratio 7 10 = Fin 3152519739159347 (- 52)"
  "fl_ratio 6 10 = Fin 5404319552844595 (- 53)"
  "fl_ratio 100 100 = Fin 1 0"
  "fl_ratio 20 100 = Fin 3602879701896397 (- 54)"
  "fl_ratio 7 100 = Fin 1261007895663739 (- 54)"
  "fl_ratio 3 100 = Fin 1080863910568919 (- 55)"
  "fl_ratio 25 100 = Fin 1 (- 2)"
  "fl_ratio 1 100 = Fin 5764607523034235 (- 59)"
  "fl_ratio 100 1 = Fin 25 2"
  by (simp_all add: fl_eval)

section \<open>The year schedule table\<close>

text \<open>
  Claim C2. In the table of the eight years 2026--2033 the years are distinct and strictly
  increasing; from each entry to the next, the decay factor of each legacy family (ICMS,
  PIS/COFINS, IPI) does not increase and the nominal CBS and IBS rates do not decrease
  (Python's \<open><=\<close> on the floats of the table); the only entry whose \<open>aplica_is\<close> is false
  is the one of 2026.
\<close>

theorem schedule_table_invariants:
  "map c_ano TRANSITION_YEARS = [2026, 2027, 2028, 2029, 2030, 2031, 2032, 2033]
   \<and> distinct (map c_ano TRANSITION_YEARS)
   \<and> successively (<) (map c_ano TRANSITION_YEARS)
   \<and> successively (\<lambda>a b. fle b a) (map c_icms_fator TRANSITION_YEARS)
   \<and> successively (\<lambda>a b. fle b a) (map c_pisCofins_fator TRANSITION_YEARS)
   \<and> successively (\<lambda>a b. fle b a) (map c_ipi_fator TRANSITION_YEARS)
   \<and> successively fle (map c_cbs TRANSITION_YEARS)
   \<and> successively fle (map c_ibs TRANSITION_YEARS)
   \<and> map c_ano (filter (\<lambda>cfg. c_aplica_is cfg = False) TRANSITION_YEARS) = [2026]"
  by (simp add: TRANSITION_YEARS_def float_literals fle_def)

section \<open>The selective-tax classifier\<close>

lemma detectar_is_loop_find:
  "detectar_is_loop p cats =
     map_option (\<lambda>cat. \<lparr>rate = cat_rate cat, desc = cat_desc cat\<rparr>)
       (find (\<lambda>cat. p \<in> set (cat_prefixes cat)) cats)"
  by (induction cats) simp_all

lemma prefixes_length:
  "cat \<in> set IS_CATEGORIES \<Longrightarrow> p \<in> set (cat_prefixes cat) \<Longrightarrow> length p = 4"
  by (auto simp: IS_CATEGORIES_def)

lemma find_None_short:
  "length p < 4 \<Longrightarrow> find (\<lambda>cat. p \<in> set (cat_prefixes cat)) IS_CATEGORIES = None"
  using prefixes_length by (fastforce simp: find_None_iff)

text \<open>
  Claim C3, as the code has it. \<open>detectar_is\<close> is a total function (it raises on no
  string, empty, short or malformed): it removes every \<open>.\<close> from the code, no other
  separator, takes the first four characters of what is left, and returns the rate and the
  description of the first category of \<open>IS_CATEGORIES\<close>, in the order of the list, whose
  prefixes contain these four characters, and \<open>None\<close> when no category has them; when
  fewer than four characters are left the result is \<open>None\<close>.
\<close>

theorem detectar_is_first_match:
  "detectar_is ncm =
     map_option (\<lambda>cat. \<lparr>rate = cat_rate cat, desc = cat_desc cat\<rparr>)
       (find (\<lambda>cat. take 4 (filter (\<lambda>c. c \<noteq> CHR ''.'') (case ncm of None \<Rightarrow> [] | Some s \<Rightarrow> s))
                       \<in> set (cat_prefixes cat)) IS_CATEGORIES)
   \<and> (length (filter (\<lambda>c. c \<noteq> CHR ''.'') (case ncm of None \<Rightarrow> [] | Some s \<Rightarrow> s)) < 4
        \<longrightarrow> detectar_is ncm = None)"
proof -
  have "length (prefix4_of ncm) < 4"
    if "length (filter (\<lambda>c. c \<noteq> CHR ''.'') (case ncm of None \<Rightarrow> [] | Some s \<Rightarrow> s)) < 4"
    using that by (simp add: prefix4_of_def)
  then show ?thesis
    by (auto simp: detectar_is_def detectar_is_loop_find prefix4_of_def find_None_short)
qed

theorem detectar_is_first_match_witness:
  "length (filter (\<lambda>c. c \<noteq> CHR ''.'') ''24.0'') < 4
   \<and> detectar_is (Some ''24.0'') = None
   \<and> detectar_is (Some ''2203.00.00'')
       = Some \<lparr>rate = fl_ratio 20 100, desc = cat_desc (IS_CATEGORIES ! 1)\<rparr>"
  using detectar_is_first_match [of "Some ''24.0''"]
    detectar_is_first_match [of "Some ''2203.00.00''"]
  by (simp add: IS_CATEGORIES_def)

text \<open>
  The claim as worded, with every non-alphanumeric separator stripped, fails on the code:
  in \<open>24-01\<close> the hyphen stays, the four characters are \<open>24-0\<close> and no category matches,
  where the worded classifier finds the tobacco category from \<open>2401\<close>.
\<close>

theorem detectar_is_strips_dots_only:
  "detectar_is (Some ''24-01'') = None
   \<and> detectar_is_spec (Some ''24-01'')
       = Some \<lparr>rate = fl_ratio 100 100, desc = cat_desc (IS_CATEGORIES ! 0)\<rparr>"
  by (simp add: detectar_is_def detectar_is_spec_def prefix4_of_def IS_CATEGORIES_def
      is_alnum_def)


section \<open>The result of \<open>calcular_transicao\<close>, year by year\<close>

lemma ebind_simps [simp]:
  "ebind (Inr x) f = f x"
  "ebind (Inl e) f = Inl e"
  by (simp_all add: ebind_def)

lemma ebind_Inr_iff: "ebind m f = Inr y \<longleftrightarrow> (\<exists>x. m = Inr x \<and> f x = Inr y)"
  by (cases m) simp_all

lemma emap_Inr_iff: "emap f xs = Inr ys \<longleftrightarrow> list_all2 (\<lambda>x y. f x = Inr y) xs ys"
proof (induction xs arbitrary: ys)
  case Nil
  then show ?case by auto
next
  case (Cons x xs)
  show ?case
    by (cases ys) (auto simp: ebind_Inr_iff Cons.IH)
qed

lemma emap_total: "emap (\<lambda>x. Inr (g x)) xs = Inr (map g xs)"
  by (induction xs) simp_all

lemma calcular_transicao_Inr:
  assumes "calcular_transicao fstr resultado_api itens_input tributos_atuais = Inr anos"
  shows "\<exists>objetos. py_get resultado_api ''objetos'' (PList []) = Inr objetos
           \<and> list_all2 (\<lambda>cfg y. \<exists>itens_ano.
                  itens_do_ano fstr objetos itens_input cfg = Inr itens_ano
                  \<and> y = ano_transicao cfg (legacy_base tributos_atuais) itens_ano)
                TRANSITION_YEARS anos"
  using assms
  by (auto simp: calcular_transicao_def Let_def ebind_Inr_iff emap_Inr_iff
      elim!: list_all2_mono)

lemma calcular_transicao_entry:
  assumes "calcular_transicao fstr resultado_api itens_input tributos_atuais = Inr anos"
  shows "length anos = length TRANSITION_YEARS"
    and "k < length anos \<Longrightarrow>
         \<exists>objetos itens_ano.
           py_get resultado_api ''objetos'' (PList []) = Inr objetos
           \<and> itens_do_ano fstr objetos itens_input (TRANSITION_YEARS ! k) = Inr itens_ano
           \<and> anos ! k = ano_transicao (TRANSITION_YEARS ! k) (legacy_base tributos_atuais) itens_ano"
proof -
  from calcular_transicao_Inr [OF assms] obtain objetos where
    o: "py_get resultado_api ''objetos'' (PList []) = Inr objetos" and
    l: "list_all2 (\<lambda>cfg y. \<exists>itens_ano.
                  itens_do_ano fstr objetos itens_input cfg = Inr itens_ano
                  \<and> y = ano_transicao cfg (legacy_base tributos_atuais) itens_ano)
                TRANSITION_YEARS anos"
    by blast
  show len: "length anos = length TRANSITION_YEARS"
    using l by (simp add: list_all2_lengthD)
  show "\<exists>objetos itens_ano.
           py_get resultado_api ''objetos'' (PList []) = Inr objetos
           \<and> itens_do_ano fstr objetos itens_input (TRANSITION_YEARS ! k) = Inr itens_ano
           \<and> anos ! k = ano_transicao (TRANSITION_YEARS ! k) (legacy_base tributos_atuais) itens_ano"
    if "k < length anos"
    using list_all2_nthD [OF l, of k] that len o by auto
qed

lemma calcular_transicao_sem_objetos:
  assumes "py_get resultado_api ''objetos'' (PList []) = Inr (PList [])"
  shows "calcular_transicao fstr resultado_api itens_input tributos_atuais =
         Inr (map (\<lambda>cfg. ano_transicao cfg (legacy_base tributos_atuais)
                           (if c_ano cfg = 2026 then []
                            else map (item_projetado cfg) itens_input))
                TRANSITION_YEARS)"
proof -
  have "itens_do_ano fstr (PList []) itens_input cfg =
        Inr (if c_ano cfg = 2026 then [] else map (item_projetado cfg) itens_input)" for cfg
    by (simp add: itens_do_ano_def)
  then show ?thesis
    by (simp add: calcular_transicao_def Let_def assms emap_total)
qed


lemmas float_ops_eval = fmul_def fadd_def fl_eval float_literals

text \<open>
  Claim C1. Whenever \<open>calcular_transicao\<close> returns, the entry of every schedule year after
  2026 has one line per invoice line, in order, and on each line: CBS is
  \<open>round(base * cbs_rate, 2)\<close>, IBS is \<open>round(base * ibs_rate, 2)\<close>, the excise is
  \<open>round(base * rate, 2)\<close> for the rate of the category that \<open>detectar_is\<close> finds when the
  year's \<open>aplica_is\<close> is true, and \<open>0\<close> otherwise; the total is \<open>round(cbs + ibs + is, 2)\<close>
  of these rounded amounts; the two rate fields are the schedule rates times \<open>100\<close>. All
  operations are those of Python floats. The scenario of the claim (code \<open>2401\<close>, base
  \<open>1000.00\<close>, year 2027: excise \<open>1000.00\<close>, CBS \<open>88.00\<close>, IBS \<open>1.00\<close>, total \<open>1089.00\<close>) is the
  instance \<open>projected_year_lines_witness\<close>.
\<close>

theorem projected_year_lines:
  assumes "calcular_transicao fstr resultado_api itens_input tributos_atuais = Inr anos"
    and "k < length anos"
    and "2026 < c_ano (TRANSITION_YEARS ! k)"
    and "j < length itens_input"
  shows "y_ano (anos ! k) = c_ano (TRANSITION_YEARS ! k)
     \<and> length (y_itens (anos ! k)) = length itens_input
     \<and> (let cfg = TRANSITION_YEARS ! k;
             inp = itens_input ! j;
             r = y_itens (anos ! k) ! j;
             bc = (case in_baseCalculo inp of None \<Rightarrow> Fin 0 0 | Some v \<Rightarrow> v);
             ncm = (case in_ncm inp of None \<Rightarrow> [] | Some s \<Rightarrow> s);
             cat = (if c_aplica_is cfg then detectar_is (Some ncm) else None)
         in l_baseCalculo r = bc
          \<and> l_cbs r = py_round (fmul bc (c_cbs cfg)) 2
          \<and> l_ibs r = py_round (fmul bc (c_ibs cfg)) 2
          \<and> l_is r = (case cat of Some info \<Rightarrow> py_round (fmul bc (rate info)) 2
                       | None \<Rightarrow> Fin 0 0)
          \<and> l_isInfo r = cat
          \<and> l_total r = py_round (fadd (fadd (l_cbs r) (l_ibs r)) (l_is r)) 2
          \<and> l_aliqCbs r = fmul (c_cbs cfg) (fl_ratio 100 1)
          \<and> l_aliqIbs r = fmul (c_ibs cfg) (fl_ratio 100 1))"
proof -
  from calcular_transicao_entry(2) [OF assms(1,2)] obtain objetos itens_ano where
    i: "itens_do_ano fstr objetos itens_input (TRANSITION_YEARS ! k) = Inr itens_ano" and
    a: "anos ! k = ano_transicao (TRANSITION_YEARS ! k) (legacy_base tributos_atuais) itens_ano"
    by blast
  from i assms(3) have "itens_ano = map (item_projetado (TRANSITION_YEARS ! k)) itens_input"
    by (simp add: itens_do_ano_def)
  with a assms(4) show ?thesis
    by (simp add: ano_transicao_def item_projetado_def Let_def)
qed

theorem projected_year_lines_witness:
  "(let anos = projr (calcular_transicao (\<lambda>s. None) (PDict [(''objetos'', PList [])])
                 [\<lparr>in_numero = Some 1, in_ncm = Some ''2401'', in_descricao = None,
                   in_baseCalculo = Some (fl_ratio 100000 100)\<rparr>] None);
        r = y_itens (anos ! 1) ! 0
    in length anos = 8
     \<and> 2026 < c_ano (TRANSITION_YEARS ! 1)
     \<and> y_ano (anos ! 1) = 2027
     \<and> l_is r = fl_ratio 100000 100
     \<and> l_cbs r = fl_ratio 8800 100
     \<and> l_ibs r = fl_ratio 100 100
     \<and> l_total r = fl_ratio 108900 100)"
proof -
  define itens where "itens = [\<lparr>in_numero = Some 1, in_ncm = Some ''2401'', in_descricao = None,
                   in_baseCalculo = Some (fl_ratio 100000 100)\<rparr>]"
  define res where "res = PDict [(''objetos'', PList [])]"
  define anos where "anos = map (\<lambda>cfg. ano_transicao cfg (legacy_base None)
                           (if c_ano cfg = 2026 then []
                            else map (item_projetado cfg) itens))
                TRANSITION_YEARS"
  have eq: "calcular_transicao (\<lambda>s. None) res itens None = Inr anos"
    unfolding anos_def by (rule calcular_transicao_sem_objetos) (simp add: res_def)
  have len: "length anos = 8"
    by (simp add: anos_def TRANSITION_YEARS_def)
  have cfg: "TRANSITION_YEARS ! Suc 0 =
     \<lparr>c_ano = 2027, c_fase = fase_transicao_inicial,
      c_descricao = descricao_transicao_inicial,
      c_cbs = fl_ratio 88 1000, c_ibs = fl_ratio 1 1000,
      c_aplica_is = True,
      c_icms_fator = fl_ratio 10 10, c_pisCofins_fator = fl_ratio 0 10,
      c_ipi_fator = fl_ratio 0 10,
      c_fonte = ''simulado''\<rparr>"
    by (simp add: TRANSITION_YEARS_def)
  have det: "detectar_is (Some ''2401'') =
      Some \<lparr>rate = Fin 1 0, desc = cat_desc (IS_CATEGORIES ! 0)\<rparr>"
    by (simp add: detectar_is_def prefix4_of_def IS_CATEGORIES_def float_literals)
  have lit: "fl_ratio 100000 100 = Fin 125 3" "fl_ratio 8800 100 = Fin 11 3"
    "fl_ratio 108900 100 = Fin 1089 0"
    by (simp_all add: fl_eval)
  have v_cbs: "py_round (fmul (Fin 125 3) (fl_ratio 88 1000)) 2 = Fin 11 3"
    by (simp add: float_ops_eval)
  have v_ibs: "py_round (fmul (Fin 125 3) (fl_ratio 1 1000)) 2 = Fin 1 0"
    by (simp add: float_ops_eval)
  have v_is: "py_round (fmul (Fin 125 3) (Fin 1 0)) 2 = Fin 125 3"
    by (simp add: float_ops_eval)
  have v_total: "py_round (fadd (fadd (Fin 11 3) (Fin 1 0)) (Fin 125 3)) 2 = Fin 1089 0"
    by (simp add: float_ops_eval)
  have "1 < length anos" "2026 < c_ano (TRANSITION_YEARS ! 1)" "0 < length itens"
    by (simp_all add: len cfg itens_def)
  from projected_year_lines [OF eq this]
  have "y_ano (anos ! 1) = 2027
     \<and> l_is (y_itens (anos ! 1) ! 0) = Fin 125 3
     \<and> l_cbs (y_itens (anos ! 1) ! 0) = Fin 11 3
     \<and> l_ibs (y_itens (anos ! 1) ! 0) = Fin 1 0
     \<and> l_total (y_itens (anos ! 1) ! 0) = Fin 1089 0"
    by (simp add: Let_def cfg itens_def det lit v_cbs v_ibs v_is v_total)
  moreover have "projr (calcular_transicao (\<lambda>s. None) (PDict [(''objetos'', PList [])])
                 [\<lparr>in_numero = Some 1, in_ncm = Some ''2401'', in_descricao = None,
                   in_baseCalculo = Some (fl_ratio 100000 100)\<rparr>] None) = anos"
    using eq by (simp add: res_def itens_def)
  ultimately show ?thesis
    using len cfg by (simp add: Let_def lit float_literals)
qed


section \<open>Legacy residuals and year totals\<close>

lemma fmul_zero_fin [simp]: "fmul (Fin 0 0) (Fin m e) = Fin 0 0"
  by (simp add: fmul_def fl_dy_def fl_ratio_def)

lemma fadd_zero_zero [simp]: "fadd (Fin 0 0) (Fin 0 0) = Fin 0 0"
  by (simp add: fadd_def fl_dy_def fl_ratio_def)

lemma fl_ratio_zero [simp]: "q \<noteq> 0 \<Longrightarrow> fl_ratio 0 q = Fin 0 0"
  by (simp add: fl_ratio_def)

lemma py_round_zero [simp]: "py_round (Fin 0 0) n = Fin 0 0"
  by (simp add: fl_ratio_def)

lemma py_sum_Nil [simp]: "py_sum [] = Fin 0 0"
  by (simp add: py_sum_def)

lemma schedule_factors_finite:
  assumes "cfg \<in> set TRANSITION_YEARS"
  shows "\<exists>m e. c_icms_fator cfg = Fin m e"
    and "\<exists>m e. c_pisCofins_fator cfg = Fin m e"
    and "\<exists>m e. c_ipi_fator cfg = Fin m e"
  using assms by (auto simp: TRANSITION_YEARS_def float_literals)

lemma year_total_fields:
  "t_cbs (year_total cfg base ls) = py_round (py_sum (map l_cbs ls)) 2"
  "t_ibs (year_total cfg base ls) = py_round (py_sum (map l_ibs ls)) 2"
  "t_is (year_total cfg base ls) = py_round (py_sum (map l_is ls)) 2"
  "t_iva (year_total cfg base ls) =
     py_round (fadd (fadd (t_cbs (year_total cfg base ls)) (t_ibs (year_total cfg base ls)))
                 (t_is (year_total cfg base ls))) 2"
  "t_geral (year_total cfg base ls) =
     py_round (fadd (t_iva (year_total cfg base ls))
                 (t_tributosAnteriores (year_total cfg base ls))) 2"
  "t_tributosAnteriores (year_total cfg base ls) =
     py_round (fadd (fadd (t_icms (year_total cfg base ls))
                       (t_pisCofins (year_total cfg base ls)))
                 (t_ipi (year_total cfg base ls))) 2"
  "t_icms (year_total cfg (v_icms, v_pisCofins, v_ipi) ls) =
     py_round (fmul v_icms (c_icms_fator cfg)) 2"
  "t_pisCofins (year_total cfg (v_icms, v_pisCofins, v_ipi) ls) =
     py_round (fmul v_pisCofins (c_pisCofins_fator cfg)) 2"
  "t_ipi (year_total cfg (v_icms, v_pisCofins, v_ipi) ls) =
     py_round (fmul v_ipi (c_ipi_fator cfg)) 2"
  by (simp_all add: year_total_def Let_def split: prod.splits)

text \<open>
  Claim C4. Whenever \<open>calcular_transicao\<close> returns, the entry of every schedule year has
  \<open>icms = round((vICMS + vST + vISS) * icms_fator, 2)\<close>,
  \<open>pisCofins = round((vPIS + vCOFINS) * pisCofins_fator, 2)\<close>,
  \<open>ipi = round(vIPI * ipi_fator, 2)\<close> and
  \<open>tributosAnteriores = round(icms + pisCofins + ipi, 2)\<close>, where a field that
  \<open>tributos_atuais\<close> lacks, or all of them when it is \<open>None\<close>, counts as \<open>0\<close>; when the six
  fields are all zero, the three residuals and their total are zero in every year. The
  scenario of the claim (ICMS 500, PIS 100, COFINS 50, IPI 0, year 2029: 450.00, 0.00,
  0.00 and 450.00) is the first half of \<open>legacy_residuals_witness\<close>.
\<close>

theorem legacy_residuals:
  assumes "calcular_transicao fstr resultado_api itens_input tributos_atuais = Inr anos"
    and "k < length anos"
  shows "(let cfg = TRANSITION_YEARS ! k;
              t = y_total (anos ! k);
              ta = (case tributos_atuais of None \<Rightarrow> Map.empty | Some d \<Rightarrow> d);
              v = (\<lambda>key. case ta key of None \<Rightarrow> Fin 0 0 | Some x \<Rightarrow> x)
          in y_ano (anos ! k) = c_ano cfg
           \<and> t_icms t =
               py_round (fmul (fadd (fadd (v ''vICMS'') (v ''vST'')) (v ''vISS''))
                           (c_icms_fator cfg)) 2
           \<and> t_pisCofins t =
               py_round (fmul (fadd (v ''vPIS'') (v ''vCOFINS'')) (c_pisCofins_fator cfg)) 2
           \<and> t_ipi t = py_round (fmul (v ''vIPI'') (c_ipi_fator cfg)) 2
           \<and> t_tributosAnteriores t =
               py_round (fadd (fadd (t_icms t) (t_pisCofins t)) (t_ipi t)) 2
           \<and> ((\<forall>key \<in> {''vICMS'', ''vST'', ''vISS'', ''vPIS'', ''vCOFINS'', ''vIPI''}.
                  v key = Fin 0 0)
                \<longrightarrow> t_icms t = Fin 0 0 \<and> t_pisCofins t = Fin 0 0 \<and> t_ipi t = Fin 0 0
                    \<and> t_tributosAnteriores t = Fin 0 0))"
proof -
  from calcular_transicao_entry [OF assms(1)] assms(2) obtain itens_ano where
    len: "length anos = length TRANSITION_YEARS" and
    a: "anos ! k = ano_transicao (TRANSITION_YEARS ! k) (legacy_base tributos_atuais) itens_ano"
    by blast
  have "TRANSITION_YEARS ! k \<in> set TRANSITION_YEARS"
    using assms(2) len by simp
  from schedule_factors_finite [OF this] obtain m1 e1 m2 e2 m3 e3 where
    f: "c_icms_fator (TRANSITION_YEARS ! k) = Fin m1 e1"
       "c_pisCofins_fator (TRANSITION_YEARS ! k) = Fin m2 e2"
       "c_ipi_fator (TRANSITION_YEARS ! k) = Fin m3 e3"
    by blast
  show ?thesis
    unfolding a Let_def
    by (simp add: ano_transicao_def legacy_base_def ta_get_def year_total_fields f Let_def)
qed


theorem legacy_residuals_witness:
  "(let anos = projr (calcular_transicao (\<lambda>s. None) (PDict [(''objetos'', PList [])]) []
                 (Some [''vICMS'' \<mapsto> fl_ratio 500 1, ''vPIS'' \<mapsto> fl_ratio 100 1,
                        ''vCOFINS'' \<mapsto> fl_ratio 50 1, ''vIPI'' \<mapsto> fl_ratio 0 1]));
        t = y_total (anos ! 3)
    in 3 < length anos
     \<and> y_ano (anos ! 3) = 2029
     \<and> t_icms t = fl_ratio 45000 100
     \<and> t_pisCofins t = fl_ratio 0 100
     \<and> t_ipi t = fl_ratio 0 100
     \<and> t_tributosAnteriores t = fl_ratio 45000 100)
   \<and> (let anos = projr (calcular_transicao (\<lambda>s. None) (PDict [(''objetos'', PList [])]) []
                 None);
        t = y_total (anos ! 3)
    in t_icms t = Fin 0 0 \<and> t_pisCofins t = Fin 0 0 \<and> t_ipi t = Fin 0 0
     \<and> t_tributosAnteriores t = Fin 0 0)"
proof -
  define res where "res = PDict [(''objetos'', PList [])]"
  define ta where "ta = [''vICMS'' \<mapsto> fl_ratio 500 1, ''vPIS'' \<mapsto> fl_ratio 100 1,
                        ''vCOFINS'' \<mapsto> fl_ratio 50 1, ''vIPI'' \<mapsto> fl_ratio 0 1]"
  define anos where "anos = projr (calcular_transicao (\<lambda>s. None) res [] (Some ta))"
  define anos0 where "anos0 = projr (calcular_transicao (\<lambda>s. None) res [] None)"
  have get: "py_get res ''objetos'' (PList []) = Inr (PList [])"
    by (simp add: res_def)
  have eq: "calcular_transicao (\<lambda>s. None) res [] (Some ta) = Inr anos"
    unfolding anos_def by (simp add: calcular_transicao_sem_objetos [OF get])
  have eq0: "calcular_transicao (\<lambda>s. None) res [] None = Inr anos0"
    unfolding anos0_def by (simp add: calcular_transicao_sem_objetos [OF get])
  have len: "3 < length anos" "3 < length anos0"
    using calcular_transicao_entry(1) [OF eq] calcular_transicao_entry(1) [OF eq0]
    by (simp_all add: TRANSITION_YEARS_def)
  have cfg: "c_ano (TRANSITION_YEARS ! 3) = 2029"
    "c_icms_fator (TRANSITION_YEARS ! 3) = fl_ratio 9 10"
    "c_pisCofins_fator (TRANSITION_YEARS ! 3) = fl_ratio 0 10"
    "c_ipi_fator (TRANSITION_YEARS ! 3) = fl_ratio 0 10"
    by (simp_all add: TRANSITION_YEARS_def)
  have lit: "fl_ratio 500 1 = Fin 125 2" "fl_ratio 100 1 = Fin 25 2" "fl_ratio 50 1 = Fin 25 1"
    "fl_ratio 45000 100 = Fin 225 1"
    by (simp_all add: fl_eval)
  have v_icms: "fadd (fadd (Fin 125 2) (Fin 0 0)) (Fin 0 0) = Fin 125 2"
    by (simp add: float_ops_eval)
  have v_pc: "fadd (Fin 25 2) (Fin 25 1) = Fin 75 1"
    by (simp add: float_ops_eval)
  have r_icms: "py_round (fmul (Fin 125 2) (fl_ratio 9 10)) 2 = Fin 225 1"
    by (simp add: float_ops_eval)
  have r_pc: "py_round (fmul (Fin 75 1) (Fin 0 0)) 2 = Fin 0 0"
    by (simp add: float_ops_eval)
  have r_sum: "py_round (fadd (fadd (Fin 225 1) (Fin 0 0)) (Fin 0 0)) 2 = Fin 225 1"
    by (simp add: float_ops_eval)
  from legacy_residuals [OF eq len(1)]
  have "y_ano (anos ! 3) = 2029
     \<and> t_icms (y_total (anos ! 3)) = Fin 225 1
     \<and> t_pisCofins (y_total (anos ! 3)) = Fin 0 0
     \<and> t_ipi (y_total (anos ! 3)) = Fin 0 0
     \<and> t_tributosAnteriores (y_total (anos ! 3)) = Fin 225 1"
    by (simp add: Let_def cfg ta_def lit v_icms v_pc r_icms r_pc r_sum)
  moreover from legacy_residuals [OF eq0 len(2)]
  have "t_icms (y_total (anos0 ! 3)) = Fin 0 0 \<and> t_pisCofins (y_total (anos0 ! 3)) = Fin 0 0
     \<and> t_ipi (y_total (anos0 ! 3)) = Fin 0 0
     \<and> t_tributosAnteriores (y_total (anos0 ! 3)) = Fin 0 0"
    by (auto simp: Let_def)
  moreover have "projr (calcular_transicao (\<lambda>s. None) (PDict [(''objetos'', PList [])]) []
                 (Some [''vICMS'' \<mapsto> fl_ratio 500 1, ''vPIS'' \<mapsto> fl_ratio 100 1,
                        ''vCOFINS'' \<mapsto> fl_ratio 50 1, ''vIPI'' \<mapsto> fl_ratio 0 1])) = anos"
    "projr (calcular_transicao (\<lambda>s. None) (PDict [(''objetos'', PList [])]) [] None) = anos0"
    by (simp_all only: anos_def anos0_def res_def ta_def)
  ultimately show ?thesis
    using len by (simp only: Let_def) (simp add: lit)
qed


section \<open>The result of \<open>calcular_projecao_rtc\<close>, year by year\<close>

lemma coletar_anos_tasks:
  "coletar_anos fstr itens_input base (map (task post base_url) cfgs) = Inr anos \<longleftrightarrow>
     list_all2 (\<lambda>cfg y. \<exists>resultado. post_year post base_url (c_ano cfg) = Inr resultado
                  \<and> ano_rtc fstr itens_input base cfg resultado = Inr y)
       (filter (\<lambda>cfg. \<not> isl (post_year post base_url (c_ano cfg))) cfgs) anos"
proof (induction cfgs arbitrary: anos)
  case Nil
  then show ?case by auto
next
  case (Cons cfg cfgs)
  show ?case
  proof (cases "post_year post base_url (c_ano cfg)")
    case (Inl exc)
    then have "task post base_url cfg = Inl exc"
      by (simp add: task_def)
    with Inl show ?thesis by (simp add: Cons.IH)
  next
    case (Inr resultado)
    then have "task post base_url cfg = Inr (cfg, resultado)"
      by (simp add: task_def)
    with Inr show ?thesis
      by (cases anos) (auto simp: ebind_Inr_iff Cons.IH)
  qed
qed

lemma calcular_projecao_rtc_Inr:
  "calcular_projecao_rtc fstr post base_url itens_input tributos_atuais = Inr anos \<longleftrightarrow>
     list_all2 (\<lambda>cfg y. \<exists>resultado. post_year post base_url (c_ano cfg) = Inr resultado
                  \<and> ano_rtc fstr itens_input (legacy_base tributos_atuais) cfg resultado = Inr y)
       (filter (\<lambda>cfg. \<not> isl (post_year post base_url (c_ano cfg))) TRANSITION_YEARS) anos"
  by (simp add: calcular_projecao_rtc_def Let_def coletar_anos_tasks)

lemma ano_rtc_Inr:
  assumes "ano_rtc fstr itens_input base cfg resultado = Inr y"
  shows "y_ano y = c_ano cfg"
    and "y_total y = year_total cfg base (y_itens y)"
    and "aliq_ef (t_cbs (y_total y)) (py_sum (map l_baseCalculo (y_itens y))) = Inr (y_aliqCbs y)"
    and "aliq_ef (t_ibs (y_total y)) (py_sum (map l_baseCalculo (y_itens y))) = Inr (y_aliqIbs y)"
    and "\<exists>objetos. py_get resultado ''objetos'' (PList []) = Inr objetos
           \<and> extrair_itens_rtc fstr objetos itens_input = Inr (y_itens y)"
  using assms by (auto simp: ano_rtc_def Let_def ebind_Inr_iff)

lemma calcular_projecao_rtc_entry:
  assumes "calcular_projecao_rtc fstr post base_url itens_input tributos_atuais = Inr anos"
    and "y \<in> set anos"
  shows "\<exists>cfg resultado. cfg \<in> set TRANSITION_YEARS
           \<and> post_year post base_url (c_ano cfg) = Inr resultado
           \<and> ano_rtc fstr itens_input (legacy_base tributos_atuais) cfg resultado = Inr y"
proof -
  from assms(2) obtain k where k: "k < length anos" "anos ! k = y"
    by (auto simp: in_set_conv_nth)
  let ?ok = "filter (\<lambda>cfg. \<not> isl (post_year post base_url (c_ano cfg))) TRANSITION_YEARS"
  from assms(1) have l: "list_all2 (\<lambda>cfg y. \<exists>resultado.
        post_year post base_url (c_ano cfg) = Inr resultado
        \<and> ano_rtc fstr itens_input (legacy_base tributos_atuais) cfg resultado = Inr y) ?ok anos"
    by (simp add: calcular_projecao_rtc_Inr)
  then have len: "length ?ok = length anos"
    by (rule list_all2_lengthD)
  with k have "?ok ! k \<in> set ?ok"
    by (intro nth_mem) simp
  then have "?ok ! k \<in> set TRANSITION_YEARS"
    by (rule subsetD [OF filter_is_subset])
  moreover from list_all2_nthD [OF l, of k] k len
  have "\<exists>resultado. post_year post base_url (c_ano (?ok ! k)) = Inr resultado
        \<and> ano_rtc fstr itens_input (legacy_base tributos_atuais) (?ok ! k) resultado = Inr y"
    by simp
  ultimately show ?thesis by blast
qed

lemma calcular_transicao_member:
  assumes "calcular_transicao fstr resultado_api itens_input tributos_atuais = Inr anos"
    and "y \<in> set anos"
  shows "\<exists>cfg itens_ano. cfg \<in> set TRANSITION_YEARS
           \<and> y = ano_transicao cfg (legacy_base tributos_atuais) itens_ano"
proof -
  from assms(2) obtain k where k: "k < length anos" "anos ! k = y"
    by (auto simp: in_set_conv_nth)
  from calcular_transicao_entry [OF assms(1)] k
  have "length anos = length TRANSITION_YEARS"
    and "\<exists>itens_ano. y = ano_transicao (TRANSITION_YEARS ! k) (legacy_base tributos_atuais) itens_ano"
    by auto
  with k(1) show ?thesis
    by (metis nth_mem)
qed

lemma post_year_always:
  "post_year (\<lambda>url year. Inr resultado) base_url year = Inr resultado"
  by (simp add: post_year_def)

lemma list_all2_choice:
  "(\<forall>x \<in> set xs. \<exists>y. P x y) \<Longrightarrow> \<exists>ys. list_all2 P xs ys"
proof (induction xs)
  case Nil
  then show ?case by simp
next
  case (Cons x xs)
  then obtain y ys where "P x y" "list_all2 P xs ys"
    by auto
  then have "list_all2 P (x # xs) (y # ys)"
    by simp
  then show ?case ..
qed

lemma schedule_length: "length TRANSITION_YEARS = 8"
  by (simp add: TRANSITION_YEARS_def)

lemma ano_rtc_sem_objetos:
  assumes "py_get resultado ''objetos'' (PList []) = Inr (PList [])"
  shows "ano_rtc fstr itens_input base cfg resultado =
           Inr \<lparr>y_ano = c_ano cfg, y_fase = c_fase cfg, y_descricao = c_descricao cfg,
                y_aliqCbs = Fin 0 0, y_aliqIbs = Fin 0 0, y_aplicaIS = c_aplica_is cfg,
                y_fonte = ''api-rtc'', y_itens = [], y_total = year_total cfg base []\<rparr>"
  using assms by (simp add: ano_rtc_def extrair_itens_rtc_def Let_def aliq_ef_def)

lemma fdiv_nonzero: "ftruthy y \<Longrightarrow> \<exists>q. fdiv x y = Inr q"
  by (cases x; cases y) (simp_all add: fdiv_def)

lemma aliq_ef_cases:
  "(ftruthy total_bc \<longrightarrow>
      (\<exists>q. fdiv total_imp total_bc = Inr q
         \<and> aliq_ef total_imp total_bc = Inr (py_round (fmul q (fl_ratio 100 1)) 3)))
   \<and> (\<not> ftruthy total_bc \<longrightarrow> aliq_ef total_imp total_bc = Inr (Fin 0 0))"
  using fdiv_nonzero [of total_bc total_imp]
  by (auto simp: aliq_ef_def)

lemma aliq_ef_returns: "\<exists>r. aliq_ef total_imp total_bc = Inr r"
  using aliq_ef_cases [of total_bc total_imp] by (cases "ftruthy total_bc") auto

lemma calcular_projecao_rtc_constant_post:
  assumes "\<And>cfg. \<exists>y. ano_rtc fstr itens_input (legacy_base tributos_atuais) cfg resultado = Inr y"
  shows "\<exists>anos. calcular_projecao_rtc fstr (\<lambda>url year. Inr resultado) base_url itens_input
                   tributos_atuais = Inr anos
           \<and> length anos = 8
           \<and> (\<forall>y \<in> set anos. \<exists>cfg.
                 ano_rtc fstr itens_input (legacy_base tributos_atuais) cfg resultado = Inr y)"
proof -
  let ?post = "\<lambda>url year. Inr resultado :: error + pyval"
  let ?P = "\<lambda>cfg y. \<exists>res. post_year ?post base_url (c_ano cfg) = Inr res
              \<and> ano_rtc fstr itens_input (legacy_base tributos_atuais) cfg res = Inr y"
  have f: "filter (\<lambda>cfg. \<not> isl (post_year ?post base_url (c_ano cfg))) TRANSITION_YEARS
           = TRANSITION_YEARS"
    by (simp add: post_year_always)
  have "\<forall>cfg \<in> set TRANSITION_YEARS. \<exists>y. ?P cfg y"
    using assms by (simp add: post_year_always)
  from list_all2_choice [OF this] obtain anos where l: "list_all2 ?P TRANSITION_YEARS anos"
    by blast
  then have "calcular_projecao_rtc fstr ?post base_url itens_input tributos_atuais = Inr anos"
    by (simp add: calcular_projecao_rtc_Inr f)
  moreover have "length anos = 8"
    using list_all2_lengthD [OF l] by (simp add: schedule_length)
  moreover have "\<exists>cfg. ano_rtc fstr itens_input (legacy_base tributos_atuais) cfg resultado = Inr y"
    if "y \<in> set anos" for y
  proof -
    from that obtain k where "k < length anos" "anos ! k = y"
      by (auto simp: in_set_conv_nth)
    with list_all2_nthD2 [OF l, of k] show ?thesis
      by (auto simp: post_year_always)
  qed
  ultimately show ?thesis by blast
qed

lemma calcular_projecao_rtc_constant_post_nth:
  assumes "calcular_projecao_rtc fstr (\<lambda>url year. Inr resultado) base_url itens_input
             tributos_atuais = Inr anos"
  shows "length anos = 8"
    and "k < 8 \<Longrightarrow>
         ano_rtc fstr itens_input (legacy_base tributos_atuais) (TRANSITION_YEARS ! k) resultado
           = Inr (anos ! k)"
proof -
  let ?post = "\<lambda>url year. Inr resultado :: error + pyval"
  have f: "filter (\<lambda>cfg. \<not> isl (post_year ?post base_url (c_ano cfg))) TRANSITION_YEARS
           = TRANSITION_YEARS"
    by (simp add: post_year_always)
  from assms have l: "list_all2 (\<lambda>cfg y. \<exists>res. post_year ?post base_url (c_ano cfg) = Inr res
              \<and> ano_rtc fstr itens_input (legacy_base tributos_atuais) cfg res = Inr y)
            TRANSITION_YEARS anos"
    by (simp add: calcular_projecao_rtc_Inr f)
  show len: "length anos = 8"
    using list_all2_lengthD [OF l] by (simp add: schedule_length)
  show "ano_rtc fstr itens_input (legacy_base tributos_atuais) (TRANSITION_YEARS ! k) resultado
           = Inr (anos ! k)" if "k < 8"
    using list_all2_nthD [OF l, of k] that by (auto simp: post_year_always schedule_length)
qed

section \<open>The year aggregation\<close>

text \<open>
  Claim C5. In every year entry that either service returns, each of the totals \<open>cbs\<close>,
  \<open>ibs\<close> and \<open>is\<close> is \<open>round(sum of the field over the year's lines, 2)\<close>,
  \<open>iva = round(cbs + ibs + is, 2)\<close> and \<open>geral = round(iva + tributosAnteriores, 2)\<close>; for
  an empty list of lines the four summed totals are \<open>0\<close>. No error is raised on an empty
  list of lines: \<open>calcular_transicao\<close> returns its eight entries when there are no invoice
  lines and the external result has no objects, and \<open>calcular_projecao_rtc\<close> returns when
  the external results that arrive have no objects.
\<close>

theorem year_totals_identity:
  "(calcular_transicao fstr resultado_api itens_input tributos_atuais = Inr anos
      \<or> calcular_projecao_rtc fstr post base_url itens_input tributos_atuais = Inr anos
    \<longrightarrow> (\<forall>y \<in> set anos.
          let t = y_total y; ls = y_itens y
          in t_cbs t = py_round (py_sum (map l_cbs ls)) 2
           \<and> t_ibs t = py_round (py_sum (map l_ibs ls)) 2
           \<and> t_is t = py_round (py_sum (map l_is ls)) 2
           \<and> t_iva t = py_round (fadd (fadd (t_cbs t) (t_ibs t)) (t_is t)) 2
           \<and> t_geral t = py_round (fadd (t_iva t) (t_tributosAnteriores t)) 2
           \<and> (ls = [] \<longrightarrow> t_cbs t = Fin 0 0 \<and> t_ibs t = Fin 0 0 \<and> t_is t = Fin 0 0
                           \<and> t_iva t = Fin 0 0)))
   \<and> (py_get resultado_api ''objetos'' (PList []) = Inr (PList [])
      \<longrightarrow> (\<exists>anos0. calcular_transicao fstr resultado_api [] tributos_atuais = Inr anos0
             \<and> length anos0 = 8 \<and> (\<forall>y \<in> set anos0. y_itens y = [])))
   \<and> ((\<forall>cfg \<in> set TRANSITION_YEARS. \<forall>resultado.
          post_year post base_url (c_ano cfg) = Inr resultado
          \<longrightarrow> py_get resultado ''objetos'' (PList []) = Inr (PList []))
      \<longrightarrow> (\<exists>anos0. calcular_projecao_rtc fstr post base_url itens_input tributos_atuais = Inr anos0
             \<and> (\<forall>y \<in> set anos0. y_itens y = [])))"
proof (intro conjI impI ballI)
  fix y
  assume r: "calcular_transicao fstr resultado_api itens_input tributos_atuais = Inr anos
      \<or> calcular_projecao_rtc fstr post base_url itens_input tributos_atuais = Inr anos"
    and y: "y \<in> set anos"
  have "\<exists>cfg base. y_total y = year_total cfg base (y_itens y)"
  proof -
    consider (a) "calcular_transicao fstr resultado_api itens_input tributos_atuais = Inr anos"
      | (b) "calcular_projecao_rtc fstr post base_url itens_input tributos_atuais = Inr anos"
      using r by blast
    then show ?thesis
    proof cases
      case a
      from calcular_transicao_member [OF a y] obtain cfg itens_ano where
        "y = ano_transicao cfg (legacy_base tributos_atuais) itens_ano"
        by blast
      then have "y_total y = year_total cfg (legacy_base tributos_atuais) (y_itens y)"
        by (simp add: ano_transicao_def)
      then show ?thesis by blast
    next
      case b
      from calcular_projecao_rtc_entry [OF b y] show ?thesis
        using ano_rtc_Inr(2) by blast
    qed
  qed
  then obtain cfg base where t: "y_total y = year_total cfg base (y_itens y)"
    by blast
  show "let t = y_total y; ls = y_itens y
          in t_cbs t = py_round (py_sum (map l_cbs ls)) 2
           \<and> t_ibs t = py_round (py_sum (map l_ibs ls)) 2
           \<and> t_is t = py_round (py_sum (map l_is ls)) 2
           \<and> t_iva t = py_round (fadd (fadd (t_cbs t) (t_ibs t)) (t_is t)) 2
           \<and> t_geral t = py_round (fadd (t_iva t) (t_tributosAnteriores t)) 2
           \<and> (ls = [] \<longrightarrow> t_cbs t = Fin 0 0 \<and> t_ibs t = Fin 0 0 \<and> t_is t = Fin 0 0
                           \<and> t_iva t = Fin 0 0)"
    unfolding Let_def t
    by (simp add: year_total_def Let_def split: prod.splits)
next
  assume g: "py_get resultado_api ''objetos'' (PList []) = Inr (PList [])"
  show "\<exists>anos0. calcular_transicao fstr resultado_api [] tributos_atuais = Inr anos0
             \<and> length anos0 = 8 \<and> (\<forall>y \<in> set anos0. y_itens y = [])"
    by (auto simp: calcular_transicao_sem_objetos [OF g] ano_transicao_def
        TRANSITION_YEARS_def)
next
  assume h: "\<forall>cfg \<in> set TRANSITION_YEARS. \<forall>resultado.
          post_year post base_url (c_ano cfg) = Inr resultado
          \<longrightarrow> py_get resultado ''objetos'' (PList []) = Inr (PList [])"
  let ?base = "legacy_base tributos_atuais"
  let ?ok = "filter (\<lambda>cfg. \<not> isl (post_year post base_url (c_ano cfg))) TRANSITION_YEARS"
  have e: "ano_rtc fstr itens_input ?base cfg resultado =
           Inr \<lparr>y_ano = c_ano cfg, y_fase = c_fase cfg, y_descricao = c_descricao cfg,
                y_aliqCbs = Fin 0 0, y_aliqIbs = Fin 0 0, y_aplicaIS = c_aplica_is cfg,
                y_fonte = ''api-rtc'', y_itens = [], y_total = year_total cfg ?base []\<rparr>"
    if "py_get resultado ''objetos'' (PList []) = Inr (PList [])" for cfg resultado
    using that by (simp add: ano_rtc_def extrair_itens_rtc_def Let_def aliq_ef_def)
  define mk where "mk cfg = \<lparr>y_ano = c_ano cfg, y_fase = c_fase cfg, y_descricao = c_descricao cfg,
                y_aliqCbs = Fin 0 0, y_aliqIbs = Fin 0 0, y_aplicaIS = c_aplica_is cfg,
                y_fonte = ''api-rtc'', y_itens = [], y_total = year_total cfg ?base []\<rparr>" for cfg
  have "list_all2 (\<lambda>cfg y. \<exists>resultado. post_year post base_url (c_ano cfg) = Inr resultado
                  \<and> ano_rtc fstr itens_input ?base cfg resultado = Inr y) ?ok (map mk ?ok)"
    unfolding list_all2_map2
  proof (rule list_all2_same [THEN iffD2], intro ballI)
    fix cfg assume "cfg \<in> set ?ok"
    then have c: "cfg \<in> set TRANSITION_YEARS" and "\<not> isl (post_year post base_url (c_ano cfg))"
      by simp_all
    then obtain resultado where p: "post_year post base_url (c_ano cfg) = Inr resultado"
      by (cases "post_year post base_url (c_ano cfg)") simp_all
    with h c have "py_get resultado ''objetos'' (PList []) = Inr (PList [])"
      by blast
    from e [OF this] p show "\<exists>resultado. post_year post base_url (c_ano cfg) = Inr resultado
        \<and> ano_rtc fstr itens_input ?base cfg resultado = Inr (mk cfg)"
      unfolding mk_def by blast
  qed
  then have "calcular_projecao_rtc fstr post base_url itens_input tributos_atuais
             = Inr (map mk ?ok)"
    by (simp add: calcular_projecao_rtc_Inr)
  moreover have "\<forall>y \<in> set (map mk ?ok). y_itens y = []"
    by (auto simp: mk_def)
  ultimately show "\<exists>anos0. calcular_projecao_rtc fstr post base_url itens_input tributos_atuais
      = Inr anos0 \<and> (\<forall>y \<in> set anos0. y_itens y = [])"
    by blast
qed


theorem year_totals_identity_witness:
  "(let itens = [\<lparr>in_numero = Some 1, in_ncm = Some ''2401'', in_descricao = None,
                  in_baseCalculo = Some (fl_ratio 100000 100)\<rparr>,
                 \<lparr>in_numero = Some 2, in_ncm = Some ''2203'', in_descricao = None,
                  in_baseCalculo = Some (fl_ratio 20000 100)\<rparr>];
        anos = projr (calcular_transicao (\<lambda>s. None) (PDict []) itens
                        (Some [''vICMS'' \<mapsto> fl_ratio 500 1]));
        y = anos ! 1;
        t = y_total y
    in length anos = 8 \<and> y_ano y = 2027
     \<and> map l_cbs (y_itens y) = [fl_ratio 8800 100, fl_ratio 1760 100]
     \<and> map l_ibs (y_itens y) = [fl_ratio 100 100, fl_ratio 20 100]
     \<and> map l_is (y_itens y) = [fl_ratio 100000 100, fl_ratio 4000 100]
     \<and> t_cbs t = fl_ratio 10560 100
     \<and> t_ibs t = fl_ratio 120 100
     \<and> t_is t = fl_ratio 104000 100
     \<and> t_iva t = fl_ratio 114680 100
     \<and> t_tributosAnteriores t = fl_ratio 50000 100
     \<and> t_geral t = fl_ratio 164680 100)
   \<and> (let resultado = PDict [(''objetos'', PList
          [PDict [(''nObj'', PInt 1),
                  (''tribCalc'', PDict [(''IBSCBS'', PDict [(''gIBSCBS'', PDict
                      [(''vBC'', PFloat (fl_ratio 100000 100)),
                       (''vIBS'', PFloat (fl_ratio 100 100)),
                       (''gCBS'', PDict [(''vCBS'', PFloat (fl_ratio 900 100))])])])])],
           PDict [(''nObj'', PInt 2),
                  (''tribCalc'', PDict
                     [(''IBSCBS'', PDict [(''gIBSCBS'', PDict
                        [(''vBC'', PFloat (fl_ratio 20000 100)),
                         (''vIBS'', PFloat (fl_ratio 20 100)),
                         (''gCBS'', PDict [(''vCBS'', PFloat (fl_ratio 180 100))])])]),
                      (''IS'', PDict [(''vIS'', PFloat (fl_ratio 4000 100))])])]])];
        r = calcular_projecao_rtc (\<lambda>s. None) (\<lambda>url year. Inr resultado) LOCAL_URL []
              (Some [''vICMS'' \<mapsto> fl_ratio 500 1]);
        y = projr r ! 0;
        t = y_total y
    in \<not> isl r \<and> length (projr r) = 8 \<and> y_ano y = 2026
     \<and> map l_cbs (y_itens y) = [fl_ratio 900 100, fl_ratio 180 100]
     \<and> map l_ibs (y_itens y) = [fl_ratio 100 100, fl_ratio 20 100]
     \<and> map l_is (y_itens y) = [Fin 0 0, fl_ratio 4000 100]
     \<and> t_cbs t = fl_ratio 1080 100
     \<and> t_ibs t = fl_ratio 120 100
     \<and> t_is t = fl_ratio 4000 100
     \<and> t_iva t = fl_ratio 5200 100
     \<and> t_tributosAnteriores t = fl_ratio 50000 100
     \<and> t_geral t = fl_ratio 55200 100)
   \<and> (let ra = calcular_transicao (\<lambda>s. None) (PDict []) [] None;
           t = y_total (projr ra ! 0)
       in \<not> isl ra \<and> length (projr ra) = 8 \<and> y_itens (projr ra ! 0) = []
        \<and> t_cbs t = Fin 0 0 \<and> t_ibs t = Fin 0 0 \<and> t_is t = Fin 0 0 \<and> t_iva t = Fin 0 0
        \<and> t_geral t = Fin 0 0)
   \<and> (let rb = calcular_projecao_rtc (\<lambda>s. None) (\<lambda>url year. Inr (PDict [])) LOCAL_URL [] None;
           t = y_total (projr rb ! 0)
       in \<not> isl rb \<and> length (projr rb) = 8 \<and> y_itens (projr rb ! 0) = []
        \<and> t_cbs t = Fin 0 0 \<and> t_ibs t = Fin 0 0 \<and> t_is t = Fin 0 0 \<and> t_iva t = Fin 0 0
        \<and> t_geral t = Fin 0 0)"
proof -
  define fstr :: "string \<Rightarrow> pyfloat option" where "fstr = (\<lambda>s. None)"
  define i1 where "i1 = \<lparr>in_numero = Some 1, in_ncm = Some ''2401'', in_descricao = None,
                  in_baseCalculo = Some (fl_ratio 100000 100)\<rparr>"
  define i2 where "i2 = \<lparr>in_numero = Some 2, in_ncm = Some ''2203'', in_descricao = None,
                  in_baseCalculo = Some (fl_ratio 20000 100)\<rparr>"
  define ta where "ta = [''vICMS'' \<mapsto> fl_ratio 500 1]"
  define o1 where "o1 = PDict [(''nObj'', PInt 1),
                  (''tribCalc'', PDict [(''IBSCBS'', PDict [(''gIBSCBS'', PDict
                      [(''vBC'', PFloat (fl_ratio 100000 100)),
                       (''vIBS'', PFloat (fl_ratio 100 100)),
                       (''gCBS'', PDict [(''vCBS'', PFloat (fl_ratio 900 100))])])])])]"
  define o2 where "o2 = PDict [(''nObj'', PInt 2),
                  (''tribCalc'', PDict
                     [(''IBSCBS'', PDict [(''gIBSCBS'', PDict
                        [(''vBC'', PFloat (fl_ratio 20000 100)),
                         (''vIBS'', PFloat (fl_ratio 20 100)),
                         (''gCBS'', PDict [(''vCBS'', PFloat (fl_ratio 180 100))])])]),
                      (''IS'', PDict [(''vIS'', PFloat (fl_ratio 4000 100))])])]"
  define res where "res = PDict [(''objetos'', PList [o1, o2])]"
  define ra where "ra = calcular_transicao fstr (PDict []) [i1, i2] (Some ta)"
  define rb where "rb = calcular_projecao_rtc fstr (\<lambda>url year. Inr res) LOCAL_URL [] (Some ta)"
  define ra0 where "ra0 = calcular_transicao fstr (PDict []) [] None"
  define rb0 where "rb0 = calcular_projecao_rtc fstr (\<lambda>url year. Inr (PDict [])) LOCAL_URL [] None"
  have lit: "fl_ratio 100000 100 = Fin 125 3" "fl_ratio 20000 100 = Fin 25 3"
    "fl_ratio 8800 100 = Fin 11 3" "fl_ratio 1760 100 = Fin 2476979795053773 (- 47)"
    "fl_ratio 4000 100 = Fin 5 3" "fl_ratio 10560 100 = Fin 3715469692580659 (- 45)"
    "fl_ratio 120 100 = Fin 5404319552844595 (- 52)" "fl_ratio 104000 100 = Fin 65 4"
    "fl_ratio 114680 100 = Fin 5043679738934067 (- 42)" "fl_ratio 50000 100 = Fin 125 2"
    "fl_ratio 500 1 = Fin 125 2" "fl_ratio 164680 100 = Fin 7242702994486067 (- 42)"
    "fl_ratio 900 100 = Fin 9 0" "fl_ratio 180 100 = Fin 8106479329266893 (- 52)"
    "fl_ratio 1080 100 = Fin 3039929748475085 (- 48)" "fl_ratio 5200 100 = Fin 13 2"
    "fl_ratio 55200 100 = Fin 69 3"
    by (simp_all add: fl_eval)
  note lits = lit float_literals
  have cfg0: "c_ano (TRANSITION_YEARS ! 0) = 2026"
    "c_icms_fator (TRANSITION_YEARS ! 0) = Fin 1 0"
    "c_pisCofins_fator (TRANSITION_YEARS ! 0) = Fin 1 0"
    "c_ipi_fator (TRANSITION_YEARS ! 0) = Fin 1 0"
    by (simp_all add: TRANSITION_YEARS_def float_literals)
  have cfg1: "c_ano (TRANSITION_YEARS ! Suc 0) = 2027"
    "c_cbs (TRANSITION_YEARS ! Suc 0) = fl_ratio 88 1000"
    "c_ibs (TRANSITION_YEARS ! Suc 0) = fl_ratio 1 1000"
    "c_aplica_is (TRANSITION_YEARS ! Suc 0)"
    "c_icms_fator (TRANSITION_YEARS ! Suc 0) = Fin 1 0"
    "c_pisCofins_fator (TRANSITION_YEARS ! Suc 0) = Fin 0 0"
    "c_ipi_fator (TRANSITION_YEARS ! Suc 0) = Fin 0 0"
    by (simp_all add: TRANSITION_YEARS_def float_literals)
  have det: "detectar_is (Some ''2401'') =
      Some \<lparr>rate = Fin 1 0, desc = cat_desc (IS_CATEGORIES ! 0)\<rparr>"
    "detectar_is (Some ''2203'') =
      Some \<lparr>rate = fl_ratio 20 100, desc = cat_desc (IS_CATEGORIES ! 1)\<rparr>"
    by (simp_all add: detectar_is_def prefix4_of_def IS_CATEGORIES_def float_literals)
  have v: "py_round (fmul (Fin 125 3) (fl_ratio 88 1000)) 2 = Fin 11 3"
    "py_round (fmul (Fin 25 3) (fl_ratio 88 1000)) 2 = Fin 2476979795053773 (- 47)"
    "py_round (fmul (Fin 125 3) (fl_ratio 1 1000)) 2 = Fin 1 0"
    "py_round (fmul (Fin 25 3) (fl_ratio 1 1000)) 2 = Fin 3602879701896397 (- 54)"
    "py_round (fmul (Fin 125 3) (Fin 1 0)) 2 = Fin 125 3"
    "py_round (fmul (Fin 25 3) (fl_ratio 20 100)) 2 = Fin 5 3"
    by (simp_all add: float_ops_eval)
  have sums_a: "py_round (py_sum [Fin 11 3, Fin 2476979795053773 (- 47)]) 2
      = Fin 3715469692580659 (- 45)"
    "py_round (py_sum [Fin 1 0, Fin 3602879701896397 (- 54)]) 2 = Fin 5404319552844595 (- 52)"
    "py_round (py_sum [Fin 125 3, Fin 5 3]) 2 = Fin 65 4"
    by (simp_all add: py_sum_def float_ops_eval)
  have iva_a: "py_round (fadd (fadd (Fin 3715469692580659 (- 45)) (Fin 5404319552844595 (- 52)))
                            (Fin 65 4)) 2 = Fin 5043679738934067 (- 42)"
    by (simp add: float_ops_eval)
  have geral_a: "py_round (fadd (Fin 5043679738934067 (- 42)) (Fin 125 2)) 2
      = Fin 7242702994486067 (- 42)"
    by (simp add: float_ops_eval)
  have sums_b: "py_round (py_sum [Fin 9 0, Fin 8106479329266893 (- 52)]) 2
      = Fin 3039929748475085 (- 48)"
    "py_round (py_sum [Fin 0 0, Fin 5 3]) 2 = Fin 5 3"
    by (simp_all add: py_sum_def float_ops_eval)
  have iva_b: "py_round (fadd (fadd (Fin 3039929748475085 (- 48)) (Fin 5404319552844595 (- 52)))
                            (Fin 5 3)) 2 = Fin 13 2"
    by (simp add: float_ops_eval)
  have geral_b: "py_round (fadd (Fin 13 2) (Fin 125 2)) 2 = Fin 69 3"
    by (simp add: float_ops_eval)
  have leg: "py_round (fmul (fadd (fadd (Fin 125 2) (Fin 0 0)) (Fin 0 0)) (Fin 1 0)) 2 = Fin 125 2"
    "py_round (fadd (fadd (Fin 125 2) (Fin 0 0)) (Fin 0 0)) 2 = Fin 125 2"
    by (simp_all add: float_ops_eval)
  have base: "legacy_base (Some ta) = (fadd (fadd (Fin 125 2) (Fin 0 0)) (Fin 0 0), Fin 0 0, Fin 0 0)"
    "legacy_base None = (Fin 0 0, Fin 0 0, Fin 0 0)"
    by (simp_all add: legacy_base_def ta_get_def ta_def lit Let_def)
  have trib: "t_tributosAnteriores (year_total (TRANSITION_YEARS ! 0) (legacy_base (Some ta)) ls)
      = Fin 125 2"
    "t_tributosAnteriores (year_total (TRANSITION_YEARS ! Suc 0) (legacy_base (Some ta)) ls)
      = Fin 125 2"
    "t_tributosAnteriores (year_total (TRANSITION_YEARS ! 0) (legacy_base None) ls) = Fin 0 0"
    for ls
    by (simp_all add: base year_total_fields cfg0 cfg1 leg)

  txt \<open>Two invoice lines in the projected year 2027.\<close>
  have get: "py_get (PDict []) ''objetos'' (PList []) = Inr (PList [])"
    by simp
  define A where "A = map (\<lambda>cfg. ano_transicao cfg (legacy_base (Some ta))
                           (if c_ano cfg = 2026 then []
                            else map (item_projetado cfg) [i1, i2]))
                TRANSITION_YEARS"
  have eqA: "calcular_transicao fstr (PDict []) [i1, i2] (Some ta) = Inr A"
    unfolding A_def by (rule calcular_transicao_sem_objetos [OF get])
  have lenA: "length A = 8"
    by (simp add: A_def schedule_length)
  have A1: "A ! Suc 0 = ano_transicao (TRANSITION_YEARS ! Suc 0) (legacy_base (Some ta))
                      (map (item_projetado (TRANSITION_YEARS ! Suc 0)) [i1, i2])"
    by (simp add: A_def schedule_length cfg1)
  have linesA: "map l_cbs (y_itens (A ! Suc 0)) = [Fin 11 3, Fin 2476979795053773 (- 47)]"
    "map l_ibs (y_itens (A ! Suc 0)) = [Fin 1 0, Fin 3602879701896397 (- 54)]"
    "map l_is (y_itens (A ! Suc 0)) = [Fin 125 3, Fin 5 3]"
    by (simp_all add: A1 ano_transicao_def item_projetado_def Let_def i1_def i2_def cfg1 det
        lit v)
  have yA: "A ! Suc 0 \<in> set A"
    using lenA by simp
  note yti = year_totals_identity [where fstr = fstr and resultado_api = "PDict []"
      and itens_input = "[i1, i2]" and tributos_atuais = "Some ta" and anos = A,
      THEN conjunct1, rule_format, OF disjI1 [OF eqA] yA]
  from yti have totA: "t_cbs (y_total (A ! Suc 0)) = Fin 3715469692580659 (- 45)"
    "t_ibs (y_total (A ! Suc 0)) = Fin 5404319552844595 (- 52)"
    "t_is (y_total (A ! Suc 0)) = Fin 65 4"
    by (simp_all add: Let_def linesA sums_a)
  have tribA: "t_tributosAnteriores (y_total (A ! Suc 0)) = Fin 125 2"
    by (simp add: A1 ano_transicao_def trib)
  from yti have ivaA: "t_iva (y_total (A ! Suc 0)) = Fin 5043679738934067 (- 42)"
    by (simp add: Let_def totA iva_a)
  from yti have geralA: "t_geral (y_total (A ! Suc 0)) = Fin 7242702994486067 (- 42)"
    by (simp add: Let_def ivaA tribA geral_a)
  have anoA: "y_ano (A ! Suc 0) = 2027"
    by (simp add: A1 ano_transicao_def cfg1)
  have first: "length (projr ra) = 8 \<and> y_ano (projr ra ! 1) = 2027
     \<and> map l_cbs (y_itens (projr ra ! 1)) = [fl_ratio 8800 100, fl_ratio 1760 100]
     \<and> map l_ibs (y_itens (projr ra ! 1)) = [fl_ratio 100 100, fl_ratio 20 100]
     \<and> map l_is (y_itens (projr ra ! 1)) = [fl_ratio 100000 100, fl_ratio 4000 100]
     \<and> t_cbs (y_total (projr ra ! 1)) = fl_ratio 10560 100
     \<and> t_ibs (y_total (projr ra ! 1)) = fl_ratio 120 100
     \<and> t_is (y_total (projr ra ! 1)) = fl_ratio 104000 100
     \<and> t_iva (y_total (projr ra ! 1)) = fl_ratio 114680 100
     \<and> t_tributosAnteriores (y_total (projr ra ! 1)) = fl_ratio 50000 100
     \<and> t_geral (y_total (projr ra ! 1)) = fl_ratio 164680 100"
    unfolding ra_def eqA
    using lenA anoA linesA totA ivaA tribA geralA by (simp add: lits)


  txt \<open>Two external line results in the year 2026 of the projection by calls.\<close>
  obtain L1 L2 where items: "extrair_itens_rtc fstr (PList [o1, o2]) [] = Inr [L1, L2]"
    and L: "l_cbs L1 = Fin 9 0" "l_ibs L1 = Fin 1 0" "l_is L1 = Fin 0 0"
      "l_cbs L2 = Fin 8106479329266893 (- 52)" "l_ibs L2 = Fin 3602879701896397 (- 54)"
      "l_is L2 = Fin 5 3"
    by (simp add: extrair_itens_rtc_def extrair_item_rtc_def o1_def o2_def inp_by_num_def
        inp_by_num_get_def py_or_def lits fl_eval)
  have "\<exists>y. ano_rtc fstr [] (legacy_base (Some ta)) cfg res = Inr y" for cfg
    using aliq_ef_returns
    by (simp add: ano_rtc_def res_def items Let_def ebind_Inr_iff) metis
  from calcular_projecao_rtc_constant_post [of fstr "[]" "Some ta" res LOCAL_URL, OF this]
  obtain B where eqB: "calcular_projecao_rtc fstr (\<lambda>url year. Inr res) LOCAL_URL [] (Some ta)
      = Inr B"
    by blast
  note nB = calcular_projecao_rtc_constant_post_nth [OF eqB]
  have lenB: "length B = 8"
    by (rule nB(1))
  have B0: "ano_rtc fstr [] (legacy_base (Some ta)) (TRANSITION_YEARS ! 0) res = Inr (B ! 0)"
    by (rule nB(2)) simp
  from ano_rtc_Inr(5) [OF B0] items have itB: "y_itens (B ! 0) = [L1, L2]"
    by (auto simp: res_def)
  have anoB: "y_ano (B ! 0) = 2026"
    using ano_rtc_Inr(1) [OF B0] by (simp add: cfg0)
  have tribB: "t_tributosAnteriores (y_total (B ! 0)) = Fin 125 2"
    using ano_rtc_Inr(2) [OF B0] by (simp add: trib)
  have yB: "B ! 0 \<in> set B"
    using lenB by simp
  note ytb = year_totals_identity [where fstr = fstr and post = "\<lambda>url year. Inr res"
      and base_url = LOCAL_URL and itens_input = "[]" and tributos_atuais = "Some ta"
      and anos = B, THEN conjunct1, rule_format, OF disjI2 [OF eqB] yB]
  from ytb have totB: "t_cbs (y_total (B ! 0)) = Fin 3039929748475085 (- 48)"
    "t_ibs (y_total (B ! 0)) = Fin 5404319552844595 (- 52)"
    "t_is (y_total (B ! 0)) = Fin 5 3"
    by (simp_all add: Let_def itB L sums_a sums_b)
  from ytb have ivaB: "t_iva (y_total (B ! 0)) = Fin 13 2"
    by (simp add: Let_def totB iva_b)
  from ytb have geralB: "t_geral (y_total (B ! 0)) = Fin 69 3"
    by (simp add: Let_def ivaB tribB geral_b)
  have second: "\<not> isl rb \<and> length (projr rb) = 8 \<and> y_ano (projr rb ! 0) = 2026
     \<and> map l_cbs (y_itens (projr rb ! 0)) = [fl_ratio 900 100, fl_ratio 180 100]
     \<and> map l_ibs (y_itens (projr rb ! 0)) = [fl_ratio 100 100, fl_ratio 20 100]
     \<and> map l_is (y_itens (projr rb ! 0)) = [Fin 0 0, fl_ratio 4000 100]
     \<and> t_cbs (y_total (projr rb ! 0)) = fl_ratio 1080 100
     \<and> t_ibs (y_total (projr rb ! 0)) = fl_ratio 120 100
     \<and> t_is (y_total (projr rb ! 0)) = fl_ratio 4000 100
     \<and> t_iva (y_total (projr rb ! 0)) = fl_ratio 5200 100
     \<and> t_tributosAnteriores (y_total (projr rb ! 0)) = fl_ratio 50000 100
     \<and> t_geral (y_total (projr rb ! 0)) = fl_ratio 55200 100"
    unfolding rb_def eqB
    using lenB anoB itB L totB ivaB tribB geralB by (simp add: lits)

  txt \<open>No lines at all.\<close>
  note yt0 = year_totals_identity [where fstr = fstr and resultado_api = "PDict []"
      and itens_input = "[]" and tributos_atuais = None
      and post = "\<lambda>url year. Inr (PDict [])" and base_url = LOCAL_URL]
  from yt0 get obtain A0 where eqA0: "calcular_transicao fstr (PDict []) [] None = Inr A0"
    and lenA0: "length A0 = 8" and itA0: "\<forall>y \<in> set A0. y_itens y = []"
    by blast
  then have yA0: "A0 ! 0 \<in> set A0" and emA0: "y_itens (A0 ! 0) = []"
    by simp_all
  from calcular_transicao_entry(2) [OF eqA0, of 0] lenA0
  have tribA0: "t_tributosAnteriores (y_total (A0 ! 0)) = Fin 0 0"
    by (auto simp: ano_transicao_def trib)
  from yt0 [where anos = A0, THEN conjunct1, rule_format, OF disjI1 [OF eqA0] yA0]
  have zA0: "t_cbs (y_total (A0 ! 0)) = Fin 0 0" "t_ibs (y_total (A0 ! 0)) = Fin 0 0"
    "t_is (y_total (A0 ! 0)) = Fin 0 0" "t_iva (y_total (A0 ! 0)) = Fin 0 0"
    "t_geral (y_total (A0 ! 0)) = Fin 0 0"
    by (simp_all add: Let_def emA0 tribA0)
  have third: "\<not> isl ra0 \<and> length (projr ra0) = 8 \<and> y_itens (projr ra0 ! 0) = []
        \<and> t_cbs (y_total (projr ra0 ! 0)) = Fin 0 0 \<and> t_ibs (y_total (projr ra0 ! 0)) = Fin 0 0
        \<and> t_is (y_total (projr ra0 ! 0)) = Fin 0 0 \<and> t_iva (y_total (projr ra0 ! 0)) = Fin 0 0
        \<and> t_geral (y_total (projr ra0 ! 0)) = Fin 0 0"
    unfolding ra0_def eqA0
    using lenA0 emA0 zA0 by simp
  have "\<forall>cfg \<in> set TRANSITION_YEARS. \<forall>resultado.
          post_year (\<lambda>url year. Inr (PDict [])) LOCAL_URL (c_ano cfg) = Inr resultado
          \<longrightarrow> py_get resultado ''objetos'' (PList []) = Inr (PList [])"
    by (auto simp: post_year_always)
  with yt0 obtain B0' where eqB0: "calcular_projecao_rtc fstr (\<lambda>url year. Inr (PDict []))
      LOCAL_URL [] None = Inr B0'" and itB0: "\<forall>y \<in> set B0'. y_itens y = []"
    by blast
  note nB0 = calcular_projecao_rtc_constant_post_nth [OF eqB0]
  have lenB0: "length B0' = 8"
    by (rule nB0(1))
  then have yB0: "B0' ! 0 \<in> set B0'" and emB0: "y_itens (B0' ! 0) = []"
    using itB0 by simp_all
  have "ano_rtc fstr [] (legacy_base None) (TRANSITION_YEARS ! 0) (PDict []) = Inr (B0' ! 0)"
    by (rule nB0(2)) simp
  from ano_rtc_Inr(2) [OF this]
  have tribB0: "t_tributosAnteriores (y_total (B0' ! 0)) = Fin 0 0"
    by (simp add: trib)
  from yt0 [where anos = B0', THEN conjunct1, rule_format, OF disjI2 [OF eqB0] yB0]
  have zB0: "t_cbs (y_total (B0' ! 0)) = Fin 0 0" "t_ibs (y_total (B0' ! 0)) = Fin 0 0"
    "t_is (y_total (B0' ! 0)) = Fin 0 0" "t_iva (y_total (B0' ! 0)) = Fin 0 0"
    "t_geral (y_total (B0' ! 0)) = Fin 0 0"
    by (simp_all add: Let_def emB0 tribB0)
  have fourth: "\<not> isl rb0 \<and> length (projr rb0) = 8 \<and> y_itens (projr rb0 ! 0) = []
        \<and> t_cbs (y_total (projr rb0 ! 0)) = Fin 0 0 \<and> t_ibs (y_total (projr rb0 ! 0)) = Fin 0 0
        \<and> t_is (y_total (projr rb0 ! 0)) = Fin 0 0 \<and> t_iva (y_total (projr rb0 ! 0)) = Fin 0 0
        \<and> t_geral (y_total (projr rb0 ! 0)) = Fin 0 0"
    unfolding rb0_def eqB0
    using lenB0 emB0 zB0 by simp

  from first second third fourth show ?thesis
    unfolding Let_def ra_def rb_def ra0_def rb0_def res_def o1_def o2_def i1_def i2_def ta_def
      fstr_def
    by blast
qed


section \<open>Years whose external call fails\<close>













section \<open>Effective rates of \<open>calcular_projecao_rtc\<close>\<close>

text \<open>
  Claim C8. In every year entry that \<open>calcular_projecao_rtc\<close> returns, with \<open>total_bc\<close>
  the sum of the lines' \<open>baseCalculo\<close>: when \<open>total_bc\<close> is not zero, the divisions
  \<open>total_cbs / total_bc\<close> and \<open>total_ibs / total_bc\<close> return and
  \<open>aliqCbs = round(total_cbs / total_bc * 100, 3)\<close>,
  \<open>aliqIbs = round(total_ibs / total_bc * 100, 3)\<close>; when \<open>total_bc\<close> is zero both rates
  are \<open>0\<close>. The computation of a rate returns for all totals: the division is never done
  on a zero base. The entries of \<open>calcular_transicao\<close> carry the nominal rates of the
  schedule times \<open>100\<close> instead.
\<close>

theorem effective_rates:
  "(calcular_projecao_rtc fstr post base_url itens_input tributos_atuais = Inr anos
    \<longrightarrow> (\<forall>y \<in> set anos.
          let t = y_total y;
              total_bc = py_sum (map l_baseCalculo (y_itens y))
          in (ftruthy total_bc \<longrightarrow>
                (\<exists>q_cbs q_ibs.
                   fdiv (t_cbs t) total_bc = Inr q_cbs
                   \<and> fdiv (t_ibs t) total_bc = Inr q_ibs
                   \<and> y_aliqCbs y = py_round (fmul q_cbs (fl_ratio 100 1)) 3
                   \<and> y_aliqIbs y = py_round (fmul q_ibs (fl_ratio 100 1)) 3))
           \<and> (\<not> ftruthy total_bc \<longrightarrow> y_aliqCbs y = Fin 0 0 \<and> y_aliqIbs y = Fin 0 0)))
   \<and> (\<exists>r. aliq_ef total_imp total_bc = Inr r)
   \<and> (calcular_transicao fstr resultado_api itens_input tributos_atuais = Inr anos_a
      \<longrightarrow> (\<forall>k < length anos_a.
            y_aliqCbs (anos_a ! k) = fmul (c_cbs (TRANSITION_YEARS ! k)) (fl_ratio 100 1)
            \<and> y_aliqIbs (anos_a ! k) = fmul (c_ibs (TRANSITION_YEARS ! k)) (fl_ratio 100 1)))"
proof (intro conjI impI ballI allI)
  fix y
  assume r: "calcular_projecao_rtc fstr post base_url itens_input tributos_atuais = Inr anos"
    and y: "y \<in> set anos"
  from calcular_projecao_rtc_entry [OF r y] obtain cfg resultado where
    "ano_rtc fstr itens_input (legacy_base tributos_atuais) cfg resultado = Inr y"
    by blast
  note e = ano_rtc_Inr(3,4) [OF this]
  show "let t = y_total y;
              total_bc = py_sum (map l_baseCalculo (y_itens y))
          in (ftruthy total_bc \<longrightarrow>
                (\<exists>q_cbs q_ibs.
                   fdiv (t_cbs t) total_bc = Inr q_cbs
                   \<and> fdiv (t_ibs t) total_bc = Inr q_ibs
                   \<and> y_aliqCbs y = py_round (fmul q_cbs (fl_ratio 100 1)) 3
                   \<and> y_aliqIbs y = py_round (fmul q_ibs (fl_ratio 100 1)) 3))
           \<and> (\<not> ftruthy total_bc \<longrightarrow> y_aliqCbs y = Fin 0 0 \<and> y_aliqIbs y = Fin 0 0)"
    using e aliq_ef_cases [of "py_sum (map l_baseCalculo (y_itens y))" "t_cbs (y_total y)"]
      aliq_ef_cases [of "py_sum (map l_baseCalculo (y_itens y))" "t_ibs (y_total y)"]
    unfolding Let_def by auto
next
  show "\<exists>r. aliq_ef total_imp total_bc = Inr r"
    by (rule aliq_ef_returns)
next
  fix k
  assume a: "calcular_transicao fstr resultado_api itens_input tributos_atuais = Inr anos_a"
    and k: "k < length anos_a"
  from calcular_transicao_entry(2) [OF a k]
  show "y_aliqCbs (anos_a ! k) = fmul (c_cbs (TRANSITION_YEARS ! k)) (fl_ratio 100 1)"
    and "y_aliqIbs (anos_a ! k) = fmul (c_ibs (TRANSITION_YEARS ! k)) (fl_ratio 100 1)"
    by (auto simp: ano_transicao_def)
qed


theorem effective_rates_witness:
  "(let resultado = PDict [(''objetos'', PList
          [PDict [(''nObj'', PInt 1),
                  (''tribCalc'', PDict [(''IBSCBS'', PDict [(''gIBSCBS'', PDict
                      [(''vBC'', PFloat (fl_ratio 100000 100)),
                       (''vIBS'', PFloat (fl_ratio 100 100)),
                       (''gCBS'', PDict [(''vCBS'', PFloat (fl_ratio 900 100))])])])])]])];
        r = calcular_projecao_rtc (\<lambda>s. None) (\<lambda>url year. Inr resultado)
              ''http://localhost:8080'' [] None;
        y = projr r ! 0
    in \<not> isl r
     \<and> ftruthy (py_sum (map l_baseCalculo (y_itens y)))
     \<and> y_aliqCbs y = fl_ratio 900 1000
     \<and> y_aliqIbs y = fl_ratio 100 1000)
   \<and> (let r = calcular_projecao_rtc (\<lambda>s. None) (\<lambda>url year. Inr (PDict []))
              ''http://localhost:8080'' [] None;
        y = projr r ! 0
    in \<not> isl r
     \<and> \<not> ftruthy (py_sum (map l_baseCalculo (y_itens y)))
     \<and> y_aliqCbs y = Fin 0 0
     \<and> y_aliqIbs y = Fin 0 0)"
proof -
  define obj where "obj = PDict [(''nObj'', PInt 1),
                  (''tribCalc'', PDict [(''IBSCBS'', PDict [(''gIBSCBS'', PDict
                      [(''vBC'', PFloat (fl_ratio 100000 100)),
                       (''vIBS'', PFloat (fl_ratio 100 100)),
                       (''gCBS'', PDict [(''vCBS'', PFloat (fl_ratio 900 100))])])])])]"
  define res where "res = PDict [(''objetos'', PList [obj])]"
  define fstr :: "string \<Rightarrow> pyfloat option" where "fstr = (\<lambda>s. None)"
  define url where "url = ''http://localhost:8080''"
  define r where "r = calcular_projecao_rtc fstr (\<lambda>url year. Inr res) url [] None"
  define r0 where "r0 = calcular_projecao_rtc fstr (\<lambda>url year. Inr (PDict [])) url [] None"
  define base where "base = legacy_base None"
  have lit: "fl_ratio 100000 100 = Fin 125 3" "fl_ratio 100 100 = Fin 1 0"
    "fl_ratio 900 100 = Fin 9 0" "fl_ratio 900 1000 = Fin 8106479329266893 (- 53)"
    "fl_ratio 100 1000 = Fin 3602879701896397 (- 55)"
    by (simp_all add: fl_eval)
  have rnd: "py_round (Fin 9 0) 2 = Fin 9 0" "py_round (Fin 1 0) 2 = Fin 1 0"
    by (simp_all add: fl_eval)
  have sums: "py_sum [Fin 125 3] = Fin 125 3" "py_sum [Fin 9 0] = Fin 9 0"
    "py_sum [Fin 1 0] = Fin 1 0"
    by (simp_all add: py_sum_def float_ops_eval)
  obtain L where items: "extrair_itens_rtc fstr (PList [obj]) [] = Inr [L]"
    and L: "l_baseCalculo L = Fin 125 3" "l_cbs L = Fin 9 0" "l_ibs L = Fin 1 0"
    by (simp add: extrair_itens_rtc_def extrair_item_rtc_def obj_def inp_by_num_def
        inp_by_num_get_def py_or_def lit rnd Let_def)
  have ent: "y_itens y = [L] \<and> t_cbs (y_total y) = Fin 9 0 \<and> t_ibs (y_total y) = Fin 1 0"
    if "ano_rtc fstr [] base cfg res = Inr y" for cfg y
  proof -
    from ano_rtc_Inr(5) [OF that] items have i: "y_itens y = [L]"
      by (auto simp: res_def)
    with ano_rtc_Inr(2) [OF that] show ?thesis
      by (simp add: year_total_fields L sums lit)
  qed
  have "\<exists>y. ano_rtc fstr [] base cfg res = Inr y" for cfg
    using aliq_ef_returns
    by (simp add: ano_rtc_def res_def items Let_def ebind_Inr_iff) metis
  from calcular_projecao_rtc_constant_post [of fstr "[]" None res url, folded base_def, OF this]
  obtain anos where a: "r = Inr anos" "length anos = 8"
    "\<forall>y \<in> set anos. \<exists>cfg. ano_rtc fstr [] base cfg res = Inr y"
    unfolding r_def by blast
  then have y: "anos ! 0 \<in> set anos"
    by simp
  with a(3) ent have e: "y_itens (anos ! 0) = [L]" "t_cbs (y_total (anos ! 0)) = Fin 9 0"
    "t_ibs (y_total (anos ! 0)) = Fin 1 0"
    by blast+
  have d: "fdiv (Fin 9 0) (Fin 125 3) = Inr (fl_ratio 9 1000)"
    "fdiv (Fin 1 0) (Fin 125 3) = Inr (fl_ratio 1 1000)"
    by (simp_all add: fdiv_def)
  have v: "py_round (fmul (fl_ratio 9 1000) (fl_ratio 100 1)) 3 = Fin 8106479329266893 (- 53)"
    "py_round (fmul (fl_ratio 1 1000) (fl_ratio 100 1)) 3 = Fin 3602879701896397 (- 55)"
    by (simp_all add: float_ops_eval)
  from effective_rates [of fstr "\<lambda>url year. Inr res" url "[]" None anos,
      THEN conjunct1, rule_format, OF a(1) [unfolded r_def] y]
  have "y_aliqCbs (anos ! 0) = Fin 8106479329266893 (- 53)
      \<and> y_aliqIbs (anos ! 0) = Fin 3602879701896397 (- 55)"
    by (auto simp: Let_def e L sums d v)
  with a(1) e have first: "\<not> isl r \<and> ftruthy (py_sum (map l_baseCalculo (y_itens (projr r ! 0))))
      \<and> y_aliqCbs (projr r ! 0) = fl_ratio 900 1000
      \<and> y_aliqIbs (projr r ! 0) = fl_ratio 100 1000"
    by (simp add: L sums lit)
  have "\<exists>y. ano_rtc fstr [] base cfg (PDict []) = Inr y" for cfg
    by (simp add: ano_rtc_sem_objetos)
  from calcular_projecao_rtc_constant_post [of fstr "[]" None "PDict []" url, folded base_def,
      OF this]
  obtain anos0 where a0: "r0 = Inr anos0" "length anos0 = 8"
    "\<forall>y \<in> set anos0. \<exists>cfg. ano_rtc fstr [] base cfg (PDict []) = Inr y"
    unfolding r0_def by blast
  then have y0: "anos0 ! 0 \<in> set anos0"
    by simp
  with a0(3) obtain cfg0 where "ano_rtc fstr [] base cfg0 (PDict []) = Inr (anos0 ! 0)"
    by blast
  from ano_rtc_Inr(5) [OF this] have e0: "y_itens (anos0 ! 0) = []"
    by (auto simp: extrair_itens_rtc_def)
  from effective_rates [of fstr "\<lambda>url year. Inr (PDict [])" url "[]" None anos0,
      THEN conjunct1, rule_format, OF a0(1) [unfolded r0_def] y0]
  have "y_aliqCbs (anos0 ! 0) = Fin 0 0 \<and> y_aliqIbs (anos0 ! 0) = Fin 0 0"
    by (auto simp: Let_def e0)
  with a0(1) e0 have second: "\<not> isl r0
      \<and> \<not> ftruthy (py_sum (map l_baseCalculo (y_itens (projr r0 ! 0))))
      \<and> y_aliqCbs (projr r0 ! 0) = Fin 0 0 \<and> y_aliqIbs (projr r0 ! 0) = Fin 0 0"
    by simp
  from first second show ?thesis
    unfolding Let_def r_def r0_def res_def obj_def fstr_def url_def
    by blast
qed


section \<open>The two extractors on an external line result\<close>

lemma py_get_dict_iff:
  "py_get v k d = Inr v' \<longleftrightarrow>
     is_dict v \<and> v' = (case lookup_path v [k] of None \<Rightarrow> d | Some x \<Rightarrow> x)"
  by (cases v) (auto split: option.splits)

lemma lookup_path_empty_dict: "ks \<noteq> [] \<Longrightarrow> lookup_path (PDict []) ks = None"
  by (cases ks) simp_all

lemma lookup_path_sub:
  assumes "is_dict v" and "ks \<noteq> []"
  shows "lookup_path (case lookup_path v [k] of None \<Rightarrow> PDict [] | Some x \<Rightarrow> x) ks
         = lookup_path v (k # ks)"
  using assms by (cases v) (auto simp: lookup_path_empty_dict split: option.splits)

lemma lookup_path_leaf:
  assumes "is_dict v"
  shows "lookup_path (case lookup_path v [k] of None \<Rightarrow> PDict [] | Some x \<Rightarrow> x) [k']
         = lookup_path v [k, k']"
  using lookup_path_sub [OF assms, of "[k']" k] by simp

text \<open>
  When an extractor returns, the objects it went through are the ones on the paths, and
  the values it converted are the ones at the paths of the numeric fields.
\<close>

lemma get_container:
  assumes "py_get v k (PDict []) = Inr v'"
  shows "is_dict v" and "ks \<noteq> [] \<Longrightarrow> lookup_path v' ks = lookup_path v (k # ks)"
  using assms lookup_path_sub [of v ks k] by (auto simp: py_get_dict_iff)

lemma get_field:
  assumes "ebind (py_get v k (PInt 0)) conv = Inr x"
    and "conv (PInt 0) = Inr (Fin 0 0)"
  shows "is_dict v" and "field_value conv v [k] = Inr x"
  using assms by (auto simp: ebind_Inr_iff py_get_dict_iff field_value_def split: option.splits)

lemma field_value_container:
  assumes "py_get v k (PDict []) = Inr v'" and "ks \<noteq> []"
  shows "field_value conv v' ks = field_value conv v (k # ks)"
  using get_container(2) [OF assms] by (simp add: field_value_def)

lemma conv_zero [simp]:
  "conv_2026 fstr (PInt 0) = Inr (Fin 0 0)"
  "conv_rtc fstr (PInt 0) = Inr (Fin 0 0)"
  by (simp_all add: conv_2026_def conv_rtc_def py_or_def)


lemma ebind_assoc: "ebind (ebind m f) g = ebind m (\<lambda>x. ebind (f x) g)"
  by (cases m) simp_all

lemma extrair_item_2026_read:
  "extrair_item_2026 fstr obj itens_input =
     ebind (read_fields (conv_2026 fstr) obj)
       (\<lambda>(nobj, vBC, vIBS, vCBS, pCBS, pIBSUF, pIBSMun, vIS).
          (let inp = find (\<lambda>i. numero_eq (in_numero i) nobj) itens_input
           in Inr \<lparr>l_numero = nobj,
                   l_ncm = inp_ncm inp,
                   l_descricao = inp_descricao inp nobj,
                   l_baseCalculo = vBC,
                   l_cbs = py_round vCBS 2,
                   l_ibs = py_round vIBS 2,
                   l_is = py_round vIS 2,
                   l_isInfo = None,
                   l_aliqCbs = pCBS,
                   l_aliqIbs = fadd pIBSUF pIBSMun,
                   l_total = py_round (fadd (fadd vCBS vIBS) vIS) 2\<rparr>))"
  unfolding extrair_item_2026_def read_fields_def conv_2026_def [abs_def]
  by (simp add: ebind_assoc)

lemma extrair_item_rtc_read:
  "extrair_item_rtc fstr by_num obj =
     ebind (read_fields (conv_rtc fstr) obj)
       (\<lambda>(nobj, vBC, vIBS, vCBS, pCBS, pIBSUF, pIBSMun, vIS).
          ebind (inp_by_num_get by_num nobj) (\<lambda>inp.
          (let ncm = inp_ncm inp;
               is_info = (if fgt0 vIS then detectar_is (Some ncm) else None)
           in Inr \<lparr>l_numero = nobj,
                   l_ncm = ncm,
                   l_descricao = inp_descricao inp nobj,
                   l_baseCalculo = vBC,
                   l_cbs = py_round vCBS 2,
                   l_ibs = py_round vIBS 2,
                   l_is = py_round vIS 2,
                   l_isInfo = is_info,
                   l_aliqCbs = pCBS,
                   l_aliqIbs = fadd pIBSUF pIBSMun,
                   l_total = py_round (fadd (fadd vCBS vIBS) vIS) 2\<rparr>)))"
  unfolding extrair_item_rtc_def read_fields_def conv_rtc_def [abs_def]
  by (simp add: ebind_assoc)


lemma at_path_root: "at_path obj [] obj"
  by (simp add: at_path_def)

lemma at_path_sub:
  assumes "at_path obj p v" and "is_dict v"
  shows "at_path obj (p @ [k]) (sub_dict v k)"
  unfolding at_path_def
proof (intro allI impI)
  fix ks :: "string list" assume "ks \<noteq> []"
  then have "lookup_path (sub_dict v k) ks = lookup_path v (k # ks)"
    unfolding sub_dict_def by (rule lookup_path_sub [OF assms(2)])
  also have "\<dots> = lookup_path obj (p @ k # ks)"
    using assms(1) by (simp add: at_path_def)
  finally show "lookup_path (sub_dict v k) ks = lookup_path obj ((p @ [k]) @ ks)"
    by simp
qed

lemma at_path_lookup: "at_path obj p v \<Longrightarrow> lookup_path v [k] = lookup_path obj (p @ [k])"
  by (simp add: at_path_def)

lemma at_path_field:
  "at_path obj p v \<Longrightarrow> field_value conv v [k] = field_value conv obj (p @ [k])"
  by (simp add: field_value_def at_path_lookup)

lemma is_dict_sub_dict:
  "is_dict (sub_dict v k) \<longleftrightarrow> (case lookup_path v [k] of None \<Rightarrow> True | Some x \<Rightarrow> is_dict x)"
  by (simp add: sub_dict_def split: option.splits)

lemma py_get_container: "py_get v k (PDict []) = Inr v' \<longleftrightarrow> is_dict v \<and> v' = sub_dict v k"
  by (simp add: py_get_dict_iff sub_dict_def)

lemma py_get_field:
  assumes "is_dict v" and "conv (PInt 0) = Inr (Fin 0 0)"
  shows "ebind (py_get v k (PInt 0)) conv = field_value conv v [k]"
  using assms by (cases v) (auto simp: field_value_def split: option.splits)

lemma py_get_field_Inr:
  assumes "ebind (py_get v k (PInt 0)) conv = Inr x"
  shows "is_dict v"
  using assms by (auto simp: ebind_Inr_iff py_get_dict_iff)

lemma py_get_nobj: "is_dict obj \<Longrightarrow> py_get obj ''nObj'' (PInt 1) = Inr (nobj_of obj)"
  by (simp add: py_get_dict_iff nobj_of_def)

lemma container_step:
  assumes "at_path obj p v" and "is_dict v"
  shows "at_path obj (p @ [k]) (sub_dict v k)"
    and "is_dict (sub_dict v k) \<longleftrightarrow>
           (case lookup_path obj (p @ [k]) of None \<Rightarrow> True | Some x \<Rightarrow> is_dict x)"
  using at_path_sub [OF assms] at_path_lookup [OF assms(1)]
  by (simp_all add: is_dict_sub_dict)

lemma container_ok:
  "well_shaped obj \<Longrightarrow> p \<in> set container_paths \<Longrightarrow>
     (case lookup_path obj p of None \<Rightarrow> True | Some x \<Rightarrow> is_dict x)"
  by (simp add: well_shaped_def list_all_iff)

text \<open>
  The chain of \<open>.get\<close> calls of the extractors on a result whose objects are in place:
  \<open>trib\<close>, \<open>ibscbs\<close>, \<open>gibscbs\<close>, \<open>gCBS\<close>, \<open>gIBSUF\<close>, \<open>gIBSMun\<close> and \<open>is_trib\<close>.
\<close>

lemma read_fields_chain:
  assumes c0: "conv (PInt 0) = Inr (Fin 0 0)"
    and d0: "is_dict obj"
    and d1: "is_dict (sub_dict obj ''tribCalc'')"
    and d2: "is_dict (sub_dict (sub_dict obj ''tribCalc'') ''IBSCBS'')"
    and d3: "is_dict (sub_dict (sub_dict (sub_dict obj ''tribCalc'') ''IBSCBS'') ''gIBSCBS'')"
    and d4: "is_dict (sub_dict (sub_dict (sub_dict (sub_dict obj ''tribCalc'') ''IBSCBS'')
                        ''gIBSCBS'') ''gCBS'')"
    and d5: "is_dict (sub_dict (sub_dict (sub_dict (sub_dict obj ''tribCalc'') ''IBSCBS'')
                        ''gIBSCBS'') ''gIBSUF'')"
    and d6: "is_dict (sub_dict (sub_dict (sub_dict (sub_dict obj ''tribCalc'') ''IBSCBS'')
                        ''gIBSCBS'') ''gIBSMun'')"
    and d7: "is_dict (sub_dict (sub_dict obj ''tribCalc'') ''IS'')"
  shows "read_fields conv obj =
     ebind (field_value conv obj p_vBC) (\<lambda>vBC.
     ebind (field_value conv obj p_vIBS) (\<lambda>vIBS.
     ebind (field_value conv obj p_vCBS) (\<lambda>vCBS.
     ebind (field_value conv obj p_pCBS) (\<lambda>pCBS.
     ebind (field_value conv obj p_pIBSUF) (\<lambda>pIBSUF.
     ebind (field_value conv obj p_pIBSMun) (\<lambda>pIBSMun.
     ebind (field_value conv obj p_vIS) (\<lambda>vIS.
       Inr (nobj_of obj, vBC, vIBS, vCBS, pCBS, pIBSUF, pIBSMun, vIS))))))))"
    and "well_shaped obj"
proof -
  define trib where "trib = sub_dict obj ''tribCalc''"
  define ibscbs where "ibscbs = sub_dict trib ''IBSCBS''"
  define gibscbs where "gibscbs = sub_dict ibscbs ''gIBSCBS''"
  define gCBS where "gCBS = sub_dict gibscbs ''gCBS''"
  define gUF where "gUF = sub_dict gibscbs ''gIBSUF''"
  define gMun where "gMun = sub_dict gibscbs ''gIBSMun''"
  define is_trib where "is_trib = sub_dict trib ''IS''"
  note defs = trib_def ibscbs_def gibscbs_def gCBS_def gUF_def gMun_def is_trib_def
  have e1: "is_dict trib" and e2: "is_dict ibscbs" and e3: "is_dict gibscbs"
    and e4: "is_dict gCBS" and e5: "is_dict gUF" and e6: "is_dict gMun" and e7: "is_dict is_trib"
    using d1 d2 d3 d4 d5 d6 d7 by (simp_all add: defs)
  have a1: "at_path obj [''tribCalc''] trib"
    using container_step(1) [OF at_path_root d0, of "''tribCalc''"] by (simp add: trib_def)
  have a2: "at_path obj [''tribCalc'', ''IBSCBS''] ibscbs"
    using container_step(1) [OF a1 e1, of "''IBSCBS''"] by (simp add: ibscbs_def)
  have a3: "at_path obj p_gIBSCBS gibscbs"
    using container_step(1) [OF a2 e2, of "''gIBSCBS''"]
    by (simp add: gibscbs_def p_gIBSCBS_def)
  have a4: "at_path obj (p_gIBSCBS @ [''gCBS'']) gCBS"
    using container_step(1) [OF a3 e3, of "''gCBS''"] by (simp add: gCBS_def)
  have a5: "at_path obj (p_gIBSCBS @ [''gIBSUF'']) gUF"
    using container_step(1) [OF a3 e3, of "''gIBSUF''"] by (simp add: gUF_def)
  have a6: "at_path obj (p_gIBSCBS @ [''gIBSMun'']) gMun"
    using container_step(1) [OF a3 e3, of "''gIBSMun''"] by (simp add: gMun_def)
  have a7: "at_path obj [''tribCalc'', ''IS''] is_trib"
    using container_step(1) [OF a1 e1, of "''IS''"] by (simp add: is_trib_def)
  have g: "py_get obj ''nObj'' (PInt 1) = Inr (nobj_of obj)"
    "py_get obj ''tribCalc'' (PDict []) = Inr trib"
    "py_get trib ''IBSCBS'' (PDict []) = Inr ibscbs"
    "py_get ibscbs ''gIBSCBS'' (PDict []) = Inr gibscbs"
    "py_get gibscbs ''gCBS'' (PDict []) = Inr gCBS"
    "py_get gibscbs ''gIBSUF'' (PDict []) = Inr gUF"
    "py_get gibscbs ''gIBSMun'' (PDict []) = Inr gMun"
    "py_get trib ''IS'' (PDict []) = Inr is_trib"
    using d0 e1 e2 e3 by (simp_all add: py_get_nobj py_get_container defs)
  have f: "ebind (py_get gibscbs ''vBC'' (PInt 0)) conv = field_value conv obj p_vBC"
    "ebind (py_get gibscbs ''vIBS'' (PInt 0)) conv = field_value conv obj p_vIBS"
    "ebind (py_get gCBS ''vCBS'' (PInt 0)) conv = field_value conv obj p_vCBS"
    "ebind (py_get gCBS ''pCBS'' (PInt 0)) conv = field_value conv obj p_pCBS"
    "ebind (py_get gUF ''pIBSUF'' (PInt 0)) conv = field_value conv obj p_pIBSUF"
    "ebind (py_get gMun ''pIBSMun'' (PInt 0)) conv = field_value conv obj p_pIBSMun"
    "ebind (py_get is_trib ''vIS'' (PInt 0)) conv = field_value conv obj p_vIS"
    using at_path_field [OF a3, of conv "''vBC''"] at_path_field [OF a3, of conv "''vIBS''"]
      at_path_field [OF a4, of conv "''vCBS''"] at_path_field [OF a4, of conv "''pCBS''"]
      at_path_field [OF a5, of conv "''pIBSUF''"] at_path_field [OF a6, of conv "''pIBSMun''"]
      at_path_field [OF a7, of conv "''vIS''"]
    by (simp_all add: py_get_field c0 e3 e4 e5 e6 e7 p_vBC_def p_vIBS_def p_vCBS_def
        p_pCBS_def p_pIBSUF_def p_pIBSMun_def p_vIS_def)
  show "read_fields conv obj =
     ebind (field_value conv obj p_vBC) (\<lambda>vBC.
     ebind (field_value conv obj p_vIBS) (\<lambda>vIBS.
     ebind (field_value conv obj p_vCBS) (\<lambda>vCBS.
     ebind (field_value conv obj p_pCBS) (\<lambda>pCBS.
     ebind (field_value conv obj p_pIBSUF) (\<lambda>pIBSUF.
     ebind (field_value conv obj p_pIBSMun) (\<lambda>pIBSMun.
     ebind (field_value conv obj p_vIS) (\<lambda>vIS.
       Inr (nobj_of obj, vBC, vIBS, vCBS, pCBS, pIBSUF, pIBSMun, vIS))))))))"
    unfolding read_fields_def by (simp add: g f)
  have "case lookup_path obj p of None \<Rightarrow> True | Some x \<Rightarrow> is_dict x"
    if "p \<in> set container_paths" for p
    using that
      container_step(2) [OF at_path_root d0, of "''tribCalc''"]
      container_step(2) [OF a1 e1, of "''IBSCBS''"]
      container_step(2) [OF a2 e2, of "''gIBSCBS''"]
      container_step(2) [OF a3 e3, of "''gCBS''"]
      container_step(2) [OF a3 e3, of "''gIBSUF''"]
      container_step(2) [OF a3 e3, of "''gIBSMun''"]
      container_step(2) [OF a1 e1, of "''IS''"]
      e1 e2 e3 e4 e5 e6 e7
    unfolding container_paths_def defs p_gIBSCBS_def
    by auto
  then show "well_shaped obj"
    using d0 by (simp add: well_shaped_def list_all_iff)
qed


lemma well_shaped_dicts:
  assumes "well_shaped obj"
  shows "is_dict obj"
    and "is_dict (sub_dict obj ''tribCalc'')"
    and "is_dict (sub_dict (sub_dict obj ''tribCalc'') ''IBSCBS'')"
    and "is_dict (sub_dict (sub_dict (sub_dict obj ''tribCalc'') ''IBSCBS'') ''gIBSCBS'')"
    and "is_dict (sub_dict (sub_dict (sub_dict (sub_dict obj ''tribCalc'') ''IBSCBS'')
                        ''gIBSCBS'') ''gCBS'')"
    and "is_dict (sub_dict (sub_dict (sub_dict (sub_dict obj ''tribCalc'') ''IBSCBS'')
                        ''gIBSCBS'') ''gIBSUF'')"
    and "is_dict (sub_dict (sub_dict (sub_dict (sub_dict obj ''tribCalc'') ''IBSCBS'')
                        ''gIBSCBS'') ''gIBSMun'')"
    and "is_dict (sub_dict (sub_dict obj ''tribCalc'') ''IS'')"
proof -
  note ok = container_ok [OF assms]
  show d0: "is_dict obj"
    using assms by (simp add: well_shaped_def)
  note s1 = container_step [OF at_path_root d0, of "''tribCalc''"]
  show d1: "is_dict (sub_dict obj ''tribCalc'')"
    using s1(2) ok [of "[''tribCalc'']"] by (simp add: container_paths_def)
  note s2 = container_step [OF s1(1) d1, of "''IBSCBS''"]
  show d2: "is_dict (sub_dict (sub_dict obj ''tribCalc'') ''IBSCBS'')"
    using s2(2) ok [of "[''tribCalc'', ''IBSCBS'']"] by (simp add: container_paths_def)
  note s3 = container_step [OF s2(1) d2, of "''gIBSCBS''"]
  show d3: "is_dict (sub_dict (sub_dict (sub_dict obj ''tribCalc'') ''IBSCBS'') ''gIBSCBS'')"
    using s3(2) ok [of p_gIBSCBS] by (simp add: container_paths_def p_gIBSCBS_def)
  show "is_dict (sub_dict (sub_dict (sub_dict (sub_dict obj ''tribCalc'') ''IBSCBS'')
                        ''gIBSCBS'') ''gCBS'')"
    using container_step(2) [OF s3(1) d3, of "''gCBS''"] ok [of "p_gIBSCBS @ [''gCBS'']"]
    by (simp add: container_paths_def p_gIBSCBS_def)
  show "is_dict (sub_dict (sub_dict (sub_dict (sub_dict obj ''tribCalc'') ''IBSCBS'')
                        ''gIBSCBS'') ''gIBSUF'')"
    using container_step(2) [OF s3(1) d3, of "''gIBSUF''"] ok [of "p_gIBSCBS @ [''gIBSUF'']"]
    by (simp add: container_paths_def p_gIBSCBS_def)
  show "is_dict (sub_dict (sub_dict (sub_dict (sub_dict obj ''tribCalc'') ''IBSCBS'')
                        ''gIBSCBS'') ''gIBSMun'')"
    using container_step(2) [OF s3(1) d3, of "''gIBSMun''"] ok [of "p_gIBSCBS @ [''gIBSMun'']"]
    by (simp add: container_paths_def p_gIBSCBS_def)
  show "is_dict (sub_dict (sub_dict obj ''tribCalc'') ''IS'')"
    using container_step(2) [OF s1(1) d1, of "''IS''"] ok [of "[''tribCalc'', ''IS'']"]
    by (simp add: container_paths_def)
qed

lemma read_fields_returns_dicts:
  assumes "read_fields conv obj = Inr t"
  shows "is_dict obj"
    and "is_dict (sub_dict obj ''tribCalc'')"
    and "is_dict (sub_dict (sub_dict obj ''tribCalc'') ''IBSCBS'')"
    and "is_dict (sub_dict (sub_dict (sub_dict obj ''tribCalc'') ''IBSCBS'') ''gIBSCBS'')"
    and "is_dict (sub_dict (sub_dict (sub_dict (sub_dict obj ''tribCalc'') ''IBSCBS'')
                        ''gIBSCBS'') ''gCBS'')"
    and "is_dict (sub_dict (sub_dict (sub_dict (sub_dict obj ''tribCalc'') ''IBSCBS'')
                        ''gIBSCBS'') ''gIBSUF'')"
    and "is_dict (sub_dict (sub_dict (sub_dict (sub_dict obj ''tribCalc'') ''IBSCBS'')
                        ''gIBSCBS'') ''gIBSMun'')"
    and "is_dict (sub_dict (sub_dict obj ''tribCalc'') ''IS'')"
  using assms unfolding read_fields_def
  by (auto simp: ebind_Inr_iff py_get_container py_get_dict_iff [where d = "PInt 0"])

lemma not_isl_projr: "\<not> isl x \<Longrightarrow> x = Inr (projr x)"
  by (cases x) simp_all

lemma read_fields_Inr_iff:
  assumes c0: "conv (PInt 0) = Inr (Fin 0 0)"
  shows "read_fields conv obj = Inr t \<longleftrightarrow>
           well_shaped obj \<and> convertible conv obj
           \<and> t = (nobj_of obj,
                  projr (field_value conv obj p_vBC), projr (field_value conv obj p_vIBS),
                  projr (field_value conv obj p_vCBS), projr (field_value conv obj p_pCBS),
                  projr (field_value conv obj p_pIBSUF), projr (field_value conv obj p_pIBSMun),
                  projr (field_value conv obj p_vIS))"
    (is "?L \<longleftrightarrow> ?R")
proof
  assume l: ?L
  note ch = read_fields_chain [where conv = conv and obj = obj, OF c0 read_fields_returns_dicts [OF l]]
  from l show ?R
    unfolding ch(1) using ch(2)
    by (auto simp: ebind_Inr_iff convertible_def numeric_paths_def)
next
  assume r: ?R
  then have ws: "well_shaped obj" and cv: "convertible conv obj"
    by simp_all
  note ch = read_fields_chain(1) [where conv = conv and obj = obj, OF c0 well_shaped_dicts [OF ws]]
  from cv have "field_value conv obj p = Inr (projr (field_value conv obj p))"
    if "p \<in> set numeric_paths" for p
    using that by (intro not_isl_projr) (simp add: convertible_def list_all_iff)
  then have f: "field_value conv obj p_vBC = Inr (projr (field_value conv obj p_vBC))"
    "field_value conv obj p_vIBS = Inr (projr (field_value conv obj p_vIBS))"
    "field_value conv obj p_vCBS = Inr (projr (field_value conv obj p_vCBS))"
    "field_value conv obj p_pCBS = Inr (projr (field_value conv obj p_pCBS))"
    "field_value conv obj p_pIBSUF = Inr (projr (field_value conv obj p_pIBSUF))"
    "field_value conv obj p_pIBSMun = Inr (projr (field_value conv obj p_pIBSMun))"
    "field_value conv obj p_vIS = Inr (projr (field_value conv obj p_vIS))"
    by (simp_all add: numeric_paths_def)
  show ?L
    unfolding ch
    apply (subst f(1), subst ebind_simps(1))
    apply (subst f(2), subst ebind_simps(1))
    apply (subst f(3), subst ebind_simps(1))
    apply (subst f(4), subst ebind_simps(1))
    apply (subst f(5), subst ebind_simps(1))
    apply (subst f(6), subst ebind_simps(1))
    apply (subst f(7), subst ebind_simps(1))
    using r by simp
qed


lemma extrair_item_2026_Inr_iff:
  "extrair_item_2026 fstr obj itens_input = Inr r \<longleftrightarrow>
     well_shaped obj \<and> convertible (conv_2026 fstr) obj
     \<and> r = (let v = (\<lambda>p. projr (field_value (conv_2026 fstr) obj p));
                 inp = find (\<lambda>i. numero_eq (in_numero i) (nobj_of obj)) itens_input
             in \<lparr>l_numero = nobj_of obj,
                 l_ncm = inp_ncm inp,
                 l_descricao = inp_descricao inp (nobj_of obj),
                 l_baseCalculo = v p_vBC,
                 l_cbs = py_round (v p_vCBS) 2,
                 l_ibs = py_round (v p_vIBS) 2,
                 l_is = py_round (v p_vIS) 2,
                 l_isInfo = None,
                 l_aliqCbs = v p_pCBS,
                 l_aliqIbs = fadd (v p_pIBSUF) (v p_pIBSMun),
                 l_total = py_round (fadd (fadd (v p_vCBS) (v p_vIBS)) (v p_vIS)) 2\<rparr>)"
  unfolding extrair_item_2026_read ebind_Inr_iff
  by (auto simp: read_fields_Inr_iff Let_def)

lemma extrair_item_rtc_Inr_iff:
  "extrair_item_rtc fstr by_num obj = Inr r \<longleftrightarrow>
     well_shaped obj \<and> convertible (conv_rtc fstr) obj \<and> hashable (nobj_of obj)
     \<and> r = (let v = (\<lambda>p. projr (field_value (conv_rtc fstr) obj p));
                 inp = (case int_value (nobj_of obj) of None \<Rightarrow> None | Some n \<Rightarrow> by_num n);
                 ncm = inp_ncm inp
             in \<lparr>l_numero = nobj_of obj,
                 l_ncm = ncm,
                 l_descricao = inp_descricao inp (nobj_of obj),
                 l_baseCalculo = v p_vBC,
                 l_cbs = py_round (v p_vCBS) 2,
                 l_ibs = py_round (v p_vIBS) 2,
                 l_is = py_round (v p_vIS) 2,
                 l_isInfo = (if fgt0 (v p_vIS) then detectar_is (Some ncm) else None),
                 l_aliqCbs = v p_pCBS,
                 l_aliqIbs = fadd (v p_pIBSUF) (v p_pIBSMun),
                 l_total = py_round (fadd (fadd (v p_vCBS) (v p_vIBS)) (v p_vIS)) 2\<rparr>)"
  unfolding extrair_item_rtc_read ebind_Inr_iff
  by (auto simp: read_fields_Inr_iff Let_def inp_by_num_get_def)

lemma field_value_missing: "lookup_path obj p = None \<Longrightarrow> field_value conv obj p = Inr (Fin 0 0)"
  by (simp add: field_value_def)

text \<open>
  Claim C9, as the code has it. \<open>_extrair_item_2026\<close> returns exactly on the external line
  results that are well shaped (an object in which every object on the way to a numeric
  field, where present, is an object) and whose numeric fields, where present, are
  convertible by \<open>float(v)\<close>; the loop body of \<open>_extrair_itens_rtc\<close> returns exactly on
  those that are well shaped, whose numeric fields, where present, are convertible by
  \<open>float(v or 0)\<close>, and whose \<open>nObj\<close> is hashable. On every other external line result the
  extractor raises. The line that is returned has, for the base amount, the amounts, the
  rates and the excise, the values of the fields at their paths, rounded as the code does,
  and the value of each field that is missing is \<open>0\<close>. A field that is present with a
  false value (\<open>null\<close>, \<open>0\<close>, the empty string) is \<open>0\<close> for \<open>_extrair_itens_rtc\<close>;
  \<open>_extrair_item_2026\<close> converts it as it is, and raises \<open>TypeError\<close> on \<open>null\<close>.
\<close>

theorem missing_fields_default_to_zero:
  "((\<exists>r. extrair_item_2026 fstr obj itens_input = Inr r)
      \<longleftrightarrow> well_shaped obj \<and> convertible (conv_2026 fstr) obj)
   \<and> ((\<exists>r. extrair_item_rtc fstr (inp_by_num itens_input) obj = Inr r)
      \<longleftrightarrow> well_shaped obj \<and> convertible (conv_rtc fstr) obj \<and> hashable (nobj_of obj))
   \<and> (\<forall>r. extrair_item_2026 fstr obj itens_input = Inr r \<longrightarrow>
         (let v = (\<lambda>p. projr (field_value (conv_2026 fstr) obj p))
          in l_baseCalculo r = v p_vBC
           \<and> l_cbs r = py_round (v p_vCBS) 2
           \<and> l_ibs r = py_round (v p_vIBS) 2
           \<and> l_is r = py_round (v p_vIS) 2
           \<and> l_aliqCbs r = v p_pCBS
           \<and> l_aliqIbs r = fadd (v p_pIBSUF) (v p_pIBSMun)
           \<and> l_total r = py_round (fadd (fadd (v p_vCBS) (v p_vIBS)) (v p_vIS)) 2))
   \<and> (\<forall>r. extrair_item_rtc fstr (inp_by_num itens_input) obj = Inr r \<longrightarrow>
         (let v = (\<lambda>p. projr (field_value (conv_rtc fstr) obj p))
          in l_baseCalculo r = v p_vBC
           \<and> l_cbs r = py_round (v p_vCBS) 2
           \<and> l_ibs r = py_round (v p_vIBS) 2
           \<and> l_is r = py_round (v p_vIS) 2
           \<and> l_aliqCbs r = v p_pCBS
           \<and> l_aliqIbs r = fadd (v p_pIBSUF) (v p_pIBSMun)
           \<and> l_total r = py_round (fadd (fadd (v p_vCBS) (v p_vIBS)) (v p_vIS)) 2))
   \<and> (\<forall>p. lookup_path obj p = None \<longrightarrow>
         field_value (conv_2026 fstr) obj p = Inr (Fin 0 0)
         \<and> field_value (conv_rtc fstr) obj p = Inr (Fin 0 0))
   \<and> (\<forall>v. \<not> truthy v \<longrightarrow> conv_rtc fstr v = Inr (Fin 0 0))
   \<and> conv_2026 fstr PNone = Inl TypeError"
proof -
  have "conv_rtc fstr v = Inr (Fin 0 0)" if "\<not> truthy v" for v
    using that by (simp add: conv_rtc_def py_or_def)
  moreover have "conv_2026 fstr PNone = Inl TypeError"
    by (simp add: conv_2026_def)
  ultimately show ?thesis
    by (simp add: extrair_item_2026_Inr_iff extrair_item_rtc_Inr_iff Let_def
        field_value_missing)
qed


theorem missing_fields_default_to_zero_witness:
  "(let obj = PDict [(''tribCalc'', PDict [(''IBSCBS'', PDict [(''gIBSCBS'', PDict
                [(''vBC'', PFloat (fl_ratio 100000 100)), (''vIBS'', PInt 0)])])])];
        a = extrair_item_2026 (\<lambda>s. None) obj [];
        b = extrair_item_rtc (\<lambda>s. None) (inp_by_num []) obj
    in well_shaped obj
     \<and> lookup_path obj p_vBC = Some (PFloat (fl_ratio 100000 100))
     \<and> lookup_path obj p_vIBS = Some (PInt 0)
     \<and> lookup_path obj p_vCBS = None
     \<and> lookup_path obj p_vIS = None \<and> lookup_path obj p_pCBS = None
     \<and> lookup_path obj p_pIBSUF = None \<and> lookup_path obj p_pIBSMun = None
     \<and> \<not> isl a \<and> \<not> isl b
     \<and> l_baseCalculo (projr a) = fl_ratio 100000 100
     \<and> l_cbs (projr a) = Fin 0 0 \<and> l_ibs (projr a) = Fin 0 0 \<and> l_is (projr a) = Fin 0 0
     \<and> l_aliqCbs (projr a) = Fin 0 0 \<and> l_aliqIbs (projr a) = Fin 0 0
     \<and> l_total (projr a) = Fin 0 0
     \<and> l_baseCalculo (projr b) = fl_ratio 100000 100
     \<and> l_cbs (projr b) = Fin 0 0 \<and> l_ibs (projr b) = Fin 0 0 \<and> l_is (projr b) = Fin 0 0
     \<and> l_aliqCbs (projr b) = Fin 0 0 \<and> l_aliqIbs (projr b) = Fin 0 0
     \<and> l_total (projr b) = Fin 0 0)
   \<and> (let obj = PDict [(''tribCalc'', PDict [(''IBSCBS'', PDict [(''gIBSCBS'', PDict
                [(''vBC'', PNone), (''vIBS'', PStr []),
                 (''gCBS'', PDict [(''vCBS'', PInt 0)])])])])];
        a = extrair_item_2026 (\<lambda>s. None) obj [];
        b = extrair_item_rtc (\<lambda>s. None) (inp_by_num []) obj
    in well_shaped obj
     \<and> lookup_path obj p_vBC = Some PNone
     \<and> lookup_path obj p_vIBS = Some (PStr [])
     \<and> lookup_path obj p_vCBS = Some (PInt 0)
     \<and> \<not> convertible (conv_2026 (\<lambda>s. None)) obj
     \<and> a = Inl TypeError
     \<and> \<not> isl b
     \<and> l_baseCalculo (projr b) = Fin 0 0
     \<and> l_cbs (projr b) = Fin 0 0 \<and> l_ibs (projr b) = Fin 0 0 \<and> l_is (projr b) = Fin 0 0
     \<and> l_total (projr b) = Fin 0 0)"
proof -
  define obj where "obj = PDict [(''tribCalc'', PDict [(''IBSCBS'', PDict [(''gIBSCBS'', PDict
                [(''vBC'', PFloat (fl_ratio 100000 100)), (''vIBS'', PInt 0)])])])]"
  define obj2 where "obj2 = PDict [(''tribCalc'', PDict [(''IBSCBS'', PDict [(''gIBSCBS'', PDict
                [(''vBC'', PNone), (''vIBS'', PStr []),
                 (''gCBS'', PDict [(''vCBS'', PInt 0)])])])])]"
  define fstr :: "string \<Rightarrow> pyfloat option" where "fstr = (\<lambda>s. None)"
  define a where "a = extrair_item_2026 fstr obj []"
  define b where "b = extrair_item_rtc fstr (inp_by_num []) obj"
  define a2 where "a2 = extrair_item_2026 fstr obj2 []"
  define b2 where "b2 = extrair_item_rtc fstr (inp_by_num []) obj2"
  have lit: "fl_ratio 100000 100 = Fin 125 3"
    by (simp add: fl_eval)
  note paths = p_gIBSCBS_def p_vBC_def p_vIBS_def p_vCBS_def p_pCBS_def p_pIBSUF_def
    p_pIBSMun_def p_vIS_def
  have ws: "well_shaped obj" "well_shaped obj2"
    by (simp_all add: well_shaped_def container_paths_def obj_def obj2_def paths)
  have lk: "lookup_path obj p_vBC = Some (PFloat (fl_ratio 100000 100))"
    "lookup_path obj p_vIBS = Some (PInt 0)"
    "lookup_path obj p_vCBS = None"
    "lookup_path obj p_vIS = None" "lookup_path obj p_pCBS = None"
    "lookup_path obj p_pIBSUF = None" "lookup_path obj p_pIBSMun = None"
    "lookup_path obj [''nObj''] = None"
    by (simp_all add: obj_def paths)
  have lk2: "lookup_path obj2 p_vBC = Some PNone"
    "lookup_path obj2 p_vIBS = Some (PStr [])"
    "lookup_path obj2 p_vCBS = Some (PInt 0)"
    "lookup_path obj2 p_vIS = None" "lookup_path obj2 p_pCBS = None"
    "lookup_path obj2 p_pIBSUF = None" "lookup_path obj2 p_pIBSMun = None"
    "lookup_path obj2 [''nObj''] = None"
    by (simp_all add: obj2_def paths)
  have fv: "field_value (conv_2026 fstr) obj p_vBC = Inr (Fin 125 3)"
    "field_value (conv_rtc fstr) obj p_vBC = Inr (Fin 125 3)"
    "field_value (conv_2026 fstr) obj p_vIBS = Inr (Fin 0 0)"
    "field_value (conv_rtc fstr) obj p_vIBS = Inr (Fin 0 0)"
    by (simp_all add: field_value_def lk conv_2026_def conv_rtc_def py_or_def lit)
  have fz: "field_value conv obj p = Inr (Fin 0 0)"
    if "p \<in> {p_vCBS, p_vIS, p_pCBS, p_pIBSUF, p_pIBSMun}" for conv p
    using that lk by (auto intro: field_value_missing)
  have fv2: "field_value (conv_2026 fstr) obj2 p_vBC = Inl TypeError"
    "field_value (conv_rtc fstr) obj2 p_vBC = Inr (Fin 0 0)"
    "field_value (conv_rtc fstr) obj2 p_vIBS = Inr (Fin 0 0)"
    "field_value (conv_rtc fstr) obj2 p_vCBS = Inr (Fin 0 0)"
    by (simp_all add: field_value_def lk2 conv_2026_def conv_rtc_def py_or_def)
  have fz2: "field_value conv obj2 p = Inr (Fin 0 0)"
    if "p \<in> {p_vIS, p_pCBS, p_pIBSUF, p_pIBSMun}" for conv p
    using that lk2 by (auto intro: field_value_missing)
  have cv: "convertible (conv_2026 fstr) obj" "convertible (conv_rtc fstr) obj"
    by (simp_all add: convertible_def numeric_paths_def fv fz)
  have cv2: "\<not> convertible (conv_2026 fstr) obj2" "convertible (conv_rtc fstr) obj2"
    by (simp_all add: convertible_def numeric_paths_def fv2 fz2)
  have h: "hashable (nobj_of obj)" "hashable (nobj_of obj2)"
    by (simp_all add: nobj_of_def lk lk2)
  note m = missing_fields_default_to_zero [of fstr obj "[]"]
  note m2 = missing_fields_default_to_zero [of fstr obj2 "[]"]
  from m ws(1) cv(1) obtain ra where ra0: "a = Inr ra"
    unfolding a_def by blast
  with m have ra: "l_baseCalculo ra = Fin 125 3"
    "l_cbs ra = Fin 0 0" "l_ibs ra = Fin 0 0" "l_is ra = Fin 0 0"
    "l_aliqCbs ra = Fin 0 0" "l_aliqIbs ra = Fin 0 0" "l_total ra = Fin 0 0"
    unfolding a_def by (auto simp: Let_def fv fz)
  from m ws(1) cv(2) h(1) obtain rb where rb0: "b = Inr rb"
    unfolding b_def by blast
  with m have rb: "l_baseCalculo rb = Fin 125 3"
    "l_cbs rb = Fin 0 0" "l_ibs rb = Fin 0 0" "l_is rb = Fin 0 0"
    "l_aliqCbs rb = Fin 0 0" "l_aliqIbs rb = Fin 0 0" "l_total rb = Fin 0 0"
    unfolding b_def by (auto simp: Let_def fv fz)
  from m2 cv2(1) have "isl a2"
    unfolding a2_def by (cases "extrair_item_2026 fstr obj2 []") auto
  have a2: "a2 = Inl TypeError"
    by (simp add: a2_def extrair_item_2026_def obj2_def)
  from m2 ws(2) cv2(2) h(2) obtain rb2 where rb20: "b2 = Inr rb2"
    unfolding b2_def by blast
  with m2 have rb2: "l_baseCalculo rb2 = Fin 0 0"
    "l_cbs rb2 = Fin 0 0" "l_ibs rb2 = Fin 0 0" "l_is rb2 = Fin 0 0" "l_total rb2 = Fin 0 0"
    unfolding b2_def by (auto simp: Let_def fv2 fz2)
  have first: "well_shaped obj
     \<and> lookup_path obj p_vBC = Some (PFloat (fl_ratio 100000 100))
     \<and> lookup_path obj p_vIBS = Some (PInt 0)
     \<and> lookup_path obj p_vCBS = None
     \<and> lookup_path obj p_vIS = None \<and> lookup_path obj p_pCBS = None
     \<and> lookup_path obj p_pIBSUF = None \<and> lookup_path obj p_pIBSMun = None
     \<and> \<not> isl a \<and> \<not> isl b
     \<and> l_baseCalculo (projr a) = fl_ratio 100000 100
     \<and> l_cbs (projr a) = Fin 0 0 \<and> l_ibs (projr a) = Fin 0 0 \<and> l_is (projr a) = Fin 0 0
     \<and> l_aliqCbs (projr a) = Fin 0 0 \<and> l_aliqIbs (projr a) = Fin 0 0
     \<and> l_total (projr a) = Fin 0 0
     \<and> l_baseCalculo (projr b) = fl_ratio 100000 100
     \<and> l_cbs (projr b) = Fin 0 0 \<and> l_ibs (projr b) = Fin 0 0 \<and> l_is (projr b) = Fin 0 0
     \<and> l_aliqCbs (projr b) = Fin 0 0 \<and> l_aliqIbs (projr b) = Fin 0 0
     \<and> l_total (projr b) = Fin 0 0"
    using ws lk ra0 ra rb0 rb by (simp add: lit)
  have second: "well_shaped obj2
     \<and> lookup_path obj2 p_vBC = Some PNone
     \<and> lookup_path obj2 p_vIBS = Some (PStr [])
     \<and> lookup_path obj2 p_vCBS = Some (PInt 0)
     \<and> \<not> convertible (conv_2026 fstr) obj2
     \<and> a2 = Inl TypeError
     \<and> \<not> isl b2
     \<and> l_baseCalculo (projr b2) = Fin 0 0
     \<and> l_cbs (projr b2) = Fin 0 0 \<and> l_ibs (projr b2) = Fin 0 0 \<and> l_is (projr b2) = Fin 0 0
     \<and> l_total (projr b2) = Fin 0 0"
    using ws lk2 cv2 a2 rb20 rb2 by simp
  from first second show ?thesis
    unfolding Let_def a_def b_def a2_def b2_def obj_def obj2_def fstr_def by blast
qed

text \<open>
  The claim as worded, no exception whenever numeric fields are missing, fails on the code:
  in an external line result whose \<open>tribCalc\<close> is \<open>null\<close> every numeric field is missing,
  and both extractors raise \<open>AttributeError\<close>.
\<close>

theorem null_container_raises:
  "lookup_path exemplo_linha_tribcalc_nulo p_vBC = None
   \<and> lookup_path exemplo_linha_tribcalc_nulo p_vIBS = None
   \<and> lookup_path exemplo_linha_tribcalc_nulo p_vCBS = None
   \<and> lookup_path exemplo_linha_tribcalc_nulo p_pCBS = None
   \<and> lookup_path exemplo_linha_tribcalc_nulo p_pIBSUF = None
   \<and> lookup_path exemplo_linha_tribcalc_nulo p_pIBSMun = None
   \<and> lookup_path exemplo_linha_tribcalc_nulo p_vIS = None
   \<and> extrair_item_2026 sem_texto exemplo_linha_tribcalc_nulo [] = Inl AttributeError
   \<and> extrair_item_rtc sem_texto (inp_by_num []) exemplo_linha_tribcalc_nulo = Inl AttributeError"
  by (simp add: exemplo_linha_tribcalc_nulo_def p_gIBSCBS_def p_vBC_def p_vIBS_def p_vCBS_def
      p_pCBS_def p_pIBSUF_def p_pIBSMun_def p_vIS_def extrair_item_2026_def
      extrair_item_rtc_def)


section \<open>The excise category of a line of \<open>_extrair_itens_rtc\<close>\<close>

lemma extrair_itens_rtc_Inr:
  "extrair_itens_rtc fstr objetos itens_input = Inr rs \<longleftrightarrow>
     (\<exists>objs. py_iter objetos = Inr objs
        \<and> list_all2 (\<lambda>obj r. extrair_item_rtc fstr (inp_by_num itens_input) obj = Inr r) objs rs)"
  by (simp add: extrair_itens_rtc_def Let_def ebind_Inr_iff emap_Inr_iff)

lemma convertible_vIS:
  "convertible conv obj \<Longrightarrow>
     field_value conv obj p_vIS = Inr (projr (field_value conv obj p_vIS))"
  by (intro not_isl_projr) (simp add: convertible_def numeric_paths_def)

text \<open>
  Claim C10. Whenever \<open>_extrair_itens_rtc\<close> returns, each line comes from one external
  result, in order, and with \<open>vIS\<close> the excise amount the extractor has for that result
  (\<open>float(v or 0)\<close> of the field \<open>tribCalc.IS.vIS\<close>, \<open>0\<close> when it is missing) and \<open>ncm\<close> the
  commodity code of the invoice line that the lookup by \<open>nObj\<close> finds: \<open>isInfo\<close> is
  \<open>detectar_is(ncm)\<close> when \<open>vIS > 0\<close>, and \<open>None\<close> when \<open>vIS > 0\<close> is false, in particular
  when \<open>vIS\<close> is \<open>0\<close> or missing, whatever \<open>detectar_is(ncm)\<close> is.
\<close>

theorem rtc_is_info:
  assumes "extrair_itens_rtc fstr objetos itens_input = Inr rs"
  shows "\<exists>objs. py_iter objetos = Inr objs
           \<and> list_all2 (\<lambda>obj r.
                \<exists>vIS. field_value (conv_rtc fstr) obj p_vIS = Inr vIS
                  \<and> l_ncm r = inp_ncm (case int_value (nobj_of obj) of None \<Rightarrow> None
                                       | Some n \<Rightarrow> inp_by_num itens_input n)
                  \<and> (fgt0 vIS \<longrightarrow> l_isInfo r = detectar_is (Some (l_ncm r)))
                  \<and> (\<not> fgt0 vIS \<longrightarrow> l_isInfo r = None)
                  \<and> (lookup_path obj p_vIS = None \<longrightarrow> vIS = Fin 0 0 \<and> l_isInfo r = None))
              objs rs"
proof -
  from assms obtain objs where o: "py_iter objetos = Inr objs"
    and l: "list_all2 (\<lambda>obj r. extrair_item_rtc fstr (inp_by_num itens_input) obj = Inr r)
              objs rs"
    by (auto simp: extrair_itens_rtc_Inr)
  have "\<exists>vIS. field_value (conv_rtc fstr) obj p_vIS = Inr vIS
          \<and> l_ncm r = inp_ncm (case int_value (nobj_of obj) of None \<Rightarrow> None
                                       | Some n \<Rightarrow> inp_by_num itens_input n)
          \<and> (fgt0 vIS \<longrightarrow> l_isInfo r = detectar_is (Some (l_ncm r)))
          \<and> (\<not> fgt0 vIS \<longrightarrow> l_isInfo r = None)
          \<and> (lookup_path obj p_vIS = None \<longrightarrow> vIS = Fin 0 0 \<and> l_isInfo r = None)"
    if "extrair_item_rtc fstr (inp_by_num itens_input) obj = Inr r" for obj r
  proof -
    from that have cv: "convertible (conv_rtc fstr) obj"
      and r: "r = (let v = (\<lambda>p. projr (field_value (conv_rtc fstr) obj p));
                 inp = (case int_value (nobj_of obj) of None \<Rightarrow> None
                        | Some n \<Rightarrow> inp_by_num itens_input n);
                 ncm = inp_ncm inp
             in \<lparr>l_numero = nobj_of obj,
                 l_ncm = ncm,
                 l_descricao = inp_descricao inp (nobj_of obj),
                 l_baseCalculo = v p_vBC,
                 l_cbs = py_round (v p_vCBS) 2,
                 l_ibs = py_round (v p_vIBS) 2,
                 l_is = py_round (v p_vIS) 2,
                 l_isInfo = (if fgt0 (v p_vIS) then detectar_is (Some ncm) else None),
                 l_aliqCbs = v p_pCBS,
                 l_aliqIbs = fadd (v p_pIBSUF) (v p_pIBSMun),
                 l_total = py_round (fadd (fadd (v p_vCBS) (v p_vIBS)) (v p_vIS)) 2\<rparr>)"
      by (simp_all add: extrair_item_rtc_Inr_iff)
    show ?thesis
      using convertible_vIS [OF cv]
      by (intro exI [of _ "projr (field_value (conv_rtc fstr) obj p_vIS)"])
         (auto simp: r Let_def field_value_missing)
  qed
  with l have "list_all2 (\<lambda>obj r.
                \<exists>vIS. field_value (conv_rtc fstr) obj p_vIS = Inr vIS
                  \<and> l_ncm r = inp_ncm (case int_value (nobj_of obj) of None \<Rightarrow> None
                                       | Some n \<Rightarrow> inp_by_num itens_input n)
                  \<and> (fgt0 vIS \<longrightarrow> l_isInfo r = detectar_is (Some (l_ncm r)))
                  \<and> (\<not> fgt0 vIS \<longrightarrow> l_isInfo r = None)
                  \<and> (lookup_path obj p_vIS = None \<longrightarrow> vIS = Fin 0 0 \<and> l_isInfo r = None))
              objs rs"
    by (rule list_all2_mono)
  with o show ?thesis by blast
qed


theorem rtc_is_info_witness:
  "(let itens = [\<lparr>in_numero = Some 1, in_ncm = Some ''2401.10.00'', in_descricao = None,
                  in_baseCalculo = Some (fl_ratio 100000 100)\<rparr>,
                 \<lparr>in_numero = Some 2, in_ncm = Some ''2203.00.00'', in_descricao = None,
                  in_baseCalculo = Some (fl_ratio 100000 100)\<rparr>];
        objetos = PList
          [PDict [(''nObj'', PInt 1),
                  (''tribCalc'', PDict [(''IS'', PDict [(''vIS'', PFloat (fl_ratio 5000 100))])])],
           PDict [(''nObj'', PInt 2)]];
        x = extrair_itens_rtc (\<lambda>s. None) objetos itens;
        rs = projr x
    in \<not> isl x \<and> length rs = 2
     \<and> l_ncm (rs ! 0) = ''2401.10.00''
     \<and> l_isInfo (rs ! 0) = detectar_is (Some ''2401.10.00'')
     \<and> detectar_is (Some ''2401.10.00'')
         = Some \<lparr>rate = fl_ratio 100 100, desc = cat_desc (IS_CATEGORIES ! 0)\<rparr>
     \<and> l_ncm (rs ! 1) = ''2203.00.00''
     \<and> detectar_is (Some ''2203.00.00'')
         = Some \<lparr>rate = fl_ratio 20 100, desc = cat_desc (IS_CATEGORIES ! 1)\<rparr>
     \<and> l_isInfo (rs ! 1) = None)"
proof -
  define i1 where "i1 = \<lparr>in_numero = Some 1, in_ncm = Some ''2401.10.00'', in_descricao = None,
                  in_baseCalculo = Some (fl_ratio 100000 100)\<rparr>"
  define i2 where "i2 = \<lparr>in_numero = Some 2, in_ncm = Some ''2203.00.00'', in_descricao = None,
                  in_baseCalculo = Some (fl_ratio 100000 100)\<rparr>"
  define obj1 where "obj1 = PDict [(''nObj'', PInt 1),
                  (''tribCalc'', PDict [(''IS'', PDict [(''vIS'', PFloat (fl_ratio 5000 100))])])]"
  define obj2 where "obj2 = PDict [(''nObj'', PInt 2)]"
  define fstr :: "string \<Rightarrow> pyfloat option" where "fstr = (\<lambda>s. None)"
  define x where "x = extrair_itens_rtc fstr (PList [obj1, obj2]) [i1, i2]"
  have lit: "fl_ratio 5000 100 = Fin 25 1"
    by (simp add: fl_eval)
  note paths = p_gIBSCBS_def p_vBC_def p_vIBS_def p_vCBS_def p_pCBS_def p_pIBSUF_def
    p_pIBSMun_def p_vIS_def
  have by_num: "inp_by_num [i1, i2] 1 = Some i1" "inp_by_num [i1, i2] 2 = Some i2"
    by (simp_all add: inp_by_num_def i1_def i2_def)
  have ncm: "in_ncm i1 = Some ''2401.10.00''" "in_ncm i2 = Some ''2203.00.00''"
    by (simp_all add: i1_def i2_def)
  have n: "nobj_of obj1 = PInt 1" "nobj_of obj2 = PInt 2"
    by (simp_all add: nobj_of_def obj1_def obj2_def)
  have ws: "well_shaped obj1" "well_shaped obj2"
    by (simp_all add: well_shaped_def container_paths_def obj1_def obj2_def paths)
  have fv1: "field_value (conv_rtc fstr) obj1 p_vIS = Inr (Fin 25 1)"
    by (simp add: field_value_def obj1_def paths conv_rtc_def py_or_def lit)
  have m1: "lookup_path obj1 p = None"
    if "p \<in> {p_vBC, p_vIBS, p_vCBS, p_pCBS, p_pIBSUF, p_pIBSMun}" for p
    using that by (auto simp: obj1_def paths)
  have m2: "lookup_path obj2 p = None" if "p \<in> set numeric_paths" for p
    using that by (auto simp: obj2_def paths numeric_paths_def)
  have cv: "convertible (conv_rtc fstr) obj1" "convertible (conv_rtc fstr) obj2"
    by (simp_all add: convertible_def numeric_paths_def fv1 m1 m2 field_value_missing
        list_all_iff)
  obtain r1 r2 where e: "extrair_item_rtc fstr (inp_by_num [i1, i2]) obj1 = Inr r1"
    "extrair_item_rtc fstr (inp_by_num [i1, i2]) obj2 = Inr r2"
    by (simp add: extrair_item_rtc_Inr_iff ws cv n)
  then have eq: "extrair_itens_rtc fstr (PList [obj1, obj2]) [i1, i2] = Inr [r1, r2]"
    by (simp add: extrair_itens_rtc_Inr)
  from rtc_is_info [OF eq]
  have "l_ncm r1 = ''2401.10.00'' \<and> l_isInfo r1 = detectar_is (Some (l_ncm r1))
      \<and> l_ncm r2 = ''2203.00.00'' \<and> l_isInfo r2 = None"
    using m2 [of p_vIS] ncm
    by (auto simp: fv1 n by_num inp_ncm_def numeric_paths_def)
  moreover have "detectar_is (Some ''2401.10.00'')
         = Some \<lparr>rate = fl_ratio 100 100, desc = cat_desc (IS_CATEGORIES ! 0)\<rparr>"
    "detectar_is (Some ''2203.00.00'')
         = Some \<lparr>rate = fl_ratio 20 100, desc = cat_desc (IS_CATEGORIES ! 1)\<rparr>"
    by (simp_all add: detectar_is_def prefix4_of_def IS_CATEGORIES_def)
  ultimately have "\<not> isl x \<and> length (projr x) = 2
     \<and> l_ncm (projr x ! 0) = ''2401.10.00''
     \<and> l_isInfo (projr x ! 0) = detectar_is (Some ''2401.10.00'')
     \<and> detectar_is (Some ''2401.10.00'')
         = Some \<lparr>rate = fl_ratio 100 100, desc = cat_desc (IS_CATEGORIES ! 0)\<rparr>
     \<and> l_ncm (projr x ! 1) = ''2203.00.00''
     \<and> detectar_is (Some ''2203.00.00'')
         = Some \<lparr>rate = fl_ratio 20 100, desc = cat_desc (IS_CATEGORIES ! 1)\<rparr>
     \<and> l_isInfo (projr x ! 1) = None"
    using eq by (simp add: x_def)
  then show ?thesis
    unfolding Let_def x_def obj1_def obj2_def i1_def i2_def fstr_def .
qed


section \<open>The excise of the year 2026\<close>

lemma calcular_transicao_returns:
  assumes "py_get resultado_api ''objetos'' (PList []) = Inr objetos"
    and "py_iter objetos = Inr objs"
    and "emap (\<lambda>obj. extrair_item_2026 fstr obj itens_input) objs = Inr ls"
  shows "calcular_transicao fstr resultado_api itens_input tributos_atuais =
         Inr (map (\<lambda>cfg. ano_transicao cfg (legacy_base tributos_atuais)
                           (if c_ano cfg = 2026 then ls
                            else map (item_projetado cfg) itens_input))
                TRANSITION_YEARS)"
proof -
  have "itens_do_ano fstr objetos itens_input cfg =
        Inr (if c_ano cfg = 2026 then ls else map (item_projetado cfg) itens_input)" for cfg
    by (simp add: itens_do_ano_def assms)
  then show ?thesis
    by (simp add: calcular_transicao_def Let_def assms emap_total)
qed

lemma py_sum_zeros: "\<forall>x \<in> set xs. x = Fin 0 0 \<Longrightarrow> py_sum xs = Fin 0 0"
  unfolding py_sum_def by (induction xs) simp_all

lemma list_all2_zero_is:
  assumes "list_all2 (\<lambda>obj r. Q obj \<longrightarrow> l_is r = Fin 0 0) objs ls" and "list_all Q objs"
  shows "\<forall>r \<in> set ls. l_is r = Fin 0 0"
  using assms by (induction rule: list_all2_induct) simp_all

lemma year_2026_entry:
  assumes "calcular_transicao fstr resultado_api itens_input tributos_atuais = Inr anos"
    and "y \<in> set anos" and "y_ano y = 2026"
  shows "\<exists>objetos objs cfg.
           py_get resultado_api ''objetos'' (PList []) = Inr objetos
           \<and> py_iter objetos = Inr objs
           \<and> list_all2 (\<lambda>obj r. extrair_item_2026 fstr obj itens_input = Inr r) objs (y_itens y)
           \<and> y_total y = year_total cfg (legacy_base tributos_atuais) (y_itens y)"
proof -
  from calcular_transicao_Inr [OF assms(1)] obtain objetos where
    o: "py_get resultado_api ''objetos'' (PList []) = Inr objetos" and
    l: "list_all2 (\<lambda>cfg y. \<exists>itens_ano.
                  itens_do_ano fstr objetos itens_input cfg = Inr itens_ano
                  \<and> y = ano_transicao cfg (legacy_base tributos_atuais) itens_ano)
                TRANSITION_YEARS anos"
    by blast
  from assms(2) obtain k where k: "k < length anos" "anos ! k = y"
    by (auto simp: in_set_conv_nth)
  with list_all2_nthD2 [OF l, of k] obtain itens_ano where
    i: "itens_do_ano fstr objetos itens_input (TRANSITION_YEARS ! k) = Inr itens_ano" and
    y: "y = ano_transicao (TRANSITION_YEARS ! k) (legacy_base tributos_atuais) itens_ano"
    by auto
  from y assms(3) have "c_ano (TRANSITION_YEARS ! k) = 2026"
    by (simp add: ano_transicao_def)
  with i obtain objs where "py_iter objetos = Inr objs"
    "list_all2 (\<lambda>obj r. extrair_item_2026 fstr obj itens_input = Inr r) objs itens_ano"
    by (auto simp: itens_do_ano_def ebind_Inr_iff emap_Inr_iff)
  with o y show ?thesis
    by (auto simp: ano_transicao_def)
qed

lemma schedule_first_year: "c_ano (TRANSITION_YEARS ! 0) = 2026" "0 < length TRANSITION_YEARS"
  by (simp_all add: TRANSITION_YEARS_def)

lemma schedule_map_first: "map f TRANSITION_YEARS ! 0 = f (TRANSITION_YEARS ! 0)"
  by (simp add: TRANSITION_YEARS_def)

lemma exemplo_com_is_line:
  "\<exists>r. extrair_item_2026 sem_texto
          (PDict [(''nObj'', PInt 1),
                  (''tribCalc'', PDict [(''IS'', PDict [(''vIS'', PFloat (fl_ratio 1000 100))])])])
          [exemplo_item_tabaco] = Inr r
       \<and> l_is r = Fin 5 1"
proof -
  define obj where "obj = PDict [(''nObj'', PInt 1),
                  (''tribCalc'', PDict [(''IS'', PDict [(''vIS'', PFloat (fl_ratio 1000 100))])])]"
  note paths = p_gIBSCBS_def p_vBC_def p_vIBS_def p_vCBS_def p_pCBS_def p_pIBSUF_def
    p_pIBSMun_def p_vIS_def
  have lit: "fl_ratio 1000 100 = Fin 5 1"
    by (simp add: fl_eval)
  have ws: "well_shaped obj"
    by (simp add: well_shaped_def container_paths_def obj_def paths)
  have fv: "field_value (conv_2026 sem_texto) obj p_vIS = Inr (Fin 5 1)"
    by (simp add: field_value_def obj_def paths conv_2026_def lit)
  have m: "lookup_path obj p = None"
    if "p \<in> {p_vBC, p_vIBS, p_vCBS, p_pCBS, p_pIBSUF, p_pIBSMun}" for p
    using that by (auto simp: obj_def paths)
  have cv: "convertible (conv_2026 sem_texto) obj"
    by (simp add: convertible_def numeric_paths_def fv m field_value_missing)
  have "py_round (Fin 5 1) 2 = Fin 5 1"
    by (simp add: fl_eval)
  then show ?thesis
    unfolding obj_def [symmetric]
    by (simp add: extrair_item_2026_Inr_iff ws cv Let_def fv)
qed

lemma exemplo_sem_is_shape:
  defines "obj \<equiv> PDict [(''nObj'', PInt 1),
               (''tribCalc'', PDict [(''IBSCBS'', PDict [(''gIBSCBS'', PDict
                   [(''vBC'', PFloat (fl_ratio 100000 100))])])])]"
  shows "well_shaped obj"
    and "convertible (conv_2026 fstr) obj"
    and "convertible (conv_rtc fstr) obj"
    and "hashable (nobj_of obj)"
    and "lookup_path obj p_vIS = None"
proof -
  note paths = p_gIBSCBS_def p_vBC_def p_vIBS_def p_vCBS_def p_pCBS_def p_pIBSUF_def
    p_pIBSMun_def p_vIS_def
  have lit: "fl_ratio 100000 100 = Fin 125 3"
    by (simp add: fl_eval)
  show "well_shaped obj"
    by (simp add: well_shaped_def container_paths_def obj_def paths)
  have fv: "field_value (conv_2026 fstr) obj p_vBC = Inr (Fin 125 3)"
    "field_value (conv_rtc fstr) obj p_vBC = Inr (Fin 125 3)"
    by (simp_all add: field_value_def obj_def paths conv_2026_def conv_rtc_def py_or_def lit)
  have m: "lookup_path obj p = None"
    if "p \<in> {p_vIBS, p_vCBS, p_pCBS, p_pIBSUF, p_pIBSMun, p_vIS}" for p
    using that by (auto simp: obj_def paths)
  show "convertible (conv_2026 fstr) obj" "convertible (conv_rtc fstr) obj"
    by (simp_all add: convertible_def numeric_paths_def fv m field_value_missing)
  show "hashable (nobj_of obj)"
    by (simp add: nobj_of_def obj_def)
  show "lookup_path obj p_vIS = None"
    by (simp add: m)
qed

text \<open>
  Claim C7, as the code has it. In both services the lines of the 2026 entry are extracted
  from the external result, one per external line result, and the excise of a line is
  \<open>round(vIS, 2)\<close> of the excise amount \<open>tribCalc.IS.vIS\<close> that the external result
  carries for it, and \<open>0\<close> when it carries none; no commodity code enters these amounts
  (\<open>calcular_transicao\<close> leaves \<open>isInfo\<close> empty as well). The excise total is
  \<open>round(sum of the lines' excise, 2)\<close>, so it is \<open>0\<close> when no external line result carries
  an excise amount.
\<close>

theorem excise_2026_is_external:
  "(calcular_transicao fstr resultado_api itens_input tributos_atuais = Inr anos \<longrightarrow>
      (\<forall>y \<in> set anos. y_ano y = 2026 \<longrightarrow>
         (\<exists>objetos objs.
            py_get resultado_api ''objetos'' (PList []) = Inr objetos
            \<and> py_iter objetos = Inr objs
            \<and> list_all2 (\<lambda>obj r.
                  (\<exists>vIS. field_value (conv_2026 fstr) obj p_vIS = Inr vIS
                        \<and> l_is r = py_round vIS 2)
                  \<and> l_isInfo r = None
                  \<and> (lookup_path obj p_vIS = None \<longrightarrow> l_is r = Fin 0 0))
                objs (y_itens y)
            \<and> t_is (y_total y) = py_round (py_sum (map l_is (y_itens y))) 2
            \<and> (list_all (\<lambda>obj. lookup_path obj p_vIS = None) objs
                \<longrightarrow> t_is (y_total y) = Fin 0 0))))
   \<and> (calcular_projecao_rtc fstr post base_url itens_input tributos_atuais = Inr anos_b \<longrightarrow>
      (\<forall>y \<in> set anos_b. y_ano y = 2026 \<longrightarrow>
         (\<exists>resultado objetos objs.
            post_year post base_url 2026 = Inr resultado
            \<and> py_get resultado ''objetos'' (PList []) = Inr objetos
            \<and> py_iter objetos = Inr objs
            \<and> list_all2 (\<lambda>obj r.
                  (\<exists>vIS. field_value (conv_rtc fstr) obj p_vIS = Inr vIS
                        \<and> l_is r = py_round vIS 2)
                  \<and> (lookup_path obj p_vIS = None \<longrightarrow> l_is r = Fin 0 0))
                objs (y_itens y)
            \<and> t_is (y_total y) = py_round (py_sum (map l_is (y_itens y))) 2
            \<and> (list_all (\<lambda>obj. lookup_path obj p_vIS = None) objs
                \<longrightarrow> t_is (y_total y) = Fin 0 0))))"
proof (intro conjI impI ballI)
  fix y
  assume "calcular_transicao fstr resultado_api itens_input tributos_atuais = Inr anos"
    and "y \<in> set anos" and "y_ano y = 2026"
  from year_2026_entry [OF this] obtain objetos objs cfg where
    o: "py_get resultado_api ''objetos'' (PList []) = Inr objetos" "py_iter objetos = Inr objs"
    and l: "list_all2 (\<lambda>obj r. extrair_item_2026 fstr obj itens_input = Inr r) objs (y_itens y)"
    and t: "y_total y = year_total cfg (legacy_base tributos_atuais) (y_itens y)"
    by blast
  let ?P = "\<lambda>obj r. (\<exists>vIS. field_value (conv_2026 fstr) obj p_vIS = Inr vIS
                        \<and> l_is r = py_round vIS 2)
                  \<and> l_isInfo r = None
                  \<and> (lookup_path obj p_vIS = None \<longrightarrow> l_is r = Fin 0 0)"
  have "?P obj r" if "extrair_item_2026 fstr obj itens_input = Inr r" for obj r
    using that convertible_vIS [of "conv_2026 fstr" obj]
    by (auto simp: extrair_item_2026_Inr_iff Let_def field_value_missing)
  with l have p: "list_all2 ?P objs (y_itens y)"
    by (rule list_all2_mono)
  have s: "t_is (y_total y) = py_round (py_sum (map l_is (y_itens y))) 2"
    by (simp add: t year_total_fields)
  have "t_is (y_total y) = Fin 0 0" if "list_all (\<lambda>obj. lookup_path obj p_vIS = None) objs"
  proof -
    from p have "list_all2 (\<lambda>obj r. lookup_path obj p_vIS = None \<longrightarrow> l_is r = Fin 0 0)
                   objs (y_itens y)"
      by (rule list_all2_mono) simp
    from list_all2_zero_is [OF this that] show ?thesis
      by (simp add: s py_sum_zeros)
  qed
  with o p s show "\<exists>objetos objs.
            py_get resultado_api ''objetos'' (PList []) = Inr objetos
            \<and> py_iter objetos = Inr objs
            \<and> list_all2 ?P objs (y_itens y)
            \<and> t_is (y_total y) = py_round (py_sum (map l_is (y_itens y))) 2
            \<and> (list_all (\<lambda>obj. lookup_path obj p_vIS = None) objs
                \<longrightarrow> t_is (y_total y) = Fin 0 0)"
    by blast
next
  fix y
  assume r: "calcular_projecao_rtc fstr post base_url itens_input tributos_atuais = Inr anos_b"
    and y: "y \<in> set anos_b" and a: "y_ano y = 2026"
  from calcular_projecao_rtc_entry [OF r y] obtain cfg resultado where
    p: "post_year post base_url (c_ano cfg) = Inr resultado" and
    e: "ano_rtc fstr itens_input (legacy_base tributos_atuais) cfg resultado = Inr y"
    by blast
  from ano_rtc_Inr(1) [OF e] a p have p26: "post_year post base_url 2026 = Inr resultado"
    by simp
  from ano_rtc_Inr(5) [OF e] obtain objetos objs where
    o: "py_get resultado ''objetos'' (PList []) = Inr objetos" "py_iter objetos = Inr objs"
    and l: "list_all2 (\<lambda>obj r. extrair_item_rtc fstr (inp_by_num itens_input) obj = Inr r)
              objs (y_itens y)"
    by (auto simp: extrair_itens_rtc_Inr)
  let ?P = "\<lambda>obj r. (\<exists>vIS. field_value (conv_rtc fstr) obj p_vIS = Inr vIS
                        \<and> l_is r = py_round vIS 2)
                  \<and> (lookup_path obj p_vIS = None \<longrightarrow> l_is r = Fin 0 0)"
  have "?P obj r" if "extrair_item_rtc fstr (inp_by_num itens_input) obj = Inr r" for obj r
    using that convertible_vIS [of "conv_rtc fstr" obj]
    by (auto simp: extrair_item_rtc_Inr_iff Let_def field_value_missing)
  with l have q: "list_all2 ?P objs (y_itens y)"
    by (rule list_all2_mono)
  have s: "t_is (y_total y) = py_round (py_sum (map l_is (y_itens y))) 2"
    using ano_rtc_Inr(2) [OF e] by (simp add: year_total_fields)
  have "t_is (y_total y) = Fin 0 0" if "list_all (\<lambda>obj. lookup_path obj p_vIS = None) objs"
  proof -
    from q have "list_all2 (\<lambda>obj r. lookup_path obj p_vIS = None \<longrightarrow> l_is r = Fin 0 0)
                   objs (y_itens y)"
      by (rule list_all2_mono) simp
    from list_all2_zero_is [OF this that] show ?thesis
      by (simp add: s py_sum_zeros)
  qed
  with p26 o q s show "\<exists>resultado objetos objs.
            post_year post base_url 2026 = Inr resultado
            \<and> py_get resultado ''objetos'' (PList []) = Inr objetos
            \<and> py_iter objetos = Inr objs
            \<and> list_all2 ?P objs (y_itens y)
            \<and> t_is (y_total y) = py_round (py_sum (map l_is (y_itens y))) 2
            \<and> (list_all (\<lambda>obj. lookup_path obj p_vIS = None) objs
                \<longrightarrow> t_is (y_total y) = Fin 0 0)"
    by blast
qed


theorem excise_2026_is_external_witness:
  "(let a = calcular_transicao sem_texto exemplo_resultado_sem_is [exemplo_item_tabaco] None;
        y = projr a ! 0
    in \<not> isl a \<and> y_ano y = 2026
     \<and> map l_is (y_itens y) = [Fin 0 0]
     \<and> t_is (y_total y) = Fin 0 0
     \<and> detectar_is (in_ncm exemplo_item_tabaco) \<noteq> None)
   \<and> (let b = calcular_projecao_rtc sem_texto (\<lambda>url year. Inr exemplo_resultado_sem_is)
                 LOCAL_URL [exemplo_item_tabaco] None;
        y = projr b ! 0
    in \<not> isl b \<and> y_ano y = 2026
     \<and> map l_is (y_itens y) = [Fin 0 0]
     \<and> t_is (y_total y) = Fin 0 0)"
proof -
  define obj where "obj = PDict [(''nObj'', PInt 1),
               (''tribCalc'', PDict [(''IBSCBS'', PDict [(''gIBSCBS'', PDict
                   [(''vBC'', PFloat (fl_ratio 100000 100))])])])]"
  define itens where "itens = [exemplo_item_tabaco]"
  define a where "a = calcular_transicao sem_texto exemplo_resultado_sem_is itens None"
  define b where "b = calcular_projecao_rtc sem_texto (\<lambda>url year. Inr exemplo_resultado_sem_is)
                 LOCAL_URL itens None"
  note sh = exemplo_sem_is_shape [folded obj_def]
  have g1: "py_get exemplo_resultado_sem_is ''objetos'' (PList []) = Inr (PList [obj])"
    by (simp add: exemplo_resultado_sem_is_def obj_def)
  have g2: "py_iter (PList [obj]) = Inr [obj]"
    by simp
  obtain ra where ra: "extrair_item_2026 sem_texto obj itens = Inr ra"
    by (simp add: extrair_item_2026_Inr_iff sh)
  obtain rb where rb: "extrair_item_rtc sem_texto (inp_by_num itens) obj = Inr rb"
    by (simp add: extrair_item_rtc_Inr_iff sh)
  have g3: "emap (\<lambda>obj. extrair_item_2026 sem_texto obj itens) [obj] = Inr [ra]"
    using ra by simp
  define anos where "anos = map (\<lambda>cfg. ano_transicao cfg (legacy_base None)
                           (if c_ano cfg = 2026 then [ra]
                            else map (item_projetado cfg) itens)) TRANSITION_YEARS"
  have ea: "a = Inr anos"
    unfolding a_def anos_def by (rule calcular_transicao_returns [OF g1 g2 g3])
  have ya: "anos ! 0 \<in> set anos" "y_ano (anos ! 0) = 2026"
    by (simp_all add: anos_def schedule_map_first schedule_first_year ano_transicao_def
        TRANSITION_YEARS_def)
  from excise_2026_is_external [of sem_texto exemplo_resultado_sem_is itens None anos,
      THEN conjunct1, rule_format, OF ea [unfolded a_def] ya]
  have ca: "map l_is (y_itens (anos ! 0)) = [Fin 0 0] \<and> t_is (y_total (anos ! 0)) = Fin 0 0"
    using sh(5) by (auto simp: g1 list_all2_Cons1)
  have "\<exists>y. ano_rtc sem_texto itens (legacy_base None) cfg exemplo_resultado_sem_is = Inr y"
    for cfg
    using aliq_ef_returns
    by (simp add: ano_rtc_def g1 extrair_itens_rtc_def rb Let_def ebind_Inr_iff) metis
  then have "\<forall>cfg \<in> set TRANSITION_YEARS. \<exists>y. \<exists>resultado.
      post_year (\<lambda>url year. Inr exemplo_resultado_sem_is) LOCAL_URL (c_ano cfg) = Inr resultado
      \<and> ano_rtc sem_texto itens (legacy_base None) cfg resultado = Inr y"
    by (simp add: post_year_always)
  from list_all2_choice [OF this] obtain anos_b where
    lb: "list_all2 (\<lambda>cfg y. \<exists>resultado.
      post_year (\<lambda>url year. Inr exemplo_resultado_sem_is) LOCAL_URL (c_ano cfg) = Inr resultado
      \<and> ano_rtc sem_texto itens (legacy_base None) cfg resultado = Inr y)
      TRANSITION_YEARS anos_b"
    by blast
  then have eb: "b = Inr anos_b"
    by (simp add: b_def calcular_projecao_rtc_Inr post_year_always)
  from list_all2_lengthD [OF lb] have "0 < length anos_b"
    by (simp add: schedule_length)
  moreover have "TRANSITION_YEARS \<noteq> []"
    using schedule_first_year(2) by simp
  with list_all2_nthD [OF lb, of 0] obtain resultado where
    "ano_rtc sem_texto itens (legacy_base None) (TRANSITION_YEARS ! 0) resultado
       = Inr (anos_b ! 0)"
    by (auto simp: schedule_first_year)
  ultimately have yb: "anos_b ! 0 \<in> set anos_b" "y_ano (anos_b ! 0) = 2026"
    using ano_rtc_Inr(1) by (simp_all add: schedule_first_year)
  from excise_2026_is_external [of sem_texto _ itens None _
      "\<lambda>url year. Inr exemplo_resultado_sem_is" LOCAL_URL anos_b,
      THEN conjunct2, rule_format, OF eb [unfolded b_def] yb]
  have cb: "map l_is (y_itens (anos_b ! 0)) = [Fin 0 0] \<and> t_is (y_total (anos_b ! 0)) = Fin 0 0"
    using sh(5) by (auto simp: post_year_always g1 list_all2_Cons1)
  have "detectar_is (in_ncm exemplo_item_tabaco) \<noteq> None"
    by (simp add: exemplo_item_tabaco_def detectar_is_def prefix4_of_def IS_CATEGORIES_def)
  with ea ya(2) ca eb yb(2) cb
  have "(\<not> isl a \<and> y_ano (projr a ! 0) = 2026
     \<and> map l_is (y_itens (projr a ! 0)) = [Fin 0 0]
     \<and> t_is (y_total (projr a ! 0)) = Fin 0 0
     \<and> detectar_is (in_ncm exemplo_item_tabaco) \<noteq> None)
   \<and> (\<not> isl b \<and> y_ano (projr b ! 0) = 2026
     \<and> map l_is (y_itens (projr b ! 0)) = [Fin 0 0]
     \<and> t_is (y_total (projr b ! 0)) = Fin 0 0)"
    by simp
  then show ?thesis
    unfolding Let_def a_def b_def itens_def .
qed

text \<open>
  The claim as worded, an excise of \<open>0\<close> in 2026 for every projection, fails on the code:
  for the tobacco line and an external result that carries the excise amount \<open>10.00\<close>,
  the 2026 entry of \<open>calcular_transicao\<close> has the excise \<open>10.00\<close> on its line and as its
  excise total.
\<close>

theorem excise_2026_counterexample:
  "\<not> isl (calcular_transicao sem_texto exemplo_resultado_com_is [exemplo_item_tabaco] None)
   \<and> y_ano (projr (calcular_transicao sem_texto exemplo_resultado_com_is
                     [exemplo_item_tabaco] None) ! 0) = 2026
   \<and> map l_is (y_itens (projr (calcular_transicao sem_texto exemplo_resultado_com_is
                                 [exemplo_item_tabaco] None) ! 0)) = [fl_ratio 1000 100]
   \<and> t_is (y_total (projr (calcular_transicao sem_texto exemplo_resultado_com_is
                             [exemplo_item_tabaco] None) ! 0)) = fl_ratio 1000 100
   \<and> fl_ratio 1000 100 \<noteq> Fin 0 0
   \<and> detectar_is (in_ncm exemplo_item_tabaco) \<noteq> None"
proof -
  from exemplo_com_is_line obtain r where
    r: "extrair_item_2026 sem_texto
          (PDict [(''nObj'', PInt 1),
                  (''tribCalc'', PDict [(''IS'', PDict [(''vIS'', PFloat (fl_ratio 1000 100))])])])
          [exemplo_item_tabaco] = Inr r"
    and i: "l_is r = Fin 5 1"
    by blast
  have lit: "fl_ratio 1000 100 = Fin 5 1"
    by (simp add: fl_eval)
  have t: "py_round (py_sum [Fin 5 1]) 2 = Fin 5 1"
    by (simp add: py_sum_def float_ops_eval)
  define obj where "obj = PDict [(''nObj'', PInt 1),
                  (''tribCalc'', PDict [(''IS'', PDict [(''vIS'', PFloat (fl_ratio 1000 100))])])]"
  have g1: "py_get exemplo_resultado_com_is ''objetos'' (PList []) = Inr (PList [obj])"
    by (simp add: exemplo_resultado_com_is_def obj_def)
  have g2: "py_iter (PList [obj]) = Inr [obj]"
    by simp
  have g3: "emap (\<lambda>obj. extrair_item_2026 sem_texto obj [exemplo_item_tabaco]) [obj] = Inr [r]"
    using r by (simp add: obj_def)
  note calcular_transicao_returns [OF g1 g2 g3, of None]
  moreover have "detectar_is (in_ncm exemplo_item_tabaco) \<noteq> None"
    by (simp add: exemplo_item_tabaco_def detectar_is_def prefix4_of_def IS_CATEGORIES_def)
  ultimately show ?thesis
    by (simp add: schedule_map_first schedule_first_year ano_transicao_def year_total_fields
        i t lit)
qed



end
